theory Spec2Isabelle
  imports Main "HOL-Library.Extended_Nat" "HOL-Library.AList"
begin

section \<open>The DOM as the host provides it\<close>

text \<open>
  YEH works on a live document. The model fixes one document tree whose shape does not
  change while a function runs. An element is named by its position: the list of child
  indices (counted among element children, as \<^verbatim>\<open>parentNode.children\<close> counts them) from
  the element up to the root element, innermost index first. \<open>Element []\<close> is the root
  element, whose parent node is the document; \<open>Element (i # p)\<close> is child number \<open>i\<close> of
  \<open>Element p\<close>. Two elements are the same node exactly when their positions are equal.

  \<open>window\<close> is an event target but not a node: it can be the container of a
  registration. The origin of an event is a node; an event whose target is \<open>window\<close>
  itself is outside the model.
\<close>

type_synonym path = "nat list"

datatype node = Document | Element path

datatype eventTarget = Window | Node node

text \<open>\<^verbatim>\<open>node.parentNode\<close>: \<open>None\<close> is JavaScript's \<open>null\<close>.\<close>

fun parentNode :: "node \<Rightarrow> node option" where
  "parentNode Document = None"
| "parentNode (Element []) = Some Document"
| "parentNode (Element (i # p)) = Some (Element p)"

text \<open>
  \<^verbatim>\<open>container.contains(target)\<close>, the host's test: \<open>target\<close> is \<open>container\<close> or one of
  its descendants.
\<close>

function contains :: "node \<Rightarrow> node \<Rightarrow> bool" where
  "contains c Document = (c = Document)"
| "contains c (Element []) = (c = Element [] \<or> c = Document)"
| "contains c (Element (i # p)) = (c = Element (i # p) \<or> contains c (Element p))"
  by pat_completeness auto
termination
  by (relation "measure (\<lambda>(c, t). case t of Document \<Rightarrow> 0 | Element p \<Rightarrow> length p)") simp_all

text \<open>The node reached from \<open>n\<close> after \<open>k\<close> steps of \<^verbatim>\<open>parentNode\<close>, if there is one.\<close>

fun nth_parent :: "nat \<Rightarrow> node \<Rightarrow> node option" where
  "nth_parent 0 n = Some n"
| "nth_parent (Suc k) n = (case parentNode n of None \<Rightarrow> None | Some p \<Rightarrow> nth_parent k p)"

section \<open>calculateDOMDistance\<close>

text \<open>
  \<^verbatim>\<open>
  calculateDOMDistance(target, container) {
      if (container === document || container === window) return 1000;
      if (!container.contains || !container.contains(target)) return Infinity;
      let distance = 0;
      let current = target;
      while (current && current !== container) {
          current = current.parentNode;
          distance++;
      }
      return distance;
  }
  \<close>
  A distance is an \<open>enat\<close>; \<open>\<infinity>\<close> is JavaScript's \<open>Infinity\<close>. The loop is \<open>walk\<close>, with
  \<open>current\<close> an optional node (\<open>None\<close> for \<open>null\<close>).
\<close>

fun depth :: "node option \<Rightarrow> nat" where
  "depth None = 0"
| "depth (Some Document) = 1"
| "depth (Some (Element p)) = length p + 2"

function walk :: "node option \<Rightarrow> node \<Rightarrow> nat \<Rightarrow> nat" where
  "walk None container distance = distance"
| "walk (Some current) container distance =
     (if current \<noteq> container then walk (parentNode current) container (distance + 1)
      else distance)"
  by pat_completeness auto
termination
proof (relation "measure (\<lambda>(current, container, distance). depth current)")
  show "wf (measure (\<lambda>(current, container, distance). depth current))" by simp
next
  fix current container :: node and distance :: nat
  assume "current \<noteq> container"
  show "((parentNode current, container, distance + 1), (Some current, container, distance))
          \<in> measure (\<lambda>(current, container, distance). depth current)"
    by (cases current rule: parentNode.cases) simp_all
qed

text \<open>\<^verbatim>\<open>window\<close> has no \<^verbatim>\<open>contains\<close> method; every node has one.\<close>

definition calculateDOMDistance :: "node \<Rightarrow> eventTarget \<Rightarrow> enat" where
  "calculateDOMDistance target container =
     (if container = Node Document \<or> container = Window then enat 1000
      else case container of
             Window \<Rightarrow> \<infinity>
           | Node c \<Rightarrow> if \<not> contains c target then \<infinity> else enat (walk (Some target) c 0))"

section \<open>JavaScript values\<close>

text \<open>
  The values a configuration can hold. \<open>JObject\<close> lists the own properties in the order
  \<^verbatim>\<open>Object.entries\<close> gives them; \<open>JHostObject\<close> is an object of the host (an
  \<^verbatim>\<open>AbortSignal\<close>) that the code only passes on. A number is \<open>NaN\<close> or a finite
  rational; the infinities are not represented.
\<close>

datatype number = NaN | Finite rat

datatype jsval =
    JUndefined
  | JNull
  | JBool bool
  | JNumber number
  | JString string
  | JArray "jsval list"
  | JObject "(string \<times> jsval) list"
  | JFunction
  | JHostObject string

fun truthy_number :: "number \<Rightarrow> bool" where
  "truthy_number NaN = False"
| "truthy_number (Finite r) = (r \<noteq> 0)"

text \<open>
  An event configuration with fields of the types that \<^verbatim>\<open>yeh.d.ts\<close> declares: an event
  type as a string, or an object with a string \<^verbatim>\<open>type\<close> and optional \<^verbatim>\<open>handler\<close> (a
  string), \<^verbatim>\<open>throttle\<close> and \<^verbatim>\<open>debounce\<close> (numbers) and \<^verbatim>\<open>options\<close> (a plain object);
  \<open>None\<close> is \<open>undefined\<close>. The registry functions work on these; the validation reads
  the constructor's arguments as any JavaScript values.
\<close>

datatype eventConfig =
    EvString string
  | EvObject (ec_type: string) (ec_handler: "string option") (ec_throttle: "number option")
      (ec_debounce: "number option") (ec_options: "(string \<times> jsval) list option")

text \<open>\<^verbatim>\<open>typeof eventConfig === 'string' ? eventConfig : eventConfig.type\<close>\<close>

fun configType :: "eventConfig \<Rightarrow> string" where
  "configType (EvString s) = s"
| "configType (EvObject t h th db opts) = t"

section \<open>Strings\<close>

text \<open>
  A string is a list of characters with the codes 0 to 255 (Latin-1); strings with other
  code units are outside the model. \<^verbatim>\<open>toLowerCase\<close> and \<^verbatim>\<open>toUpperCase\<close> on the ASCII
  letters (tag names and event types are ASCII), the decimal numeral of an index as a
  template literal prints it, and \<^verbatim>\<open>s.split(' ').join('.')\<close>, which replaces every space
  by a dot.
\<close>

definition toLowerCase :: "string \<Rightarrow> string" where
  "toLowerCase s =
     map (\<lambda>c. case map_of (zip ''ABCDEFGHIJKLMNOPQRSTUVWXYZ'' ''abcdefghijklmnopqrstuvwxyz'') c of
                  None \<Rightarrow> c | Some l \<Rightarrow> l) s"

definition toUpperCase :: "string \<Rightarrow> string" where
  "toUpperCase s =
     map (\<lambda>c. case map_of (zip ''abcdefghijklmnopqrstuvwxyz'' ''ABCDEFGHIJKLMNOPQRSTUVWXYZ'') c of
                  None \<Rightarrow> c | Some u \<Rightarrow> u) s"

function string_of_nat :: "nat \<Rightarrow> string" where
  "string_of_nat n =
     (if n < 10 then [''0123456789'' ! n]
      else string_of_nat (n div 10) @ [''0123456789'' ! (n mod 10)])"
  by pat_completeness auto
termination
  by (relation "measure (\<lambda>n. n)") simp_all

declare string_of_nat.simps [simp del]

definition split_join :: "string \<Rightarrow> string" where
  "split_join s = map (\<lambda>c. if c = CHR '' '' then CHR ''.'' else c) s"

section \<open>Elements as the host describes them\<close>

text \<open>
  What YEH reads from an element, given by position. \<^verbatim>\<open>className\<close> is a string on an
  HTML element and an \<^verbatim>\<open>SVGAnimatedString\<close> object (with a \<^verbatim>\<open>baseVal\<close>) on an SVG
  element. \<open>closest\<close> is the native \<^verbatim>\<open>element.closest(selector)\<close> and
  \<open>querySelectorAll\<close> the document's selector query; CSS matching is the host's.

  The host throws where YEH hands it something it does not accept:
  \<^item> \<^verbatim>\<open>document.querySelectorAll(selector)\<close> and \<^verbatim>\<open>element.closest(selector)\<close> throw a
    \<^verbatim>\<open>SyntaxError\<close> when the selector is not valid CSS (\<open>validSelector\<close> is false); the
    fields \<open>querySelectorAll\<close> and \<open>closest\<close> are read for valid selectors only;
  \<^item> \<^verbatim>\<open>addEventListener(type, listener, options)\<close> throws a \<^verbatim>\<open>TypeError\<close> when it cannot
    read the options object (a \<^verbatim>\<open>signal\<close> that is not an \<^verbatim>\<open>AbortSignal\<close>):
    \<open>acceptsOptions\<close> is false. The options \<^verbatim>\<open>false\<close> are always accepted.
\<close>

datatype jsError = TypeError | SyntaxError

datatype classNameVal = ClassString string | SVGAnimatedString string

record dom =
  tagName :: "path \<Rightarrow> string"
  elementId :: "path \<Rightarrow> string"
  className :: "path \<Rightarrow> classNameVal"
  hasAttribute :: "path \<Rightarrow> string \<Rightarrow> bool"
  classList :: "path \<Rightarrow> string list"
  validSelector :: "string \<Rightarrow> bool"
  closest :: "path \<Rightarrow> string \<Rightarrow> path option"
  querySelectorAll :: "string \<Rightarrow> path list"
  acceptsOptions :: "(string \<times> jsval) list \<Rightarrow> bool"

text \<open>
  \<^verbatim>\<open>element.parentNode ? Array.from(element.parentNode.children).indexOf(element) : 0\<close>:
  the root element is the only element child of the document.
\<close>

fun childIndex :: "path \<Rightarrow> nat" where
  "childIndex [] = 0"
| "childIndex (i # p) = i"

text \<open>
  \<^verbatim>\<open>
  getElementKey(element) {
      if (element === document) return 'document';
      if (element === window) return 'window';
      if (!element || !element.tagName) return 'unknown';
      const tagName = element.tagName.toLowerCase();
      const id = element.id ? `#${element.id}` : '';
      let className = '';
      if (element.className) {
          if (typeof element.className === 'string') {
              className = `.${element.className.split(' ').join('.')}`;
          } else if (element.className.baseVal) {
              className = element.className.baseVal ? `.${element.className.baseVal.split(' ').join('.')}` : '';
          }
      }
      const index = element.parentNode ? Array.from(element.parentNode.children).indexOf(element) : 0;
      return `${tagName}${id}${className}[${index}]`;
  }
  \<close>
  An empty string is falsy; an \<^verbatim>\<open>SVGAnimatedString\<close> object is truthy.
\<close>

fun getElementKey :: "dom \<Rightarrow> eventTarget \<Rightarrow> string" where
  "getElementKey d (Node Document) = ''document''"
| "getElementKey d Window = ''window''"
| "getElementKey d (Node (Element p)) =
     (if tagName d p = [] then ''unknown''
      else
        let tag = toLowerCase (tagName d p);
            ident = (if elementId d p \<noteq> [] then ''#'' @ elementId d p else []);
            cls = (case className d p of
                     ClassString s \<Rightarrow> if s \<noteq> [] then ''.'' @ split_join s else []
                   | SVGAnimatedString baseVal \<Rightarrow>
                       if baseVal \<noteq> [] then ''.'' @ split_join baseVal else []);
            index = childIndex p
        in tag @ ident @ cls @ ''['' @ string_of_nat index @ '']'')"

section \<open>The instance\<close>

text \<open>
  The settings the constructor fixes, and what the handler lookup of \<^verbatim>\<open>resolveHandler\<close>
  can see: \<open>instanceFunctions name\<close> is \<^verbatim>\<open>typeof this[name] === 'function'\<close>,
  \<open>scopedMethods eventType name\<close> is
  \<^verbatim>\<open>this.methods[eventType] && typeof this.methods[eventType][name] === 'function'\<close>,
  \<open>globalMethods name\<close> is \<^verbatim>\<open>typeof this.methods[name] === 'function'\<close> and
  \<open>windowFunctions name\<close> is \<^verbatim>\<open>typeof window[name] === 'function'\<close>.
\<close>

record functionTables =
  instanceFunctions :: "string \<Rightarrow> bool"
  scopedMethods :: "string \<Rightarrow> string \<Rightarrow> bool"
  globalMethods :: "string \<Rightarrow> bool"
  windowFunctions :: "string \<Rightarrow> bool"

record settings =
  aliases :: "string \<Rightarrow> string \<Rightarrow> string option"
  fnTables :: functionTables
  enableGlobalFallback :: bool
  methodsFirst :: bool
  enableHandlerValidation :: bool
  passiveEvents :: "string list"
  passiveSupported :: bool
  handlerPrefix :: string
  autoTargetResolution :: bool
  targetResolutionEvents :: "string list"
  enableDistanceCache :: bool
  actionableAttributes :: "string list"
  actionableClasses :: "string list"
  actionableTags :: "string list"
  actionableEnabled :: bool

text \<open>
  The listener handed to \<^verbatim>\<open>addEventListener\<close>: the instance itself, or an object whose
  \<^verbatim>\<open>handleEvent\<close> is the throttled or debounced \<^verbatim>\<open>handleEvent\<close> of the instance, with
  its delay and timer key. The options are \<^verbatim>\<open>false\<close> or an object.
\<close>

datatype listener = Self | Throttled number string | Debounced number string

datatype listenerOptions = NoOptions | Options "(string \<times> jsval) list"

record tracked =
  tr_type :: string
  tr_handler :: listener
  tr_options :: listenerOptions

record listenerEntry =
  le_element :: eventTarget
  le_events :: "tracked list"

record handlerInfo =
  hi_element :: eventTarget
  hi_handler :: string
  hi_selector :: string
  hi_config :: eventConfig

text \<open>
  A throttle timer entry holds the handles of its cooldown timer and, once set, of its
  trailing timer. A timer handle is a positive number; 0 stands for a missing (falsy)
  handle.
\<close>

record throttleEntry =
  te_timeout :: nat
  te_trailingTimeout :: nat

text \<open>What the instance asks of the host, in the order it asks.\<close>

datatype hostCall =
    AddEventListener eventTarget string listener listenerOptions
  | RemoveEventListener eventTarget string listener listenerOptions
  | AbortSignal
  | ClearTimeout nat
  | ConsoleWarn string

text \<open>
  The fields of a YEH instance that change. The JavaScript \<^verbatim>\<open>Map\<close>s that the code
  iterates are association lists in insertion order; the others are maps.
  \<open>eventMapping\<close> is the object the constructor was given, selector by selector: its own
  properties in the order of \<^verbatim>\<open>Object.entries\<close>.
\<close>

record yeh =
  config :: settings
  eventMapping :: "(string \<times> eventConfig list) list"
  eventListeners :: "(string \<times> listenerEntry) list"
  elementHandlers :: "eventTarget \<Rightarrow> tracked list option"
  eventHandlerMap :: "string \<Rightarrow> handlerInfo list option"
  throttleTimers :: "(string \<times> throttleEntry) list"
  debounceTimers :: "(string \<times> nat) list"
  abortController :: bool
  userHasInteracted :: bool
  distanceCache :: "string \<Rightarrow> enat option"
  hostCalls :: "hostCall list"

record event =
  ev_type :: string
  ev_target :: node

section \<open>The distance cache\<close>

text \<open>
  \<^verbatim>\<open>
  calculateDistanceWithCache(target, container) {
      if (!this.enableDistanceCache) return this.calculateDOMDistance(target, container);
      const cacheKey = `${this.getElementKey(target)}-${this.getElementKey(container)}`;
      if (this.distanceCache.has(cacheKey)) return this.distanceCache.get(cacheKey);
      const distance = this.calculateDOMDistance(target, container);
      this.distanceCache.set(cacheKey, distance);
      return distance;
  }
  \<close>
  The function returns the distance and the instance with its cache.
\<close>

definition cacheKey :: "dom \<Rightarrow> node \<Rightarrow> eventTarget \<Rightarrow> string" where
  "cacheKey d target container = getElementKey d (Node target) @ ''-'' @ getElementKey d container"

definition calculateDistanceWithCache :: "dom \<Rightarrow> yeh \<Rightarrow> node \<Rightarrow> eventTarget \<Rightarrow> enat \<times> yeh" where
  "calculateDistanceWithCache d st target container =
     (if \<not> enableDistanceCache (config st) then (calculateDOMDistance target container, st)
      else
        case distanceCache st (cacheKey d target container) of
          Some cached \<Rightarrow> (cached, st)
        | None \<Rightarrow>
            let distance = calculateDOMDistance target container
            in (distance,
                st\<lparr>distanceCache := (distanceCache st)(cacheKey d target container \<mapsto> distance)\<rparr>))"

section \<open>Dispatch\<close>

text \<open>
  \<^verbatim>\<open>
  checkUserInteraction(event) {
      if (!this.userHasInteracted && !this.passiveEvents.includes(event.type)) {
          this.userHasInteracted = true;
      }
  }
  hasUserInteracted() { return this.userHasInteracted; }
  resetUserInteracted() { this.userHasInteracted = false; }
  \<close>
\<close>

definition checkUserInteraction :: "yeh \<Rightarrow> event \<Rightarrow> yeh" where
  "checkUserInteraction st ev =
     (if \<not> userHasInteracted st \<and> ev_type ev \<notin> set (passiveEvents (config st))
      then st\<lparr>userHasInteracted := True\<rparr> else st)"

definition hasUserInteracted :: "yeh \<Rightarrow> bool \<times> yeh" where
  "hasUserInteracted st = (userHasInteracted st, st)"

definition resetUserInteracted :: "yeh \<Rightarrow> yeh" where
  "resetUserInteracted st = st\<lparr>userHasInteracted := False\<rparr>"

text \<open>
  The loop of \<^verbatim>\<open>handleEvent\<close> that picks the closest handler:
  \<^verbatim>\<open>
  let closestHandler = null;
  let closestDistance = Infinity;
  for (const handlerInfo of handlers) {
      const distance = this.calculateDistanceWithCache(event.target, handlerInfo.element);
      if (distance !== Infinity && distance < closestDistance) {
          closestDistance = distance;
          closestHandler = handlerInfo;
      }
  }
  \<close>
  The loop function takes the handlers still to visit and the loop variables, and returns
  the final \<^verbatim>\<open>closestHandler\<close> and \<^verbatim>\<open>closestDistance\<close> with the instance (its cache).
\<close>

fun closestLoop ::
  "dom \<Rightarrow> node \<Rightarrow> handlerInfo list \<Rightarrow> handlerInfo option \<Rightarrow> enat \<Rightarrow> yeh
     \<Rightarrow> handlerInfo option \<times> enat \<times> yeh" where
  "closestLoop d target [] closestHandler closestDistance st =
     (closestHandler, closestDistance, st)"
| "closestLoop d target (handlerInfo # handlers) closestHandler closestDistance st =
     (case calculateDistanceWithCache d st target (hi_element handlerInfo) of
        (distance, st') \<Rightarrow>
          if distance \<noteq> \<infinity> \<and> distance < closestDistance
          then closestLoop d target handlers (Some handlerInfo) distance st'
          else closestLoop d target handlers closestHandler closestDistance st')"

text \<open>
  \<^verbatim>\<open>
  resolveMethodName(methodName, eventType) {
      const eventAliases = this.aliases[eventType];
      return (eventAliases && eventAliases[methodName]) || methodName;
  }
  \<close>
  An alias that is the empty string is falsy.
\<close>

definition resolveMethodName :: "yeh \<Rightarrow> string \<Rightarrow> string \<Rightarrow> string" where
  "resolveMethodName st methodName eventType =
     (case aliases (config st) eventType methodName of
        None \<Rightarrow> methodName
      | Some a \<Rightarrow> if a \<noteq> [] then a else methodName)"

text \<open>
  \<^verbatim>\<open>resolveHandler\<close> tries the sources in the order \<^verbatim>\<open>methodsFirst\<close> sets, the global
  scope last and only when \<^verbatim>\<open>enableGlobalFallback\<close> is set. The result names the
  function found.
\<close>

datatype callable =
    InstanceMethod string
  | ScopedMethod string string
  | GlobalMethod string
  | WindowFunction string

datatype handlerSource = FromClass | FromMethods | FromGlobal

fun resolveFrom :: "yeh \<Rightarrow> string \<Rightarrow> string \<Rightarrow> handlerSource list \<Rightarrow> callable option" where
  "resolveFrom st resolvedName eventType [] = None"
| "resolveFrom st resolvedName eventType (FromClass # order) =
     (if instanceFunctions (fnTables (config st)) resolvedName then Some (InstanceMethod resolvedName)
      else resolveFrom st resolvedName eventType order)"
| "resolveFrom st resolvedName eventType (FromMethods # order) =
     (if scopedMethods (fnTables (config st)) eventType resolvedName
      then Some (ScopedMethod eventType resolvedName)
      else if globalMethods (fnTables (config st)) resolvedName then Some (GlobalMethod resolvedName)
      else resolveFrom st resolvedName eventType order)"
| "resolveFrom st resolvedName eventType (FromGlobal # order) =
     (if enableGlobalFallback (config st) \<and> windowFunctions (fnTables (config st)) resolvedName
      then Some (WindowFunction resolvedName)
      else resolveFrom st resolvedName eventType order)"

definition resolveHandler :: "yeh \<Rightarrow> string \<Rightarrow> string \<Rightarrow> callable option" where
  "resolveHandler st handlerName eventType =
     (let resolvedName = resolveMethodName st handlerName eventType;
          resolutionOrder = (if methodsFirst (config st)
                             then [FromMethods, FromClass, FromGlobal]
                             else [FromClass, FromMethods, FromGlobal])
      in resolveFrom st resolvedName eventType resolutionOrder)"

text \<open>
  \<^verbatim>\<open>findActionableTarget(target, boundary)\<close> walks up \<^verbatim>\<open>parentElement\<close> from the target
  to the boundary. The loop returns the element it stops at, or leaves with the last
  value of \<^verbatim>\<open>current\<close>. After the loop the boundary itself is tested for the attributes
  and classes; the document has no \<^verbatim>\<open>hasAttribute\<close>, so the call throws a
  \<^verbatim>\<open>TypeError\<close> there, and no \<^verbatim>\<open>classList\<close>.
\<close>

fun parentElement :: "path \<Rightarrow> node option" where
  "parentElement [] = None"
| "parentElement (i # p) = Some (Element p)"

datatype loopExit = Return node | Leave "node option"

function actionableLoop :: "dom \<Rightarrow> settings \<Rightarrow> node option \<Rightarrow> eventTarget \<Rightarrow> loopExit" where
  "actionableLoop d cfg None boundary = Leave None"
| "actionableLoop d cfg (Some Document) boundary = Leave (Some Document)"
| "actionableLoop d cfg (Some (Element p)) boundary =
     (if Node (Element p) = boundary then Leave (Some (Element p))
      else if list_ex (\<lambda>attr. hasAttribute d p attr) (actionableAttributes cfg)
        then Return (Element p)
      else if list_ex (\<lambda>c. c \<in> set (classList d p)) (actionableClasses cfg)
        then Return (Element p)
      else if tagName d p \<in> set (actionableTags cfg) then Return (Element p)
      else actionableLoop d cfg (parentElement p) boundary)"
  by pat_completeness auto
termination
proof (relation "measure (\<lambda>(d, cfg, current, boundary). depth current)")
  show "wf (measure (\<lambda>(d, cfg, current, boundary). depth current))" by simp
next
  fix d :: dom and cfg :: settings and p :: path and boundary :: eventTarget
  show "((d, cfg, parentElement p, boundary), (d, cfg, Some (Element p), boundary))
          \<in> measure (\<lambda>(d, cfg, current, boundary). depth current)"
    by (cases p) simp_all
qed

definition findActionableTarget ::
  "dom \<Rightarrow> yeh \<Rightarrow> node \<Rightarrow> eventTarget \<Rightarrow> jsError + node option" where
  "findActionableTarget d st target boundary =
     (if \<not> actionableEnabled (config st) then Inr (Some target)
      else
        case actionableLoop d (config st) (Some target) boundary of
          Return current \<Rightarrow> Inr (Some current)
        | Leave None \<Rightarrow> Inr None
        | Leave (Some current) \<Rightarrow>
            if Node current = boundary then
              (case current of
                 Document \<Rightarrow>
                   if actionableAttributes (config st) \<noteq> [] then Inl TypeError else Inr None
               | Element p \<Rightarrow>
                   if list_ex (\<lambda>attr. hasAttribute d p attr) (actionableAttributes (config st))
                     then Inr (Some current)
                   else if list_ex (\<lambda>c. c \<in> set (classList d p)) (actionableClasses (config st))
                     then Inr (Some current)
                   else Inr None)
            else Inr None)"

text \<open>
  \<^verbatim>\<open>findClosest(element, selector)\<close> calls the native \<^verbatim>\<open>closest\<close> of an element, which
  throws when the selector is not valid. The document has no \<^verbatim>\<open>closest\<close>: the fallback
  loop starts at the document and ends at once with \<^verbatim>\<open>null\<close>.
\<close>

fun findClosest :: "dom \<Rightarrow> node \<Rightarrow> string \<Rightarrow> jsError + path option" where
  "findClosest d Document selector = Inr None"
| "findClosest d (Element p) selector =
     (if validSelector d selector then Inr (closest d p selector) else Inl SyntaxError)"

text \<open>
  \<^verbatim>\<open>
  handleEvent(event) {
      const handlers = this.eventHandlerMap.get(event.type);
      if (!handlers || handlers.length === 0) return;
      this.checkUserInteraction(event);
      ... the loop above ...
      if (closestHandler) {
          const handler = this.resolveHandler(closestHandler.handler, event.type);
          if (handler) {
              let resolvedTarget = event.target;
              if (this.autoTargetResolution && this.targetResolutionEvents.includes(event.type)) {
                  const actionableTarget = this.findActionableTarget(event.target, closestHandler.element);
                  if (actionableTarget) {
                      resolvedTarget = actionableTarget;
                  } else if (this.actionableConfig.enabled) {
                      return;
                  }
              }
              const actualClosestElement = this.findClosest(event.target, closestHandler.selector);
              handler.call(this, event, resolvedTarget, actualClosestElement);
              event.stopPropagation();
              return;
          }
      }
  }
  \<close>
  The outcome says what the call did: it returned before the loop (\<open>NoHandlers\<close>), found
  no reachable container (\<open>NoMatch\<close>), found no function for the chosen registration
  (\<open>HandlerMissing\<close>), found no actionable target (\<open>Blocked\<close>), threw, or called the
  function of the chosen registration with the resolved target and the closest element
  matching the registration's selector.
\<close>

datatype outcome =
    NoHandlers
  | NoMatch
  | HandlerMissing handlerInfo
  | Blocked handlerInfo
  | Threw handlerInfo jsError
  | Invoked handlerInfo callable node "path option"

definition findClosestHandler :: "dom \<Rightarrow> yeh \<Rightarrow> event \<Rightarrow> handlerInfo list \<Rightarrow> handlerInfo option \<times> yeh" where
  "findClosestHandler d st ev handlers =
     (case closestLoop d (ev_target ev) handlers None \<infinity> st of
        (closestHandler, closestDistance, st') \<Rightarrow> (closestHandler, st'))"

text \<open>
  \<open>callHandler\<close> is the end of the function, once the target is resolved: the closest
  element matching the selector of the registration is looked up and the handler is
  called with it.
\<close>

definition callHandler ::
  "dom \<Rightarrow> event \<Rightarrow> handlerInfo \<Rightarrow> callable \<Rightarrow> node \<Rightarrow> outcome" where
  "callHandler d ev closestHandler handler resolvedTarget =
     (case findClosest d (ev_target ev) (hi_selector closestHandler) of
        Inl e \<Rightarrow> Threw closestHandler e
      | Inr actualClosestElement \<Rightarrow>
          Invoked closestHandler handler resolvedTarget actualClosestElement)"

definition invokeClosest :: "dom \<Rightarrow> yeh \<Rightarrow> event \<Rightarrow> handlerInfo \<Rightarrow> outcome" where
  "invokeClosest d st ev closestHandler =
     (case resolveHandler st (hi_handler closestHandler) (ev_type ev) of
        None \<Rightarrow> HandlerMissing closestHandler
      | Some handler \<Rightarrow>
          if autoTargetResolution (config st)
             \<and> ev_type ev \<in> set (targetResolutionEvents (config st))
          then
            (case findActionableTarget d st (ev_target ev) (hi_element closestHandler) of
               Inl e \<Rightarrow> Threw closestHandler e
             | Inr (Some actionableTarget) \<Rightarrow>
                 callHandler d ev closestHandler handler actionableTarget
             | Inr None \<Rightarrow>
                 if actionableEnabled (config st) then Blocked closestHandler
                 else callHandler d ev closestHandler handler (ev_target ev))
          else callHandler d ev closestHandler handler (ev_target ev))"

definition handleEvent :: "dom \<Rightarrow> yeh \<Rightarrow> event \<Rightarrow> outcome \<times> yeh" where
  "handleEvent d st ev =
     (case eventHandlerMap st (ev_type ev) of
        None \<Rightarrow> (NoHandlers, st)
      | Some handlers \<Rightarrow>
          if handlers = [] then (NoHandlers, st)
          else
            case findClosestHandler d (checkUserInteraction st ev) ev handlers of
              (None, st') \<Rightarrow> (NoMatch, st')
            | (Some closestHandler, st') \<Rightarrow> (invokeClosest d st' ev closestHandler, st'))"

section \<open>Registering and unregistering\<close>

text \<open>
  \<^verbatim>\<open>
  getElements(selector) {
      if (typeof selector === 'string') {
          if (selector === 'document') return [document];
          if (selector === 'window') return [window];
          return Array.from(document.querySelectorAll(selector));
      }
      return selector instanceof Element ? [selector] : [];
  }
  \<close>
  Selectors are strings here. \<^verbatim>\<open>querySelectorAll\<close> throws a \<^verbatim>\<open>SyntaxError\<close> when the
  selector is not valid CSS.
\<close>

definition getElements :: "dom \<Rightarrow> string \<Rightarrow> jsError + eventTarget list" where
  "getElements d selector =
     (if selector = ''document'' then Inr [Node Document]
      else if selector = ''window'' then Inr [Window]
      else if \<not> validSelector d selector then Inl SyntaxError
      else Inr (map (\<lambda>p. Node (Element p)) (querySelectorAll d selector)))"

text \<open>
  A function that may throw returns \<open>Inl\<close> with the error and the instance as it is at
  the throw, or \<open>Inr\<close> with its result. \<open>after\<close> is the instance in either case.
  \<open>forEach\<close> is a loop whose body may throw: it ends at the first throw.
\<close>

fun after :: "'e \<times> 's + 's \<Rightarrow> 's" where
  "after (Inl (e, s)) = s"
| "after (Inr s) = s"

fun forEach :: "('a \<Rightarrow> 's \<Rightarrow> 'e \<times> 's + 's) \<Rightarrow> 'a list \<Rightarrow> 's \<Rightarrow> 'e \<times> 's + 's" where
  "forEach step [] s = Inr s"
| "forEach step (x # xs) s =
     (case step x s of
        Inl thrown \<Rightarrow> Inl thrown
      | Inr s' \<Rightarrow> forEach step xs s')"

text \<open>
  \<^verbatim>\<open>createWrappedHandler(eventConfig, key, eventType)\<close>: an object configuration with a
  truthy \<^verbatim>\<open>throttle\<close> gets a throttled listener, else one with a truthy \<^verbatim>\<open>debounce\<close>
  a debounced one; everything else is handled by the instance itself.
\<close>

fun truthy_delay :: "number option \<Rightarrow> number option" where
  "truthy_delay None = None"
| "truthy_delay (Some n) = (if truthy_number n then Some n else None)"

fun createWrappedHandler :: "eventConfig \<Rightarrow> string \<Rightarrow> string \<Rightarrow> listener" where
  "createWrappedHandler (EvString s) key eventType = Self"
| "createWrappedHandler (EvObject t h th db opts) key eventType =
     (case truthy_delay th of
        Some delay \<Rightarrow> Throttled delay (key @ ''-'' @ eventType @ ''-throttle'')
      | None \<Rightarrow>
          (case truthy_delay db of
             Some delay \<Rightarrow> Debounced delay (key @ ''-'' @ eventType @ ''-debounce'')
           | None \<Rightarrow> Self))"

text \<open>
  \<^verbatim>\<open>
  getEventOptions(eventConfig) {
      const shouldBePassive = this.passiveSupported && this.passiveEvents.includes(eventConfig.type || eventConfig);
      if (typeof eventConfig === 'string') {
          const options = shouldBePassive ? { passive: true } : {};
          if (this.abortController) options.signal = this.abortController.signal;
          return Object.keys(options).length > 0 ? options : false;
      }
      const options = eventConfig.options || {};
      if (shouldBePassive && options.passive !== false) options.passive = true;
      if (this.abortController && options.signal !== false) options.signal = this.abortController.signal;
      return Object.keys(options).length > 0 ? options : false;
  }
  \<close>
  The function writes \<^verbatim>\<open>passive\<close> and \<^verbatim>\<open>signal\<close> into the \<^verbatim>\<open>options\<close> object of the
  configuration, when it has one. The model returns the options of the listener and keeps
  the stored configuration as the caller gave it; a later call with the same
  configuration computes the same options as long as \<^verbatim>\<open>passiveSupported\<close> and the
  controller are unchanged. An \<^verbatim>\<open>options\<close> that is given is a plain object.
\<close>

definition abortSignal :: jsval where
  "abortSignal = JHostObject ''AbortSignal''"

fun getEventOptions :: "yeh \<Rightarrow> eventConfig \<Rightarrow> listenerOptions" where
  "getEventOptions st (EvString s) =
     (let shouldBePassive = (passiveSupported (config st) \<and> s \<in> set (passiveEvents (config st)));
          options = (if shouldBePassive then [(''passive'', JBool True)] else []);
          options = (if abortController st then AList.update ''signal'' abortSignal options
                     else options)
      in if options \<noteq> [] then Options options else NoOptions)"
| "getEventOptions st (EvObject t h th db opts) =
     (let shouldBePassive =
            (passiveSupported (config st) \<and> t \<noteq> [] \<and> t \<in> set (passiveEvents (config st)));
          options = (case opts of None \<Rightarrow> [] | Some given \<Rightarrow> given);
          options = (if shouldBePassive \<and> map_of options ''passive'' \<noteq> Some (JBool False)
                     then AList.update ''passive'' (JBool True) options else options);
          options = (if abortController st \<and> map_of options ''signal'' \<noteq> Some (JBool False)
                     then AList.update ''signal'' abortSignal options else options)
      in if options \<noteq> [] then Options options else NoOptions)"

text \<open>
  The name of the handler method of a registration:
  \<^verbatim>\<open>
  typeof eventConfig === 'object' && eventConfig.handler
      ? eventConfig.handler
      : this.handlerPrefix
          ? `${this.handlerPrefix}${eventType.charAt(0).toUpperCase() + eventType.slice(1)}`
          : eventType
  \<close>
\<close>

definition prefixedName :: "yeh \<Rightarrow> string \<Rightarrow> string" where
  "prefixedName st eventType =
     (if handlerPrefix (config st) \<noteq> []
      then handlerPrefix (config st) @ toUpperCase (take 1 eventType) @ drop 1 eventType
      else eventType)"

fun handlerMethodName :: "yeh \<Rightarrow> eventConfig \<Rightarrow> string \<Rightarrow> string" where
  "handlerMethodName st (EvString s) eventType = prefixedName st eventType"
| "handlerMethodName st (EvObject t h th db opts) eventType =
     (case h of
        None \<Rightarrow> prefixedName st eventType
      | Some name \<Rightarrow> if name \<noteq> [] then name else prefixedName st eventType)"

text \<open>
  \<^verbatim>\<open>validateResolvedHandler\<close> warns on the console when handler validation is on and no
  function was found; its result is not used.
\<close>

definition validateResolvedHandler :: "yeh \<Rightarrow> callable option \<Rightarrow> string \<Rightarrow> yeh" where
  "validateResolvedHandler st resolvedHandler resolvedName =
     (if \<not> enableHandlerValidation (config st) then st
      else if resolvedHandler = None then st\<lparr>hostCalls := hostCalls st @ [ConsoleWarn resolvedName]\<rparr>
      else st)"

text \<open>
  \<^verbatim>\<open>
  registerEventListener(element, eventConfig, key, selector) {
      const eventType = typeof eventConfig === 'string' ? eventConfig : eventConfig.type;
      const options = this.getEventOptions(eventConfig);
      const handler = this.createWrappedHandler(eventConfig, key, eventType);
      element.addEventListener(eventType, handler, options);
      if (!this.eventListeners.has(key)) this.eventListeners.set(key, { element, events: [] });
      if (!this.elementHandlers.has(element)) this.elementHandlers.set(element, []);
      const handlerMethodName = ...;
      const validatedHandler = this.resolveHandler(handlerMethodName, eventType);
      const resolvedName = this.resolveMethodName(handlerMethodName, eventType);
      this.validateResolvedHandler(handlerMethodName, eventType, validatedHandler, resolvedName);
      this.eventListeners.get(key).events.push({ type: eventType, handler, options });
      this.elementHandlers.get(element).push({ type: eventType, handler, options });
      if (!this.eventHandlerMap.has(eventType)) this.eventHandlerMap.set(eventType, []);
      this.eventHandlerMap.get(eventType).push({ element, handler: handlerMethodName, selector, config: eventConfig });
  }
  \<close>
  The call of \<^verbatim>\<open>addEventListener\<close> is the first effect of the function. When the host
  throws there, the instance is as it was. \<open>listenerAdded\<close> is the instance when the
  function returns: the call to the host and the rest of the body.
\<close>

fun addEventListenerAccepts :: "dom \<Rightarrow> listenerOptions \<Rightarrow> bool" where
  "addEventListenerAccepts d NoOptions = True"
| "addEventListenerAccepts d (Options options) = acceptsOptions d options"

definition listenerAdded ::
  "yeh \<Rightarrow> eventTarget \<Rightarrow> eventConfig \<Rightarrow> string \<Rightarrow> string \<Rightarrow> yeh" where
  "listenerAdded st element eventConfig key selector =
     (let eventType = configType eventConfig;
          options = getEventOptions st eventConfig;
          handler = createWrappedHandler eventConfig key eventType;
          st1 = st\<lparr>hostCalls := hostCalls st @ [AddEventListener element eventType handler options]\<rparr>;
          entry = (case map_of (eventListeners st1) key of
                     None \<Rightarrow> \<lparr>le_element = element, le_events = []\<rparr>
                   | Some e \<Rightarrow> e);
          elementEvents = (case elementHandlers st1 element of None \<Rightarrow> [] | Some es \<Rightarrow> es);
          name = handlerMethodName st1 eventConfig eventType;
          validatedHandler = resolveHandler st1 name eventType;
          resolvedName = resolveMethodName st1 name eventType;
          st2 = validateResolvedHandler st1 validatedHandler resolvedName;
          item = \<lparr>tr_type = eventType, tr_handler = handler, tr_options = options\<rparr>;
          handlers = (case eventHandlerMap st2 eventType of None \<Rightarrow> [] | Some hs \<Rightarrow> hs)
      in st2\<lparr>eventListeners :=
               AList.update key (entry\<lparr>le_events := le_events entry @ [item]\<rparr>) (eventListeners st2),
             elementHandlers := (elementHandlers st2)(element \<mapsto> elementEvents @ [item]),
             eventHandlerMap := (eventHandlerMap st2)(eventType \<mapsto>
               handlers @ [\<lparr>hi_element = element, hi_handler = name, hi_selector = selector,
                            hi_config = eventConfig\<rparr>])\<rparr>)"

definition registerEventListener ::
  "dom \<Rightarrow> yeh \<Rightarrow> eventTarget \<Rightarrow> eventConfig \<Rightarrow> string \<Rightarrow> string \<Rightarrow> jsError \<times> yeh + yeh" where
  "registerEventListener d st element eventConfig key selector =
     (if addEventListenerAccepts d (getEventOptions st eventConfig)
      then Inr (listenerAdded st element eventConfig key selector)
      else Inl (TypeError, st))"

text \<open>The key of a listener: \<^verbatim>\<open>`${selector}_${eventType}_${index}`\<close>.\<close>

definition listenerKey :: "string \<Rightarrow> string \<Rightarrow> nat \<Rightarrow> string" where
  "listenerKey selector eventType index =
     selector @ ''_'' @ eventType @ ''_'' @ string_of_nat index"

text \<open>\<^verbatim>\<open>array.forEach((element, index) => ...)\<close> visits the elements with their indices.\<close>

definition indexed :: "'a list \<Rightarrow> ('a \<times> nat) list" where
  "indexed xs = zip xs [0..<length xs]"

text \<open>
  \<^verbatim>\<open>
  registerSingleEvent(selector, eventConfig) {
      const eventType = typeof eventConfig === 'string' ? eventConfig : eventConfig.type;
      const elements = this.getElements(selector);
      if (elements.length === 0) return;
      elements.forEach((element, index) => {
          const key = `${selector}_${eventType}_${index}`;
          if (this.eventListeners.has(key)) return;
          this.registerEventListener(element, eventConfig, key, selector);
      });
  }
  \<close>
  \<open>registerElement\<close> is the body of the loop, for one element and its index.
\<close>

definition registerElement ::
  "dom \<Rightarrow> yeh \<Rightarrow> string \<Rightarrow> eventConfig \<Rightarrow> eventTarget \<Rightarrow> nat \<Rightarrow> jsError \<times> yeh + yeh" where
  "registerElement d st selector eventConfig element index =
     (let key = listenerKey selector (configType eventConfig) index
      in if map_of (eventListeners st) key \<noteq> None then Inr st
         else registerEventListener d st element eventConfig key selector)"

definition registerSingleEvent ::
  "dom \<Rightarrow> yeh \<Rightarrow> string \<Rightarrow> eventConfig \<Rightarrow> jsError \<times> yeh + yeh" where
  "registerSingleEvent d st selector eventConfig =
     (case getElements d selector of
        Inl e \<Rightarrow> Inl (e, st)
      | Inr elements \<Rightarrow>
          forEach (\<lambda>(element, index) s. registerElement d s selector eventConfig element index)
                  (indexed elements) st)"

text \<open>
  \<^verbatim>\<open>
  cleanupEventTimers(key, eventType) {
      const throttleKey = `${key}-${eventType}-throttle`;
      const debounceKey = `${key}-${eventType}-debounce`;
      if (this.throttleTimers.has(throttleKey)) {
          const timerData = this.throttleTimers.get(throttleKey);
          if (timerData.timeout) clearTimeout(timerData.timeout);
          if (timerData.trailingTimeout) clearTimeout(timerData.trailingTimeout);
          this.throttleTimers.delete(throttleKey);
      }
      if (this.debounceTimers.has(debounceKey)) {
          clearTimeout(this.debounceTimers.get(debounceKey));
          this.debounceTimers.delete(debounceKey);
      }
  }
  \<close>
\<close>

definition clearThrottleEntry :: "throttleEntry \<Rightarrow> hostCall list" where
  "clearThrottleEntry timerData =
     (if te_timeout timerData \<noteq> 0 then [ClearTimeout (te_timeout timerData)] else [])
     @ (if te_trailingTimeout timerData \<noteq> 0 then [ClearTimeout (te_trailingTimeout timerData)]
        else [])"

definition cleanupEventTimers :: "yeh \<Rightarrow> string \<Rightarrow> string \<Rightarrow> yeh" where
  "cleanupEventTimers st key eventType =
     (let throttleKey = key @ ''-'' @ eventType @ ''-throttle'';
          debounceKey = key @ ''-'' @ eventType @ ''-debounce'';
          st1 = (case map_of (throttleTimers st) throttleKey of
                   None \<Rightarrow> st
                 | Some timerData \<Rightarrow>
                     st\<lparr>hostCalls := hostCalls st @ clearThrottleEntry timerData,
                        throttleTimers := AList.delete throttleKey (throttleTimers st)\<rparr>)
      in case map_of (debounceTimers st1) debounceKey of
           None \<Rightarrow> st1
         | Some timerId \<Rightarrow>
             st1\<lparr>hostCalls := hostCalls st1 @ [ClearTimeout timerId],
                 debounceTimers := AList.delete debounceKey (debounceTimers st1)\<rparr>)"

text \<open>
  \<^verbatim>\<open>unregisterSingleEvent(selector, eventType)\<close>: for every element the selector matches
  now, with its index, the listener tracked under the key is removed from the element,
  the key is deleted, the element's tracking list loses the event type, and the timers
  of the key are cleaned up. Then, for every matched element, the handler list of the
  event type loses all registrations of that element.
\<close>

definition unregisterElement :: "yeh \<Rightarrow> string \<Rightarrow> string \<Rightarrow> eventTarget \<Rightarrow> nat \<Rightarrow> yeh" where
  "unregisterElement st selector eventType element index =
     (let key = listenerKey selector eventType index;
          st1 = (case map_of (eventListeners st) key of
                   None \<Rightarrow> st
                 | Some listenerConfig \<Rightarrow>
                     (case find (\<lambda>e. tr_type e = eventType) (le_events listenerConfig) of
                        None \<Rightarrow> st
                      | Some eventData \<Rightarrow>
                          st\<lparr>hostCalls := hostCalls st @
                               [RemoveEventListener element eventType (tr_handler eventData)
                                  (tr_options eventData)]\<rparr>));
          st2 = st1\<lparr>eventListeners := AList.delete key (eventListeners st1)\<rparr>;
          st3 = (case elementHandlers st2 element of
                   None \<Rightarrow> st2
                 | Some elementEvents \<Rightarrow>
                     let filteredEvents = filter (\<lambda>e. tr_type e \<noteq> eventType) elementEvents
                     in if filteredEvents = []
                        then st2\<lparr>elementHandlers := (elementHandlers st2)(element := None)\<rparr>
                        else st2\<lparr>elementHandlers := (elementHandlers st2)(element \<mapsto> filteredEvents)\<rparr>)
      in cleanupEventTimers st3 key eventType)"

definition cleanHandlers :: "string \<Rightarrow> eventTarget \<Rightarrow> yeh \<Rightarrow> yeh" where
  "cleanHandlers eventType element st =
     (case eventHandlerMap st eventType of
        None \<Rightarrow> st
      | Some handlers \<Rightarrow>
          let filteredHandlers = filter (\<lambda>h. hi_element h \<noteq> element) handlers
          in if filteredHandlers = []
             then st\<lparr>eventHandlerMap := (eventHandlerMap st)(eventType := None)\<rparr>
             else st\<lparr>eventHandlerMap := (eventHandlerMap st)(eventType \<mapsto> filteredHandlers)\<rparr>)"

definition unregisterSingleEvent ::
  "dom \<Rightarrow> yeh \<Rightarrow> string \<Rightarrow> string \<Rightarrow> jsError \<times> yeh + yeh" where
  "unregisterSingleEvent d st selector eventType =
     (case getElements d selector of
        Inl e \<Rightarrow> Inl (e, st)
      | Inr elements \<Rightarrow>
          if elements = [] then Inr st
          else
            let st1 = fold (\<lambda>(element, index) s. unregisterElement s selector eventType element index)
                           (indexed elements) st
            in case getElements d selector of
                 Inl e \<Rightarrow> Inl (e, st1)
               | Inr elementsToClean \<Rightarrow> Inr (fold (cleanHandlers eventType) elementsToClean st1))"

text \<open>
  \<^verbatim>\<open>this.eventMapping[target]\<close> reads a property of the mapping object, which is taken to
  be a plain object: when it has no own property of that name, the read finds what
  \<^verbatim>\<open>Object.prototype\<close> has under the name. That is a function, or for \<^verbatim>\<open>__proto__\<close> the
  prototype itself: a truthy value without the array methods \<^verbatim>\<open>some\<close> and \<^verbatim>\<open>filter\<close>,
  so calling them throws a \<^verbatim>\<open>TypeError\<close>.
\<close>

definition objectPrototype :: "string list" where
  "objectPrototype =
     [''constructor'', ''__defineGetter__'', ''__defineSetter__'', ''hasOwnProperty'',
      ''__lookupGetter__'', ''__lookupSetter__'', ''isPrototypeOf'', ''propertyIsEnumerable'',
      ''toString'', ''valueOf'', ''__proto__'', ''toLocaleString'']"

definition inherited :: "string \<Rightarrow> bool" where
  "inherited name \<longleftrightarrow> name \<in> set objectPrototype"

text \<open>
  \<^verbatim>\<open>
  hasEvent(target, eventType) {
      if (!this.eventMapping[target]) return false;
      return this.eventMapping[target].some(config => {
          const configType = typeof config === 'string' ? config : config.type;
          return configType === eventType;
      });
  }
  \<close>
\<close>

definition hasEvent :: "yeh \<Rightarrow> string \<Rightarrow> string \<Rightarrow> jsError + bool" where
  "hasEvent st target eventType =
     (case map_of (eventMapping st) target of
        None \<Rightarrow> if inherited target then Inl TypeError else Inr False
      | Some configs \<Rightarrow> Inr (list_ex (\<lambda>c. configType c = eventType) configs))"

text \<open>
  \<^verbatim>\<open>
  addEvent(target, eventConfig) {
      const normalizedConfig = typeof eventConfig === 'string' ? { type: eventConfig } : eventConfig;
      if (this.hasEvent(target, normalizedConfig.type)) return false;
      if (!this.eventMapping[target]) this.eventMapping[target] = [];
      this.eventMapping[target].push(normalizedConfig);
      this.registerSingleEvent(target, normalizedConfig);
      return true;
  }
  \<close>
  When \<^verbatim>\<open>registerSingleEvent\<close> throws, the configuration is already in the mapping.
\<close>

fun normalizeConfig :: "eventConfig \<Rightarrow> eventConfig" where
  "normalizeConfig (EvString s) = EvObject s None None None None"
| "normalizeConfig (EvObject t h th db opts) = EvObject t h th db opts"

definition addEvent ::
  "dom \<Rightarrow> yeh \<Rightarrow> string \<Rightarrow> eventConfig \<Rightarrow> jsError \<times> yeh + bool \<times> yeh" where
  "addEvent d st target eventConfig =
     (let normalizedConfig = normalizeConfig eventConfig
      in case hasEvent st target (configType normalizedConfig) of
           Inl e \<Rightarrow> Inl (e, st)
         | Inr True \<Rightarrow> Inr (False, st)
         | Inr False \<Rightarrow>
             let configs = (case map_of (eventMapping st) target of None \<Rightarrow> [] | Some cs \<Rightarrow> cs);
                 st1 = st\<lparr>eventMapping :=
                           AList.update target (configs @ [normalizedConfig]) (eventMapping st)\<rparr>
             in case registerSingleEvent d st1 target normalizedConfig of
                  Inl thrown \<Rightarrow> Inl thrown
                | Inr st2 \<Rightarrow> Inr (True, st2))"

text \<open>
  \<^verbatim>\<open>
  removeEvent(target, eventType) {
      if (!this.eventMapping[target]) return false;
      const initialLength = this.eventMapping[target].length;
      this.eventMapping[target] = this.eventMapping[target].filter(config => {
          const configType = typeof config === 'string' ? config : config.type;
          return configType !== eventType;
      });
      if (this.eventMapping[target].length === initialLength) return false;
      if (this.eventMapping[target].length === 0) delete this.eventMapping[target];
      this.unregisterSingleEvent(target, eventType);
      return true;
  }
  \<close>
  When \<^verbatim>\<open>unregisterSingleEvent\<close> throws, the mapping has already lost the configuration.
\<close>

definition removeEvent ::
  "dom \<Rightarrow> yeh \<Rightarrow> string \<Rightarrow> string \<Rightarrow> jsError \<times> yeh + bool \<times> yeh" where
  "removeEvent d st target eventType =
     (case map_of (eventMapping st) target of
        None \<Rightarrow> if inherited target then Inl (TypeError, st) else Inr (False, st)
      | Some configs \<Rightarrow>
          let initialLength = length configs;
              filtered = filter (\<lambda>c. configType c \<noteq> eventType) configs;
              st1 = st\<lparr>eventMapping := AList.update target filtered (eventMapping st)\<rparr>
          in if length filtered = initialLength then Inr (False, st1)
             else
               let st2 = (if filtered = []
                          then st1\<lparr>eventMapping := AList.delete target (eventMapping st1)\<rparr>
                          else st1)
               in case unregisterSingleEvent d st2 target eventType of
                    Inl thrown \<Rightarrow> Inl thrown
                  | Inr st3 \<Rightarrow> Inr (True, st3))"

text \<open>
  \<^verbatim>\<open>registerEvents()\<close> registers every event of every selector of the mapping on
  every element the selector matches. The mapping holds arrays only (the form with
  \<^verbatim>\<open>element\<close> and \<^verbatim>\<open>events\<close> properties is rejected by the validation). A throw of
  the host ends the loops; what was registered before stays registered.
\<close>

definition registerEvents :: "dom \<Rightarrow> yeh \<Rightarrow> jsError \<times> yeh + yeh" where
  "registerEvents d st =
     forEach (\<lambda>(selector, events) s.
                case getElements d selector of
                  Inl e \<Rightarrow> Inl (e, s)
                | Inr elements \<Rightarrow>
                    forEach (\<lambda>(element, index) s'.
                               forEach (\<lambda>eventConfig s''.
                                          registerEventListener d s'' element eventConfig
                                            (listenerKey selector (configType eventConfig) index)
                                            selector)
                                       events s')
                            (indexed elements) s)
             (eventMapping st) st"

text \<open>
  \<^verbatim>\<open>
  abort() {
      if (this.abortController) { this.abortController.abort(); this.abortController = null; }
      return this;
  }
  destroy() {
      if (this.abortController) {
          this.abort();
      } else {
          this.eventListeners.forEach((config) => {
              config.events.forEach(({ type, handler, options }) => {
                  config.element.removeEventListener(type, handler, options);
              });
          });
      }
      this.eventListeners.clear();
      this.eventHandlerMap.clear();
      this.distanceCache.clear();
      this.throttleTimers.forEach((timerData) => {
          if (timerData.timeout) clearTimeout(timerData.timeout);
          if (timerData.trailingTimeout) clearTimeout(timerData.trailingTimeout);
      });
      this.throttleTimers.clear();
      this.debounceTimers.forEach((timerId) => clearTimeout(timerId));
      this.debounceTimers.clear();
      return this;
  }
  \<close>
\<close>

definition abort :: "yeh \<Rightarrow> yeh" where
  "abort st =
     (if abortController st
      then st\<lparr>hostCalls := hostCalls st @ [AbortSignal], abortController := False\<rparr>
      else st)"

definition removeAll :: "(string \<times> listenerEntry) list \<Rightarrow> hostCall list" where
  "removeAll listeners =
     concat (map (\<lambda>(key, entry).
                    map (\<lambda>e. RemoveEventListener (le_element entry) (tr_type e) (tr_handler e)
                                (tr_options e))
                        (le_events entry))
                 listeners)"

definition destroy :: "yeh \<Rightarrow> yeh" where
  "destroy st =
     (let st1 = (if abortController st then abort st
                 else st\<lparr>hostCalls := hostCalls st @ removeAll (eventListeners st)\<rparr>);
          st2 = st1\<lparr>eventListeners := [], eventHandlerMap := Map.empty,
                    distanceCache := Map.empty\<rparr>;
          st3 = st2\<lparr>hostCalls := hostCalls st2 @
                      concat (map (\<lambda>(key, timerData). clearThrottleEntry timerData)
                                  (throttleTimers st2)),
                    throttleTimers := []\<rparr>
      in st3\<lparr>hostCalls := hostCalls st3 @
                  map (\<lambda>(key, timerId). ClearTimeout timerId) (debounceTimers st3),
               debounceTimers := []\<rparr>)"

section \<open>Validating the configuration\<close>

text \<open>
  The validation reads the arguments of the constructor as they were given: any
  JavaScript value. \<open>typeof\<close>, truthiness, \<^verbatim>\<open>Array.isArray\<close>, property access on a
  value that is not \<^verbatim>\<open>null\<close> or \<^verbatim>\<open>undefined\<close> (for the property names the validation
  reads, which only a plain object can hold) and \<^verbatim>\<open>Object.entries\<close> are the host's.
\<close>

fun typeof :: "jsval \<Rightarrow> string" where
  "typeof JUndefined = ''undefined''"
| "typeof JNull = ''object''"
| "typeof (JBool b) = ''boolean''"
| "typeof (JNumber n) = ''number''"
| "typeof (JString s) = ''string''"
| "typeof (JArray xs) = ''object''"
| "typeof (JObject kvs) = ''object''"
| "typeof JFunction = ''function''"
| "typeof (JHostObject name) = ''object''"

fun truthy :: "jsval \<Rightarrow> bool" where
  "truthy JUndefined = False"
| "truthy JNull = False"
| "truthy (JBool b) = b"
| "truthy (JNumber n) = truthy_number n"
| "truthy (JString s) = (s \<noteq> [])"
| "truthy (JArray xs) = True"
| "truthy (JObject kvs) = True"
| "truthy JFunction = True"
| "truthy (JHostObject name) = True"

fun isArray :: "jsval \<Rightarrow> bool" where
  "isArray (JArray xs) = True"
| "isArray v = False"

fun property :: "jsval \<Rightarrow> string \<Rightarrow> jsval" where
  "property (JObject kvs) name = (case map_of kvs name of None \<Rightarrow> JUndefined | Some v \<Rightarrow> v)"
| "property v name = JUndefined"

fun objectEntries :: "jsval \<Rightarrow> (string \<times> jsval) list" where
  "objectEntries (JObject kvs) = kvs"
| "objectEntries (JArray xs) = zip (map string_of_nat [0..<length xs]) xs"
| "objectEntries v = []"

text \<open>
  \<^verbatim>\<open>!s.trim()\<close>: the string holds nothing but characters that \<^verbatim>\<open>trim\<close> strips, the
  white space and line terminators of ECMAScript. Among the codes 0 to 255 these are tab,
  line feed, vertical tab, form feed, carriage return, space and the no-break space
  (U+00A0).
\<close>

definition blank :: "string \<Rightarrow> bool" where
  "blank s =
     list_all (\<lambda>c. c \<in> set [CHR 0x09, CHR 0x0A, CHR 0x0B, CHR 0x0C, CHR 0x0D, CHR 0x20, CHR 0xA0]) s"

text \<open>\<^verbatim>\<open>typeof v !== 'number' || v <= 0\<close>; a comparison with \<open>NaN\<close> is false.\<close>

fun notPositiveNumber :: "jsval \<Rightarrow> bool" where
  "notPositiveNumber (JNumber NaN) = False"
| "notPositiveNumber (JNumber (Finite r)) = (r \<le> 0)"
| "notPositiveNumber v = True"

text \<open>The errors the validation throws, with the selector and the index their messages name.\<close>

datatype configError =
    MappingNotObject
  | SelectorEmpty
  | ConfigNotArray string
  | ConfigEmpty string
  | EventTypeEmpty string nat
  | EventConfigNotStringOrObject string nat
  | EventConfigWithoutType string nat
  | ThrottleNotPositive string nat
  | DebounceNotPositive string nat
  | ThrottleAndDebounce string nat
  | HandlerNotString string nat
  | ActionableAttributesNotArray
  | ActionableAttributesNotStrings
  | ActionableClassesNotArray
  | ActionableClassesNotStrings
  | ActionableTagsNotArray
  | ActionableTagsNotStrings
  | EnableActionableTargetsNotBoolean
  | HandlerPrefixNotString

text \<open>
  \<^verbatim>\<open>
  validateEventConfig(selector, eventConfig, index) {
      if (typeof eventConfig === 'string') {
          if (!eventConfig.trim()) throw ...;
          return;
      }
      if (!eventConfig || typeof eventConfig !== 'object') throw ...;
      if (!eventConfig.type || typeof eventConfig.type !== 'string') throw ...;
      if (eventConfig.throttle !== undefined) {
          if (typeof eventConfig.throttle !== 'number' || eventConfig.throttle <= 0) throw ...;
      }
      if (eventConfig.debounce !== undefined) {
          if (typeof eventConfig.debounce !== 'number' || eventConfig.debounce <= 0) throw ...;
      }
      if (eventConfig.throttle && eventConfig.debounce) throw ...;
      if (eventConfig.handler !== undefined && typeof eventConfig.handler !== 'string') throw ...;
  }
  \<close>
  A validation function returns the error it throws, or \<open>None\<close> when it returns.
\<close>

fun validateEventConfig :: "string \<Rightarrow> jsval \<Rightarrow> nat \<Rightarrow> configError option" where
  "validateEventConfig selector (JString s) index =
     (if blank s then Some (EventTypeEmpty selector index) else None)"
| "validateEventConfig selector eventConfig index =
     (if \<not> truthy eventConfig \<or> typeof eventConfig \<noteq> ''object''
        then Some (EventConfigNotStringOrObject selector index)
      else if \<not> truthy (property eventConfig ''type'')
              \<or> typeof (property eventConfig ''type'') \<noteq> ''string''
        then Some (EventConfigWithoutType selector index)
      else if property eventConfig ''throttle'' \<noteq> JUndefined
              \<and> notPositiveNumber (property eventConfig ''throttle'')
        then Some (ThrottleNotPositive selector index)
      else if property eventConfig ''debounce'' \<noteq> JUndefined
              \<and> notPositiveNumber (property eventConfig ''debounce'')
        then Some (DebounceNotPositive selector index)
      else if truthy (property eventConfig ''throttle'') \<and> truthy (property eventConfig ''debounce'')
        then Some (ThrottleAndDebounce selector index)
      else if property eventConfig ''handler'' \<noteq> JUndefined
              \<and> typeof (property eventConfig ''handler'') \<noteq> ''string''
        then Some (HandlerNotString selector index)
      else None)"

text \<open>The first error of a loop whose body may throw.\<close>

fun firstError :: "('a \<Rightarrow> configError option) \<Rightarrow> 'a list \<Rightarrow> configError option" where
  "firstError check [] = None"
| "firstError check (x # xs) =
     (case check x of Some e \<Rightarrow> Some e | None \<Rightarrow> firstError check xs)"

text \<open>
  \<^verbatim>\<open>
  validateSelectorConfig(selector, config) {
      if (!selector || typeof selector !== 'string') throw ...;
      if (!Array.isArray(config)) throw ...;
      if (config.length === 0) throw ...;
      config.forEach((eventConfig, index) => { this.validateEventConfig(selector, eventConfig, index); });
  }
  \<close>
  The selector is a key of \<^verbatim>\<open>Object.entries\<close>, so it is a string; it fails the first
  test when it is empty.
\<close>

definition validateSelectorConfig :: "string \<Rightarrow> jsval \<Rightarrow> configError option" where
  "validateSelectorConfig selector cfg =
     (if selector = [] then Some SelectorEmpty
      else case cfg of
             JArray eventConfigs \<Rightarrow>
               if eventConfigs = [] then Some (ConfigEmpty selector)
               else firstError (\<lambda>(eventConfig, index). validateEventConfig selector eventConfig index)
                      (indexed eventConfigs)
           | _ \<Rightarrow> Some (ConfigNotArray selector))"

text \<open>
  \<^verbatim>\<open>validateActionableConfig()\<close> checks, each only when it is not \<^verbatim>\<open>undefined\<close>:
  \<^verbatim>\<open>actionableAttributes\<close>, \<^verbatim>\<open>actionableClasses\<close> and \<^verbatim>\<open>actionableTags\<close> are arrays of
  strings that are not blank, \<^verbatim>\<open>enableActionableTargets\<close> is a boolean and
  \<^verbatim>\<open>handlerPrefix\<close> a string. The argument is the constructor's \<^verbatim>\<open>config\<close> object.
\<close>

definition validateStrings ::
  "jsval \<Rightarrow> configError \<Rightarrow> configError \<Rightarrow> configError option" where
  "validateStrings v notArray notStrings =
     (if v = JUndefined then None
      else case v of
             JArray xs \<Rightarrow>
               firstError (\<lambda>x. case x of
                                  JString s \<Rightarrow> if blank s then Some notStrings else None
                                | _ \<Rightarrow> Some notStrings) xs
           | _ \<Rightarrow> Some notArray)"

definition validateActionableConfig :: "jsval \<Rightarrow> configError option" where
  "validateActionableConfig cfg =
     firstError (\<lambda>check. check)
       [validateStrings (property cfg ''actionableAttributes'')
          ActionableAttributesNotArray ActionableAttributesNotStrings,
        validateStrings (property cfg ''actionableClasses'')
          ActionableClassesNotArray ActionableClassesNotStrings,
        validateStrings (property cfg ''actionableTags'')
          ActionableTagsNotArray ActionableTagsNotStrings,
        (if property cfg ''enableActionableTargets'' \<noteq> JUndefined
            \<and> typeof (property cfg ''enableActionableTargets'') \<noteq> ''boolean''
         then Some EnableActionableTargetsNotBoolean else None),
        (if property cfg ''handlerPrefix'' \<noteq> JUndefined
            \<and> typeof (property cfg ''handlerPrefix'') \<noteq> ''string''
         then Some HandlerPrefixNotString else None)]"

text \<open>
  \<^verbatim>\<open>
  validateConfiguration() {
      if (!this.eventMapping || typeof this.eventMapping !== 'object') throw ...;
      for (const [selector, config] of Object.entries(this.eventMapping)) {
          this.validateSelectorConfig(selector, config);
      }
      this.validateActionableConfig();
  }
  \<close>
\<close>

definition validateConfiguration :: "jsval \<Rightarrow> jsval \<Rightarrow> configError option" where
  "validateConfiguration mapping cfg =
     (if \<not> truthy mapping \<or> typeof mapping \<noteq> ''object'' then Some MappingNotObject
      else case firstError (\<lambda>(selector, c). validateSelectorConfig selector c)
                  (objectEntries mapping) of
             Some e \<Rightarrow> Some e
           | None \<Rightarrow> validateActionableConfig cfg)"

section \<open>The constructor\<close>

text \<open>
  The constructor merges the given \<^verbatim>\<open>config\<close> over its defaults
  (\<^verbatim>\<open>{ ...defaults, ...config }\<close>: a property the object has, even \<^verbatim>\<open>undefined\<close>,
  replaces the default) and reads the settings from the result.
\<close>

fun merged :: "jsval \<Rightarrow> string \<Rightarrow> jsval \<Rightarrow> jsval" where
  "merged (JObject kvs) name dflt = (case map_of kvs name of None \<Rightarrow> dflt | Some v \<Rightarrow> v)"
| "merged v name dflt = dflt"

text \<open>
  The strings of an array; a list option that is falsy takes its default
  (\<^verbatim>\<open>this.config.passiveEvents || [...]\<close>). The code searches these lists for strings
  only, so elements that are not strings never match and are left out. A truthy value
  that is not an array is outside the model.
\<close>

fun strings :: "jsval list \<Rightarrow> string list" where
  "strings [] = []"
| "strings (JString s # vs) = s # strings vs"
| "strings (v # vs) = strings vs"

fun stringsOr :: "jsval \<Rightarrow> string list \<Rightarrow> string list" where
  "stringsOr (JArray vs) dflt = strings vs"
| "stringsOr v dflt = (if truthy v then [] else dflt)"

text \<open>
  \<^verbatim>\<open>this.config.handlerPrefix !== undefined ? this.config.handlerPrefix : 'handle'\<close>. The
  prefix is used when it is truthy; a falsy value of another type acts as the empty
  string, and a truthy value that is not a string is outside the model (the validation
  rejects it).
\<close>

fun prefixOf :: "jsval \<Rightarrow> string" where
  "prefixOf JUndefined = ''handle''"
| "prefixOf (JString s) = s"
| "prefixOf v = []"

text \<open>
  The mapping as the registry functions read it, for a mapping the validation admits:
  selectors with arrays of event configurations, each a string or an object.
\<close>

fun decodeString :: "jsval \<Rightarrow> string option" where
  "decodeString (JString s) = Some s"
| "decodeString v = None"

fun decodeNumber :: "jsval \<Rightarrow> number option" where
  "decodeNumber (JNumber n) = Some n"
| "decodeNumber v = None"

fun decodeObject :: "jsval \<Rightarrow> (string \<times> jsval) list option" where
  "decodeObject (JObject kvs) = Some kvs"
| "decodeObject v = None"

fun decodeEventConfig :: "jsval \<Rightarrow> eventConfig" where
  "decodeEventConfig (JString s) = EvString s"
| "decodeEventConfig v =
     EvObject (case decodeString (property v ''type'') of None \<Rightarrow> [] | Some t \<Rightarrow> t)
       (decodeString (property v ''handler''))
       (decodeNumber (property v ''throttle''))
       (decodeNumber (property v ''debounce''))
       (decodeObject (property v ''options''))"

fun decodeConfigs :: "jsval \<Rightarrow> eventConfig list" where
  "decodeConfigs (JArray vs) = map decodeEventConfig vs"
| "decodeConfigs v = []"

definition decodeMapping :: "jsval \<Rightarrow> (string \<times> eventConfig list) list" where
  "decodeMapping mapping = map (\<lambda>(selector, c). (selector, decodeConfigs c)) (objectEntries mapping)"

text \<open>
  The instance as the constructor has set it up when it reaches the validation: the
  settings read, all maps empty, \<^verbatim>\<open>userHasInteracted\<close> and \<^verbatim>\<open>passiveSupported\<close> false.
  The host has \<^verbatim>\<open>AbortController\<close>, so \<^verbatim>\<open>new AbortController()\<close> returns.
\<close>

definition defaultPassiveEvents :: "string list" where
  "defaultPassiveEvents =
     [''scroll'', ''touchstart'', ''touchmove'', ''touchend'', ''touchcancel'',
      ''wheel'', ''mousewheel'', ''pointermove'', ''pointerenter'', ''pointerleave'',
      ''resize'', ''orientationchange'', ''load'', ''beforeunload'', ''unload'']"

definition initialSettings ::
  "functionTables \<Rightarrow> (string \<Rightarrow> string \<Rightarrow> string option) \<Rightarrow> jsval \<Rightarrow> settings" where
  "initialSettings fns als cfg =
     \<lparr>aliases = als,
      fnTables = fns,
      enableGlobalFallback = truthy (merged cfg ''enableGlobalFallback'' (JBool False)),
      methodsFirst = truthy (merged cfg ''methodsFirst'' (JBool False)),
      enableHandlerValidation = truthy (merged cfg ''enableHandlerValidation'' (JBool True)),
      passiveEvents = stringsOr (merged cfg ''passiveEvents'' JNull) defaultPassiveEvents,
      passiveSupported = False,
      handlerPrefix = prefixOf (property cfg ''handlerPrefix''),
      autoTargetResolution = truthy (merged cfg ''autoTargetResolution'' (JBool False)),
      targetResolutionEvents =
        stringsOr (merged cfg ''targetResolutionEvents'' JNull)
          [''click'', ''touchstart'', ''touchend'', ''mousedown'', ''mouseup''],
      enableDistanceCache = (property cfg ''enableDistanceCache'' \<noteq> JBool False),
      actionableAttributes = stringsOr (property cfg ''actionableAttributes'') [''data-action''],
      actionableClasses = stringsOr (property cfg ''actionableClasses'') [''actionable''],
      actionableTags = stringsOr (property cfg ''actionableTags'') [''BUTTON'', ''A''],
      actionableEnabled = (property cfg ''enableActionableTargets'' \<noteq> JBool False)\<rparr>"

definition initialInstance ::
  "functionTables \<Rightarrow> (string \<Rightarrow> string \<Rightarrow> string option) \<Rightarrow> jsval \<Rightarrow> jsval \<Rightarrow> yeh" where
  "initialInstance fns als mapping cfg =
     \<lparr>config = initialSettings fns als cfg,
      eventMapping = decodeMapping mapping,
      eventListeners = [],
      elementHandlers = Map.empty,
      eventHandlerMap = Map.empty,
      throttleTimers = [],
      debounceTimers = [],
      abortController = truthy (merged cfg ''abortController'' (JBool False)),
      userHasInteracted = False,
      distanceCache = Map.empty,
      hostCalls = []\<rparr>"

text \<open>
  \<^verbatim>\<open>detectPassiveSupport()\<close> stores what the host supports (\<open>passive\<close>).
\<close>

definition detectPassiveSupport :: "bool \<Rightarrow> yeh \<Rightarrow> yeh" where
  "detectPassiveSupport passive st = st\<lparr>config := (config st)\<lparr>passiveSupported := passive\<rparr>\<rparr>"

text \<open>
  \<^verbatim>\<open>
  constructor(eventMapping = {}, aliases = {}, config = {}) {
      ... the fields ...
      if (this.config.enableConfigValidation) this.validateConfiguration();
      this.detectPassiveSupport();
      this.registerEvents();
  }
  \<close>
  The constructor returns the instance, or throws: the result is then what was thrown,
  an error of the validation or an error that \<^verbatim>\<open>registerEvents\<close> met, with the instance
  as it was left. \<^verbatim>\<open>aliases\<close> and \<^verbatim>\<open>config.methods\<close> are objects, as \<^verbatim>\<open>yeh.d.ts\<close> types
  them; the handler lookup reads them through the tables of the settings.
\<close>

datatype thrown = Invalid configError | Native jsError

definition orEmptyObject :: "jsval \<Rightarrow> jsval" where
  "orEmptyObject v = (if v = JUndefined then JObject [] else v)"

definition liftNative :: "jsError \<times> yeh + yeh \<Rightarrow> thrown \<times> yeh + yeh" where
  "liftNative r = (case r of Inl (e, st) \<Rightarrow> Inl (Native e, st) | Inr st \<Rightarrow> Inr st)"

definition construct ::
  "dom \<Rightarrow> bool \<Rightarrow> functionTables \<Rightarrow> jsval \<Rightarrow> (string \<Rightarrow> string \<Rightarrow> string option) \<Rightarrow> jsval
     \<Rightarrow> thrown \<times> yeh + yeh" where
  "construct d passive fns eventMappingArg als configArg =
     (let mapping = orEmptyObject eventMappingArg;
          cfg = orEmptyObject configArg;
          st = initialInstance fns als mapping cfg
      in if truthy (merged cfg ''enableConfigValidation'' (JBool True))
         then (case validateConfiguration mapping cfg of
                 Some e \<Rightarrow> Inl (Invalid e, st)
               | None \<Rightarrow> liftNative (registerEvents d (detectPassiveSupport passive st)))
         else liftNative (registerEvents d (detectPassiveSupport passive st)))"
section \<open>Throttle and debounce\<close>

text \<open>
  The two rate limiters work on the host's timers. The model keeps the host's clock (in
  milliseconds), the timers that are set and not yet fired or cleared, each with its
  handle, its due time and its callback, and the log of the executions of the wrapped
  function \<^verbatim>\<open>fn\<close>: the time and the arguments of each call. Timer handles are positive.

  The callbacks the implementations hand to \<^verbatim>\<open>setTimeout\<close> are three closures:
  \<^item> \<open>ResetCooldown key\<close> is \<^verbatim>\<open>() => { timers.delete(key) }\<close>;
  \<^item> \<open>TrailingCall key a\<close> is
    \<^verbatim>\<open>() => { fn.apply(this, timerData.lastArgs); timers.delete(key); }\<close>, where
    \<^verbatim>\<open>timerData\<close> is the object at address \<open>a\<close> that the closure captured;
  \<^item> \<open>DebouncedCall key args\<close> is \<^verbatim>\<open>() => { fn.apply(this, args); timers.delete(key); }\<close>.

  The \<^verbatim>\<open>timerData\<close> objects of the throttle live in a store, since the \<^verbatim>\<open>timers\<close> map
  and the trailing closure share them.
\<close>

datatype 'a callback =
    ResetCooldown string
  | TrailingCall string nat
  | DebouncedCall string 'a

record 'a timerData =
  td_timeout :: nat
  td_lastArgs :: 'a
  td_trailingTimeout :: "nat option"

record 'a scheduler =
  clock :: nat
  nextHandle :: nat
  pending :: "(nat \<times> nat \<times> 'a callback) list"
  objects :: "nat \<Rightarrow> 'a timerData option"
  nextObject :: nat
  throttleMap :: "string \<Rightarrow> nat option"
  debounceMap :: "string \<Rightarrow> nat option"
  executions :: "(nat \<times> 'a) list"

definition idle :: "'a scheduler" where
  "idle = \<lparr>clock = 0, nextHandle = 1, pending = [], objects = Map.empty, nextObject = 0,
           throttleMap = Map.empty, debounceMap = Map.empty, executions = []\<rparr>"

definition setTimeout :: "'a callback \<Rightarrow> nat \<Rightarrow> 'a scheduler \<Rightarrow> nat \<times> 'a scheduler" where
  "setTimeout cb delay s =
     (nextHandle s,
      s\<lparr>pending := pending s @ [(nextHandle s, clock s + delay, cb)],
        nextHandle := nextHandle s + 1\<rparr>)"

definition clearTimeout :: "nat \<Rightarrow> 'a scheduler \<Rightarrow> 'a scheduler" where
  "clearTimeout handle s = s\<lparr>pending := filter (\<lambda>(h, due, cb). h \<noteq> handle) (pending s)\<rparr>"

text \<open>
  \<^verbatim>\<open>
  static _debounceImplementation(fn, delay, key, timers) {
      return function(...args) {
          if (timers.has(key)) clearTimeout(timers.get(key));
          const timerId = setTimeout(() => {
              fn.apply(this, args);
              timers.delete(key);
          }, delay);
          timers.set(key, timerId);
      };
  }
  \<close>
  \<open>debounced delay key args\<close> is one call of the returned function.
\<close>

definition debounced :: "nat \<Rightarrow> string \<Rightarrow> 'a \<Rightarrow> 'a scheduler \<Rightarrow> 'a scheduler" where
  "debounced delay key args s =
     (let s1 = (case debounceMap s key of None \<Rightarrow> s | Some handle \<Rightarrow> clearTimeout handle s)
      in case setTimeout (DebouncedCall key args) delay s1 of
           (timerId, s2) \<Rightarrow> s2\<lparr>debounceMap := (debounceMap s2)(key \<mapsto> timerId)\<rparr>)"

text \<open>
  \<^verbatim>\<open>
  static _throttleImplementation(fn, delay, key, timers) {
      return function(...args) {
          const timerData = timers.get(key);
          if (!timerData || !timerData.timeout) {
              fn.apply(this, args);
              timers.set(key, {
                  timeout: setTimeout(() => { timers.delete(key) }, delay),
                  lastArgs: args
              });
          } else {
              timerData.lastArgs = args;
              if (timerData.trailingTimeout) clearTimeout(timerData.trailingTimeout);
              timerData.trailingTimeout = setTimeout(() => {
                  fn.apply(this, timerData.lastArgs);
                  timers.delete(key);
              }, delay);
          }
      };
  }
  \<close>
  \<open>throttled delay key args\<close> is one call of the returned function.
\<close>

definition leadingEdge :: "nat \<Rightarrow> string \<Rightarrow> 'a \<Rightarrow> 'a scheduler \<Rightarrow> 'a scheduler" where
  "leadingEdge delay key args s =
     (let s1 = s\<lparr>executions := executions s @ [(clock s, args)]\<rparr>
      in case setTimeout (ResetCooldown key) delay s1 of
           (handle, s2) \<Rightarrow>
             s2\<lparr>objects := (objects s2)(nextObject s2 \<mapsto>
                    \<lparr>td_timeout = handle, td_lastArgs = args, td_trailingTimeout = None\<rparr>),
                nextObject := nextObject s2 + 1,
                throttleMap := (throttleMap s2)(key \<mapsto> nextObject s2)\<rparr>)"

definition trailingEdge :: "nat \<Rightarrow> string \<Rightarrow> 'a \<Rightarrow> nat \<Rightarrow> 'a timerData \<Rightarrow> 'a scheduler \<Rightarrow> 'a scheduler" where
  "trailingEdge delay key args a timerData s =
     (let s1 = s\<lparr>objects := (objects s)(a \<mapsto> timerData\<lparr>td_lastArgs := args\<rparr>)\<rparr>;
          s2 = (case td_trailingTimeout timerData of
                  None \<Rightarrow> s1
                | Some handle \<Rightarrow> if handle \<noteq> 0 then clearTimeout handle s1 else s1)
      in case setTimeout (TrailingCall key a) delay s2 of
           (handle, s3) \<Rightarrow>
             s3\<lparr>objects := (objects s3)(a \<mapsto>
                    timerData\<lparr>td_lastArgs := args, td_trailingTimeout := Some handle\<rparr>)\<rparr>)"

definition throttled :: "nat \<Rightarrow> string \<Rightarrow> 'a \<Rightarrow> 'a scheduler \<Rightarrow> 'a scheduler" where
  "throttled delay key args s =
     (case throttleMap s key of
        None \<Rightarrow> leadingEdge delay key args s
      | Some a \<Rightarrow>
          (case objects s a of
             None \<Rightarrow> leadingEdge delay key args s
           | Some timerData \<Rightarrow>
               if td_timeout timerData = 0 then leadingEdge delay key args s
               else trailingEdge delay key args a timerData s))"

text \<open>A timer fires: its callback runs at the current time.\<close>

fun fire :: "'a callback \<Rightarrow> 'a scheduler \<Rightarrow> 'a scheduler" where
  "fire (ResetCooldown key) s = s\<lparr>throttleMap := (throttleMap s)(key := None)\<rparr>"
| "fire (TrailingCall key a) s =
     (case objects s a of
        None \<Rightarrow> s\<lparr>throttleMap := (throttleMap s)(key := None)\<rparr>
      | Some timerData \<Rightarrow>
          s\<lparr>executions := executions s @ [(clock s, td_lastArgs timerData)],
            throttleMap := (throttleMap s)(key := None)\<rparr>)"
| "fire (DebouncedCall key args) s =
     s\<lparr>executions := executions s @ [(clock s, args)],
       debounceMap := (debounceMap s)(key := None)\<rparr>"

text \<open>
  The host's event loop. \<open>earliest\<close> is the timer that fires next: the one with the
  least due time, the one set first among equals. \<open>advance t\<close> lets the time pass until
  \<open>t\<close>: every timer due by then fires, at its due time, in that order. A call made at
  time \<open>t\<close> runs after the timers due at \<open>t\<close>.
\<close>

fun earliest :: "(nat \<times> nat \<times> 'a callback) list \<Rightarrow> (nat \<times> nat \<times> 'a callback) option" where
  "earliest [] = None"
| "earliest (e # es) =
     (case earliest es of
        None \<Rightarrow> Some e
      | Some e' \<Rightarrow> if fst (snd e') < fst (snd e) then Some e' else Some e)"

function advance :: "nat \<Rightarrow> 'a scheduler \<Rightarrow> 'a scheduler" where
  "advance t s =
     (case earliest (pending s) of
        None \<Rightarrow> s\<lparr>clock := max (clock s) t\<rparr>
      | Some (h, due, cb) \<Rightarrow>
          if due \<le> t
          then advance t (fire cb (s\<lparr>clock := max (clock s) due,
                                      pending := filter (\<lambda>(h', due', cb'). h' \<noteq> h) (pending s)\<rparr>))
          else s\<lparr>clock := max (clock s) t\<rparr>)"
  by pat_completeness auto
termination
proof (relation "measure (\<lambda>(t, s). length (pending s))")
  show "wf (measure (\<lambda>(t, s). length (pending s)))" by simp
next
  fix t :: nat and s :: "'a scheduler" and e h ds due cb
  assume "earliest (pending s) = Some e" and "(h, ds) = e" and "(due, cb) = ds" and "due \<le> t"
  have mem: "x \<in> set es" if "earliest es = Some x"
    for es :: "(nat \<times> nat \<times> 'a callback) list" and x
    using that by (induction es arbitrary: x) (auto split: option.splits if_splits)
  have shorter: "length (filter (\<lambda>(h', due', cb'). h' \<noteq> h) es) < length es"
    if "(h, due, cb) \<in> set es" for es :: "(nat \<times> nat \<times> 'a callback) list"
    using that by (induction es) (auto simp: less_Suc_eq_le)
  have same: "pending (fire cb s') = pending s'" for s' :: "'a scheduler"
    by (cases cb) (auto split: option.splits)
  from \<open>earliest (pending s) = Some e\<close> \<open>(h, ds) = e\<close> \<open>(due, cb) = ds\<close>
  have "(h, due, cb) \<in> set (pending s)" using mem by fastforce
  then show "((t, fire cb (s\<lparr>clock := max (clock s) due,
                             pending := filter (\<lambda>(h', due', cb'). h' \<noteq> h) (pending s)\<rparr>)), t, s)
               \<in> measure (\<lambda>(t, s). length (pending s))"
    by (simp add: same shorter)
qed

declare advance.simps [simp del]

text \<open>A call made at time \<open>t\<close>.\<close>

definition callAt :: "nat \<Rightarrow> ('a scheduler \<Rightarrow> 'a scheduler) \<Rightarrow> 'a scheduler \<Rightarrow> 'a scheduler" where
  "callAt t call s = call (advance t s)"

text \<open>The calls of a debounced function, each with its time, one after the other.\<close>

fun debouncedCalls :: "nat \<Rightarrow> string \<Rightarrow> (nat \<times> 'a) list \<Rightarrow> 'a scheduler \<Rightarrow> 'a scheduler" where
  "debouncedCalls delay key [] s = s"
| "debouncedCalls delay key ((t, args) # cs) s =
     debouncedCalls delay key cs (callAt t (debounced delay key args) s)"

fun throttledCalls :: "nat \<Rightarrow> string \<Rightarrow> (nat \<times> 'a) list \<Rightarrow> 'a scheduler \<Rightarrow> 'a scheduler" where
  "throttledCalls delay key [] s = s"
| "throttledCalls delay key ((t, args) # cs) s =
     throttledCalls delay key cs (callAt t (throttled delay key args) s)"

text \<open>
  What the debounce contract expects of a series of calls: a call executes, \<open>delay\<close>
  after it was made and with its own arguments, when no later call arrives before that
  time.
\<close>

fun elapsed :: "nat \<Rightarrow> (nat \<times> 'a) list \<Rightarrow> (nat \<times> 'a) list" where
  "elapsed delay [] = []"
| "elapsed delay [(t, args)] = [(t + delay, args)]"
| "elapsed delay ((t, args) # (t', args') # cs) =
     (if t + delay \<le> t' then [(t + delay, args)] else []) @ elapsed delay ((t', args') # cs)"

section \<open>What a dispatch selected, and what it saw\<close>

text \<open>The registration a call of \<^verbatim>\<open>handleEvent\<close> selected (\<^verbatim>\<open>closestHandler\<close>), if any.\<close>

fun chosen :: "outcome \<Rightarrow> handlerInfo option" where
  "chosen NoHandlers = None"
| "chosen NoMatch = None"
| "chosen (HandlerMissing h) = Some h"
| "chosen (Blocked h) = Some h"
| "chosen (Threw h e) = Some h"
| "chosen (Invoked h f resolvedTarget actualClosestElement) = Some h"

text \<open>The function a call of \<^verbatim>\<open>handleEvent\<close> invoked, if any.\<close>

fun invoked :: "outcome \<Rightarrow> callable option" where
  "invoked (Invoked h f resolvedTarget actualClosestElement) = Some f"
| "invoked other = None"

text \<open>
  The distances the loop of \<^verbatim>\<open>handleEvent\<close> gets from \<^verbatim>\<open>calculateDistanceWithCache\<close>,
  one for each handler in turn, the cache passed on from each lookup to the next.
\<close>

fun seenDistances :: "dom \<Rightarrow> node \<Rightarrow> handlerInfo list \<Rightarrow> yeh \<Rightarrow> enat list" where
  "seenDistances d target [] st = []"
| "seenDistances d target (handlerInfo # handlers) st =
     (case calculateDistanceWithCache d st target (hi_element handlerInfo) of
        (distance, st') \<Rightarrow> distance # seenDistances d target handlers st')"

text \<open>
  The loop of \<^verbatim>\<open>handleEvent\<close> on the handlers paired with the distances it saw: the
  handler and the distance it ends with.
\<close>

fun pick :: "(handlerInfo \<times> enat) list \<Rightarrow> handlerInfo option \<Rightarrow> enat \<Rightarrow> handlerInfo option \<times> enat" where
  "pick [] closestHandler closestDistance = (closestHandler, closestDistance)"
| "pick ((handlerInfo, distance) # rest) closestHandler closestDistance =
     (if distance \<noteq> \<infinity> \<and> distance < closestDistance then pick rest (Some handlerInfo) distance
      else pick rest closestHandler closestDistance)"

section \<open>A small document\<close>

text \<open>
  The document used in the examples:
  \<^verbatim>\<open>
  <html>                    Element []
    <head></head>           Element [0]
    <body>                  Element [1]
      <div>                 Element [0, 1]
        <div></div>         Element [0, 0, 1]
      </div>
    </body>
  </html>
  \<close>
  No element has an id or a class. The outer \<^verbatim>\<open>div\<close> has the attribute \<^verbatim>\<open>data-panel\<close>, the
  inner one the attribute \<^verbatim>\<open>data-item\<close>. The selectors \<^verbatim>\<open>[data-panel]\<close>, \<^verbatim>\<open>[data-item]\<close>,
  \<^verbatim>\<open>div\<close>, \<^verbatim>\<open>body\<close> and \<^verbatim>\<open>html > body\<close> match as CSS says; of the selectors used below
  only \<^verbatim>\<open>[\<close> is not valid CSS. \<^verbatim>\<open>addEventListener\<close> accepts an options object unless its
  \<^verbatim>\<open>signal\<close> is neither \<^verbatim>\<open>undefined\<close> nor an \<^verbatim>\<open>AbortSignal\<close>. The instance has the methods
  \<^verbatim>\<open>handleClick\<close>, \<^verbatim>\<open>openPanel\<close>, \<^verbatim>\<open>selectItem\<close>, \<^verbatim>\<open>first\<close>, \<^verbatim>\<open>second\<close> and
  \<^verbatim>\<open>fallback\<close>.
\<close>

definition signalAccepted :: "(string \<times> jsval) list \<Rightarrow> bool" where
  "signalAccepted options =
     (case map_of options ''signal'' of
        None \<Rightarrow> True
      | Some v \<Rightarrow> v = JUndefined \<or> v = abortSignal)"

definition exampleDom :: dom where
  "exampleDom =
     \<lparr>tagName = (\<lambda>p. if p = [] then ''HTML'' else if p = [0] then ''HEAD''
                      else if p = [1] then ''BODY'' else ''DIV''),
      elementId = (\<lambda>p. []),
      className = (\<lambda>p. ClassString []),
      hasAttribute = (\<lambda>p attr. (p = [0, 1] \<and> attr = ''data-panel'')
                                  \<or> (p = [0, 0, 1] \<and> attr = ''data-item'')),
      classList = (\<lambda>p. []),
      validSelector = (\<lambda>selector. selector \<noteq> ''[''),
      closest = (\<lambda>p selector.
                   if selector = ''div'' \<and> (p = [0, 1] \<or> p = [0, 0, 1]) then Some p
                   else if selector = ''[data-panel]'' \<and> (p = [0, 1] \<or> p = [0, 0, 1])
                   then Some [0, 1]
                   else if selector = ''[data-item]'' \<and> p = [0, 0, 1] then Some [0, 0, 1]
                   else if (selector = ''body'' \<or> selector = ''html > body'')
                           \<and> (p = [1] \<or> p = [0, 1] \<or> p = [0, 0, 1]) then Some [1]
                   else None),
      querySelectorAll = (\<lambda>selector.
                   if selector = ''div'' then [[0, 1], [0, 0, 1]]
                   else if selector = ''[data-panel]'' then [[0, 1]]
                   else if selector = ''[data-item]'' then [[0, 0, 1]]
                   else if selector = ''body'' \<or> selector = ''html > body'' then [[1]]
                   else []),
      acceptsOptions = signalAccepted\<rparr>"

definition exampleTables :: functionTables where
  "exampleTables =
     \<lparr>instanceFunctions = (\<lambda>name. name \<in> set [''handleClick'', ''openPanel'', ''selectItem'',
                                               ''first'', ''second'', ''fallback'']),
      scopedMethods = (\<lambda>eventType name. False),
      globalMethods = (\<lambda>name. False),
      windowFunctions = (\<lambda>name. False)\<rparr>"

definition noAliases :: "string \<Rightarrow> string \<Rightarrow> string option" where
  "noAliases eventType methodName = None"

text \<open>
  \<^verbatim>\<open>new YEH({ '[data-panel]': [{ type: 'click', handler: 'openPanel' }],
             '[data-item]': [{ type: 'click', handler: 'selectItem' }] })\<close>
  on the small document: \<open>panelStart\<close> is the instance before \<^verbatim>\<open>registerEvents\<close> runs,
  \<open>panelInstance\<close> the instance the constructor returns.
\<close>

definition panelMapping :: jsval where
  "panelMapping =
     JObject [(''[data-panel]'',
               JArray [JObject [(''type'', JString ''click''), (''handler'', JString ''openPanel'')]]),
              (''[data-item]'',
               JArray [JObject [(''type'', JString ''click''), (''handler'', JString ''selectItem'')]])]"

definition panelStart :: yeh where
  "panelStart = detectPassiveSupport False (initialInstance exampleTables noAliases panelMapping
       (JObject []))"

definition panelInstance :: yeh where
  "panelInstance =
     after (construct exampleDom False exampleTables panelMapping noAliases JUndefined)"

definition openPanel :: eventConfig where
  "openPanel = EvObject ''click'' (Some ''openPanel'') None None None"

definition selectItem :: eventConfig where
  "selectItem = EvObject ''click'' (Some ''selectItem'') None None None"

definition outerDiv :: node where
  "outerDiv = Element [0, 1]"

definition innerDiv :: node where
  "innerDiv = Element [0, 0, 1]"

definition body :: node where
  "body = Element [1]"

text \<open>
  \<^verbatim>\<open>new YEH({ 'body': ['click'], 'html > body': [{ type: 'click', throttle: 100 }] })\<close>
  on the small document: both selectors match the \<^verbatim>\<open>body\<close> element.
\<close>

definition bodyMapping :: jsval where
  "bodyMapping =
     JObject [(''body'', JArray [JString ''click'']),
              (''html > body'',
               JArray [JObject [(''type'', JString ''click''), (''throttle'', JNumber (Finite 100))]])]"

definition bodyStart :: yeh where
  "bodyStart = detectPassiveSupport False (initialInstance exampleTables noAliases bodyMapping
       (JObject []))"

definition bodyInstance :: yeh where
  "bodyInstance =
     after (construct exampleDom False exampleTables bodyMapping noAliases JUndefined)"

definition throttledClick :: eventConfig where
  "throttledClick = EvObject ''click'' None (Some (Finite 100)) None None"

text \<open>
  \<^verbatim>\<open>new YEH({ 'body': ['click'], '[': ['click'] })\<close>: the second selector is not valid
  CSS.
\<close>

definition brokenMapping :: jsval where
  "brokenMapping =
     JObject [(''body'', JArray [JString ''click'']), (''['', JArray [JString ''click''])]"

section \<open>A document with two tabs\<close>

text \<open>
  \<^verbatim>\<open>
  <html>                    Element []
    <head></head>           Element [0]
    <body>                  Element [1]
      <div id="a">          Element [0, 1]
        <span></span>       Element [0, 0, 1]
      </div>
      <div id="b">          Element [1, 1]
        <span></span>       Element [0, 1, 1]
      </div>
    </body>
  </html>
  \<close>
  No element has a class or an attribute. The selectors \<^verbatim>\<open>#b\<close>, \<^verbatim>\<open>div#b\<close> and \<^verbatim>\<open>body\<close>
  match as CSS says.
\<close>

definition tabsDom :: dom where
  "tabsDom =
     \<lparr>tagName = (\<lambda>p. if p = [] then ''HTML'' else if p = [0] then ''HEAD''
                      else if p = [1] then ''BODY''
                      else if p = [0, 1] \<or> p = [1, 1] then ''DIV'' else ''SPAN''),
      elementId = (\<lambda>p. if p = [0, 1] then ''a'' else if p = [1, 1] then ''b'' else []),
      className = (\<lambda>p. ClassString []),
      hasAttribute = (\<lambda>p attr. False),
      classList = (\<lambda>p. []),
      validSelector = (\<lambda>selector. selector \<noteq> ''[''),
      closest = (\<lambda>p selector.
                   if (selector = ''#b'' \<or> selector = ''div#b'') \<and> (p = [1, 1] \<or> p = [0, 1, 1])
                   then Some [1, 1]
                   else if selector = ''body''
                           \<and> (p = [1] \<or> p = [0, 1] \<or> p = [1, 1] \<or> p = [0, 0, 1]
                                \<or> p = [0, 1, 1])
                   then Some [1]
                   else None),
      querySelectorAll = (\<lambda>selector.
                   if selector = ''#b'' \<or> selector = ''div#b'' then [[1, 1]]
                   else if selector = ''body'' then [[1]]
                   else []),
      acceptsOptions = signalAccepted\<rparr>"

definition tabB :: node where
  "tabB = Element [1, 1]"

definition spanA :: node where
  "spanA = Element [0, 0, 1]"

definition spanB :: node where
  "spanB = Element [0, 1, 1]"

text \<open>
  \<^verbatim>\<open>new YEH({ '#b': [{ type: 'click', handler: 'first' }],
             'div#b': [{ type: 'click', handler: 'second' }],
             'body': [{ type: 'click', handler: 'fallback' }] })\<close>
  on the document with two tabs: the first two selectors match the same element.
\<close>

definition tabsMapping :: jsval where
  "tabsMapping =
     JObject [(''#b'',
               JArray [JObject [(''type'', JString ''click''), (''handler'', JString ''first'')]]),
              (''div#b'',
               JArray [JObject [(''type'', JString ''click''), (''handler'', JString ''second'')]]),
              (''body'',
               JArray [JObject [(''type'', JString ''click''), (''handler'', JString ''fallback'')]])]"

definition tabsStart :: yeh where
  "tabsStart = detectPassiveSupport False (initialInstance exampleTables noAliases tabsMapping
       (JObject []))"

definition tabsInstance :: yeh where
  "tabsInstance =
     after (construct tabsDom False exampleTables tabsMapping noAliases JUndefined)"

definition clickConfig :: "string \<Rightarrow> eventConfig" where
  "clickConfig handler = EvObject ''click'' (Some handler) None None None"

definition tabRegistration :: "eventTarget \<Rightarrow> string \<Rightarrow> string \<Rightarrow> handlerInfo" where
  "tabRegistration element handler selector =
     \<lparr>hi_element = element, hi_handler = handler, hi_selector = selector,
      hi_config = clickConfig handler\<rparr>"

section \<open>When a configuration is invalid, in words\<close>

text \<open>
  The conditions under which the constructor is said to throw, stated on the arguments
  and not as a procedure. \<open>positiveNumber\<close>: the value is a number above 0.
  \<open>validType\<close>: the value is a string that is not empty.
\<close>

fun positiveNumber :: "jsval \<Rightarrow> bool" where
  "positiveNumber (JNumber (Finite r)) = (0 < r)"
| "positiveNumber v = False"

fun validType :: "jsval \<Rightarrow> bool" where
  "validType (JString s) = (s \<noteq> [])"
| "validType v = False"

text \<open>
  An entry of a selector's array as the claim rejects it: it has no valid type (a blank
  string, a value that is not an object, an object without a string \<^verbatim>\<open>type\<close>), or its
  \<^verbatim>\<open>throttle\<close> or \<^verbatim>\<open>debounce\<close> is present and not a positive number, or both are
  present.
\<close>

fun claimedBadEntry :: "jsval \<Rightarrow> bool" where
  "claimedBadEntry (JString s) = blank s"
| "claimedBadEntry v =
     (\<not> (truthy v \<and> typeof v = ''object'')
      \<or> \<not> validType (property v ''type'')
      \<or> (property v ''throttle'' \<noteq> JUndefined \<and> \<not> positiveNumber (property v ''throttle''))
      \<or> (property v ''debounce'' \<noteq> JUndefined \<and> \<not> positiveNumber (property v ''debounce''))
      \<or> (property v ''throttle'' \<noteq> JUndefined \<and> property v ''debounce'' \<noteq> JUndefined))"

text \<open>
  The mapping as the claim rejects it: it is not an object, or the value of a selector is
  not an array, is an empty array, or holds an entry of the kind above. (A selector is a
  property name of the mapping and so always a string.)
\<close>

fun claimedBadConfig :: "jsval \<Rightarrow> bool" where
  "claimedBadConfig (JArray entries) = (entries = [] \<or> list_ex claimedBadEntry entries)"
| "claimedBadConfig v = True"

definition claimedInvalid :: "jsval \<Rightarrow> bool" where
  "claimedInvalid mapping \<longleftrightarrow>
     \<not> (truthy mapping \<and> typeof mapping = ''object'')
     \<or> list_ex (\<lambda>(selector, c). claimedBadConfig c) (objectEntries mapping)"

text \<open>
  What the code rejects beyond that: an empty selector, an entry whose \<^verbatim>\<open>handler\<close> is
  present and not a string, and in the \<^verbatim>\<open>config\<close> argument an \<^verbatim>\<open>actionableAttributes\<close>,
  \<^verbatim>\<open>actionableClasses\<close> or \<^verbatim>\<open>actionableTags\<close> that is present and not an array of
  strings that are not blank, an \<^verbatim>\<open>enableActionableTargets\<close> that is present and not a
  boolean, and a \<^verbatim>\<open>handlerPrefix\<close> that is present and not a string.
\<close>

fun handlerNotString :: "jsval \<Rightarrow> bool" where
  "handlerNotString (JString s) = False"
| "handlerNotString v =
     (property v ''handler'' \<noteq> JUndefined \<and> typeof (property v ''handler'') \<noteq> ''string'')"

fun notStrings :: "jsval \<Rightarrow> bool" where
  "notStrings JUndefined = False"
| "notStrings (JArray vs) =
     list_ex (\<lambda>v. case v of JString s \<Rightarrow> blank s | _ \<Rightarrow> True) vs"
| "notStrings v = True"

definition invalidOptions :: "jsval \<Rightarrow> bool" where
  "invalidOptions cfg \<longleftrightarrow>
     notStrings (property cfg ''actionableAttributes'')
     \<or> notStrings (property cfg ''actionableClasses'')
     \<or> notStrings (property cfg ''actionableTags'')
     \<or> (property cfg ''enableActionableTargets'' \<noteq> JUndefined
         \<and> typeof (property cfg ''enableActionableTargets'') \<noteq> ''boolean'')
     \<or> (property cfg ''handlerPrefix'' \<noteq> JUndefined
         \<and> typeof (property cfg ''handlerPrefix'') \<noteq> ''string'')"

fun handlersNotStrings :: "jsval \<Rightarrow> bool" where
  "handlersNotStrings (JArray entries) = list_ex handlerNotString entries"
| "handlersNotStrings v = False"

definition invalidConfiguration :: "jsval \<Rightarrow> jsval \<Rightarrow> bool" where
  "invalidConfiguration mapping cfg \<longleftrightarrow>
     claimedInvalid mapping
     \<or> list_ex (\<lambda>(selector, c). selector = [] \<or> handlersNotStrings c) (objectEntries mapping)
     \<or> invalidOptions cfg"

text \<open>
  \<open>NaN\<close> has the type \<^verbatim>\<open>number\<close> and compares false with 0. \<open>nanFree\<close>: no entry of the
  mapping has \<open>NaN\<close> as its \<^verbatim>\<open>throttle\<close> or \<^verbatim>\<open>debounce\<close>.
\<close>

definition nanFreeEntry :: "jsval \<Rightarrow> bool" where
  "nanFreeEntry v \<longleftrightarrow>
     property v ''throttle'' \<noteq> JNumber NaN \<and> property v ''debounce'' \<noteq> JNumber NaN"

fun nanFreeConfig :: "jsval \<Rightarrow> bool" where
  "nanFreeConfig (JArray entries) = list_all nanFreeEntry entries"
| "nanFreeConfig v = True"

definition nanFree :: "jsval \<Rightarrow> bool" where
  "nanFree mapping = list_all (\<lambda>(selector, c). nanFreeConfig c) (objectEntries mapping)"

text \<open>\<^verbatim>\<open>new YEH({ '#app': [{ type: 'click', handler: 42 }] })\<close>\<close>

definition numericHandlerMapping :: jsval where
  "numericHandlerMapping =
     JObject [(''#app'',
               JArray [JObject [(''type'', JString ''click''),
                                (''handler'', JNumber (Finite 42))]])]"

section \<open>Properties of the distance\<close>

lemma walk_nth_parent:
  "nth_parent k n = Some c \<Longrightarrow> \<forall>j<k. nth_parent j n \<noteq> Some c \<Longrightarrow> walk (Some n) c d = d + k"
proof (induction k arbitrary: n d)
  case 0
  then show ?case by simp
next
  case (Suc k)
  from Suc.prems(2) have ne: "n \<noteq> c" by (auto dest: spec [of _ 0])
  from Suc.prems(1) obtain p where p: "parentNode n = Some p" and kp: "nth_parent k p = Some c"
    by (auto split: option.splits)
  have "\<forall>j<k. nth_parent j p \<noteq> Some c"
  proof (intro allI impI)
    fix j assume "j < k"
    then have "nth_parent (Suc j) n \<noteq> Some c" using Suc.prems(2) by auto
    then show "nth_parent j p \<noteq> Some c" using p by simp
  qed
  from Suc.IH [OF kp this] have "walk (Some p) c (d + 1) = d + 1 + k" .
  then show ?case using ne p by simp
qed

lemma contains_iff_nth_parent: "contains c t \<longleftrightarrow> (\<exists>k. nth_parent k t = Some c)"
proof (induction c t rule: contains.induct)
  case (1 c)
  show ?case
  proof
    assume "contains c Document"
    then have "nth_parent 0 Document = Some c" by simp
    then show "\<exists>k. nth_parent k Document = Some c" ..
  next
    assume "\<exists>k. nth_parent k Document = Some c"
    then obtain k where "nth_parent k Document = Some c" ..
    then show "contains c Document" by (cases k) auto
  qed
next
  case (2 c)
  show ?case
  proof
    assume "contains c (Element [])"
    then have "nth_parent 0 (Element []) = Some c \<or> nth_parent 1 (Element []) = Some c"
      by auto
    then show "\<exists>k. nth_parent k (Element []) = Some c" by blast
  next
    assume "\<exists>k. nth_parent k (Element []) = Some c"
    then obtain k where k: "nth_parent k (Element []) = Some c" ..
    show "contains c (Element [])"
    proof (cases k)
      case 0
      with k show ?thesis by auto
    next
      case (Suc j)
      with k show ?thesis by (cases j) auto
    qed
  qed
next
  case (3 c i p)
  show ?case
  proof
    assume "contains c (Element (i # p))"
    then consider "c = Element (i # p)" | "contains c (Element p)" by auto
    then show "\<exists>k. nth_parent k (Element (i # p)) = Some c"
    proof cases
      case 1
      then have "nth_parent 0 (Element (i # p)) = Some c" by simp
      then show ?thesis ..
    next
      case 2
      with 3 obtain k where "nth_parent k (Element p) = Some c" by auto
      then have "nth_parent (Suc k) (Element (i # p)) = Some c" by simp
      then show ?thesis ..
    qed
  next
    assume "\<exists>k. nth_parent k (Element (i # p)) = Some c"
    then obtain k where k: "nth_parent k (Element (i # p)) = Some c" ..
    show "contains c (Element (i # p))"
    proof (cases k)
      case 0
      with k show ?thesis by auto
    next
      case (Suc j)
      with k have "nth_parent j (Element p) = Some c" by simp
      with 3 show ?thesis by auto
    qed
  qed
qed

lemma first_hop_exists:
  assumes "nth_parent k t = Some c"
  shows "\<exists>m. nth_parent m t = Some c \<and> (\<forall>j<m. nth_parent j t \<noteq> Some c)"
proof -
  define m where "m = (LEAST m. nth_parent m t = Some c)"
  have "nth_parent m t = Some c" unfolding m_def using assms by (rule LeastI)
  moreover have "\<forall>j<m. nth_parent j t \<noteq> Some c"
    unfolding m_def using not_less_Least by blast
  ultimately show ?thesis by blast
qed

text \<open>
  \<^bold>\<open>C4\<close>. The distance function, for every origin node and every container: the global
  sentinels (document, window) give the constant 1000; a container that does not contain
  the origin gives \<open>Infinity\<close>; otherwise the result is the number \<open>k\<close> of
  \<^verbatim>\<open>parentNode\<close> hops that lead from the origin to the container (the container is
  reached after \<open>k\<close> hops and not before), which is 0 when origin and container are the
  same node.
\<close>

theorem calculateDOMDistance_spec:
  "(container = Window \<or> container = Node Document \<longrightarrow>
      calculateDOMDistance origin container = enat 1000)
   \<and> (container = Node c \<and> c \<noteq> Document \<and> \<not> contains c origin \<longrightarrow>
      calculateDOMDistance origin container = \<infinity>)
   \<and> (container = Node c \<and> c \<noteq> Document \<and> contains c origin \<longrightarrow>
      (\<exists>k. nth_parent k origin = Some c \<and> (\<forall>j<k. nth_parent j origin \<noteq> Some c)
           \<and> calculateDOMDistance origin container = enat k))
   \<and> (container = Node origin \<and> origin \<noteq> Document \<longrightarrow>
      calculateDOMDistance origin container = enat 0)"
proof (intro conjI impI)
  assume "container = Window \<or> container = Node Document"
  then show "calculateDOMDistance origin container = enat 1000"
    by (auto simp: calculateDOMDistance_def)
next
  assume "container = Node c \<and> c \<noteq> Document \<and> \<not> contains c origin"
  then show "calculateDOMDistance origin container = \<infinity>"
    by (simp add: calculateDOMDistance_def)
next
  assume a: "container = Node c \<and> c \<noteq> Document \<and> contains c origin"
  then obtain k0 where "nth_parent k0 origin = Some c"
    using contains_iff_nth_parent by blast
  then obtain k where k: "nth_parent k origin = Some c" "\<forall>j<k. nth_parent j origin \<noteq> Some c"
    using first_hop_exists by blast
  then have "walk (Some origin) c 0 = k" using walk_nth_parent [of k origin c 0] by simp
  with a have "calculateDOMDistance origin container = enat k"
    by (simp add: calculateDOMDistance_def)
  with k show "\<exists>k. nth_parent k origin = Some c \<and> (\<forall>j<k. nth_parent j origin \<noteq> Some c)
           \<and> calculateDOMDistance origin container = enat k" by blast
next
  assume a: "container = Node origin \<and> origin \<noteq> Document"
  have "contains origin origin" by (cases origin rule: parentNode.cases) simp_all
  with a show "calculateDOMDistance origin container = enat 0"
    by (simp add: calculateDOMDistance_def)
qed

text \<open>
  The theorem at a small document: \<open>Element [1]\<close> is the second child of the root element
  and \<open>Element [0, 0, 1]\<close> its grandchild, two hops below; \<open>Element [0]\<close> is a sibling
  subtree that does not contain it.
\<close>

theorem calculateDOMDistance_spec_witness:
  "calculateDOMDistance (Element [0, 0, 1]) Window = enat 1000
   \<and> \<not> contains (Element [0]) (Element [0, 0, 1])
   \<and> calculateDOMDistance (Element [0, 0, 1]) (Node (Element [0])) = \<infinity>
   \<and> contains (Element [1]) (Element [0, 0, 1])
   \<and> (\<exists>k. nth_parent k (Element [0, 0, 1]) = Some (Element [1])
          \<and> calculateDOMDistance (Element [0, 0, 1]) (Node (Element [1])) = enat k)
   \<and> calculateDOMDistance (Element [0, 0, 1]) (Node (Element [0, 0, 1])) = enat 0"
proof -
  have a: "\<not> contains (Element [0]) (Element [0, 0, 1])" by simp
  have b: "contains (Element [1]) (Element [0, 0, 1])" by simp
  have w: "calculateDOMDistance (Element [0, 0, 1]) Window = enat 1000"
    using calculateDOMDistance_spec [where container = Window and origin = "Element [0, 0, 1]"]
    by simp
  have u: "calculateDOMDistance (Element [0, 0, 1]) (Node (Element [0])) = \<infinity>"
    using a calculateDOMDistance_spec [where container = "Node (Element [0])"
        and c = "Element [0]" and origin = "Element [0, 0, 1]"]
    by simp
  have h: "\<exists>k. nth_parent k (Element [0, 0, 1]) = Some (Element [1])
          \<and> calculateDOMDistance (Element [0, 0, 1]) (Node (Element [1])) = enat k"
    using b calculateDOMDistance_spec [where container = "Node (Element [1])"
        and c = "Element [1]" and origin = "Element [0, 0, 1]"]
    by blast
  have z: "calculateDOMDistance (Element [0, 0, 1]) (Node (Element [0, 0, 1])) = enat 0"
    using calculateDOMDistance_spec [where container = "Node (Element [0, 0, 1])"
        and origin = "Element [0, 0, 1]"]
    by simp
  from a b w u h z show ?thesis by blast
qed

section \<open>Properties of the dispatch\<close>

text \<open>The loop over distances, without the instance: what it keeps of a list of pairs.\<close>

lemma cache_lookup_frame:
  "calculateDistanceWithCache d st target container = (distance, st') \<Longrightarrow>
     st' = st\<lparr>distanceCache := distanceCache st'\<rparr>"
  by (auto simp: calculateDistanceWithCache_def Let_def split: if_splits option.splits)

lemma closestLoop_frame:
  "closestLoop d target handlers ch cd st = (ch', cd', st') \<Longrightarrow>
     st' = st\<lparr>distanceCache := distanceCache st'\<rparr>"
proof (induction handlers arbitrary: ch cd st)
  case Nil
  then show ?case by simp
next
  case (Cons h hs)
  obtain dst st1 where l: "calculateDistanceWithCache d st target (hi_element h) = (dst, st1)"
    by (cases "calculateDistanceWithCache d st target (hi_element h)")
  from cache_lookup_frame [OF l] have f1: "st1 = st\<lparr>distanceCache := distanceCache st1\<rparr>" .
  from Cons.prems l obtain ch1 cd1 where "closestLoop d target hs ch1 cd1 st1 = (ch', cd', st')"
    by (auto split: if_splits)
  from Cons.IH [OF this] have "st' = st1\<lparr>distanceCache := distanceCache st'\<rparr>" .
  with f1 show ?case by (metis yeh.update_convs(10) yeh.surjective yeh.select_convs)
qed

lemma closestLoop_pick:
  "closestLoop d target handlers ch cd st = (ch', cd', st') \<Longrightarrow>
     pick (zip handlers (seenDistances d target handlers st)) ch cd = (ch', cd')"
proof (induction handlers arbitrary: ch cd st)
  case Nil
  then show ?case by simp
next
  case (Cons h hs)
  obtain dst st1 where l: "calculateDistanceWithCache d st target (hi_element h) = (dst, st1)"
    by (cases "calculateDistanceWithCache d st target (hi_element h)")
  show ?case
  proof (cases "dst \<noteq> \<infinity> \<and> dst < cd")
    case True
    with Cons.prems l have "closestLoop d target hs (Some h) dst st1 = (ch', cd', st')" by simp
    from Cons.IH [OF this] True l show ?thesis by simp
  next
    case False
    with Cons.prems l have "closestLoop d target hs ch cd st1 = (ch', cd', st')" by auto
    from Cons.IH [OF this] False l show ?thesis by auto
  qed
qed

lemma length_seenDistances: "length (seenDistances d target handlers st) = length handlers"
  by (induction handlers arbitrary: st) (auto split: prod.splits)

lemma pick_keeps:
  "\<forall>p \<in> set ps. \<not> snd p < cd \<Longrightarrow> pick ps ch cd = (ch, cd)"
  by (induction ps) auto

lemma pick_first_minimum:
  assumes "i < length ps" and "snd (ps ! i) \<noteq> \<infinity>" and "snd (ps ! i) < cd"
    and "\<forall>j<length ps. snd (ps ! i) \<le> snd (ps ! j)"
    and "\<forall>j<i. snd (ps ! j) \<noteq> snd (ps ! i)"
  shows "pick ps ch cd = (Some (fst (ps ! i)), snd (ps ! i))"
  using assms
proof (induction ps arbitrary: i ch cd)
  case Nil
  then show ?case by simp
next
  case (Cons p ps)
  obtain h dst where p: "p = (h, dst)" by (cases p)
  show ?case
  proof (cases i)
    case 0
    with Cons.prems p have fin: "dst \<noteq> \<infinity>" and lt: "dst < cd" by auto
    have "\<forall>q \<in> set ps. \<not> snd q < dst"
    proof
      fix q assume "q \<in> set ps"
      then obtain j where "j < length ps" and "ps ! j = q" by (auto simp: in_set_conv_nth)
      with Cons.prems(4) 0 p have "dst \<le> snd q" by (auto dest: spec [of _ "Suc j"])
      then show "\<not> snd q < dst" by simp
    qed
    then have "pick ps (Some h) dst = (Some h, dst)" by (rule pick_keeps)
    with 0 p fin lt show ?thesis by simp
  next
    case (Suc k)
    let ?m = "snd (ps ! k)"
    from Suc Cons.prems have k: "k < length ps" and fin: "?m \<noteq> \<infinity>" and lt: "?m < cd" by auto
    from Suc Cons.prems(4) have mn: "\<forall>j<length ps. ?m \<le> snd (ps ! j)"
      by (auto dest: spec [of _ "Suc j" for j])
    from Suc Cons.prems(5) have fst': "\<forall>j<k. snd (ps ! j) \<noteq> ?m"
      by (auto dest: spec [of _ "Suc j" for j])
    from Suc Cons.prems(4) p have "?m \<le> dst" by (auto dest: spec [of _ 0])
    moreover from Suc Cons.prems(5) p have "dst \<noteq> ?m" by (auto dest: spec [of _ 0])
    ultimately have below: "?m < dst" by simp
    show ?thesis
    proof (cases "dst \<noteq> \<infinity> \<and> dst < cd")
      case True
      from Cons.IH [OF k fin below mn fst'] True p Suc show ?thesis by simp
    next
      case False
      from Cons.IH [OF k fin lt mn fst'] False p Suc show ?thesis by auto
    qed
  qed
qed

lemma pick_unreachable:
  "\<forall>p \<in> set ps. snd p = \<infinity> \<Longrightarrow> pick ps None \<infinity> = (None, \<infinity>)"
  by (rule pick_keeps) simp

lemma seenDistances_uncached:
  "\<not> enableDistanceCache (config st) \<Longrightarrow>
     seenDistances d target handlers st
       = map (\<lambda>h. calculateDOMDistance target (hi_element h)) handlers"
  by (induction handlers) (auto simp: calculateDistanceWithCache_def)

lemma cache_lookup_cong:
  assumes "config st = config st2" and "distanceCache st = distanceCache st2"
    and "calculateDistanceWithCache d st target container = (dst, st')"
    and "calculateDistanceWithCache d st2 target container = (dst2, st2')"
  shows "dst = dst2 \<and> config st' = config st2' \<and> distanceCache st' = distanceCache st2'"
  using assms
  by (auto simp: calculateDistanceWithCache_def Let_def split: if_splits option.splits)

lemma seenDistances_cong:
  "config st = config st2 \<Longrightarrow> distanceCache st = distanceCache st2 \<Longrightarrow>
     seenDistances d target handlers st = seenDistances d target handlers st2"
proof (induction handlers arbitrary: st st2)
  case Nil
  show ?case by simp
next
  case (Cons h hs)
  obtain dst st' where l: "calculateDistanceWithCache d st target (hi_element h) = (dst, st')"
    by (cases "calculateDistanceWithCache d st target (hi_element h)")
  obtain dst2 st2' where l2: "calculateDistanceWithCache d st2 target (hi_element h) = (dst2, st2')"
    by (cases "calculateDistanceWithCache d st2 target (hi_element h)")
  from cache_lookup_cong [OF Cons.prems l l2]
  have "dst = dst2" and "config st' = config st2'" and "distanceCache st' = distanceCache st2'"
    by simp_all
  with Cons.IH [of st' st2'] l l2 show ?case by simp
qed

lemma seenDistances_flag:
  "seenDistances d target handlers (checkUserInteraction st ev) = seenDistances d target handlers st"
  by (rule seenDistances_cong) (simp_all add: checkUserInteraction_def)

lemma chosen_handleEvent:
  "eventHandlerMap st (ev_type ev) = Some handlers \<Longrightarrow>
     chosen (fst (handleEvent d st ev))
       = fst (pick (zip handlers (seenDistances d (ev_target ev) handlers st)) None \<infinity>)"
proof (cases "handlers = []")
  case True
  assume "eventHandlerMap st (ev_type ev) = Some handlers"
  with True show ?thesis by (simp add: handleEvent_def)
next
  case False
  assume m: "eventHandlerMap st (ev_type ev) = Some handlers"
  let ?st = "checkUserInteraction st ev"
  obtain ch cd st' where l: "closestLoop d (ev_target ev) handlers None \<infinity> ?st = (ch, cd, st')"
    by (cases "closestLoop d (ev_target ev) handlers None \<infinity> ?st")
  from closestLoop_pick [OF l]
  have p: "pick (zip handlers (seenDistances d (ev_target ev) handlers st)) None \<infinity> = (ch, cd)"
    by (simp add: seenDistances_flag)
  have "chosen (fst (handleEvent d st ev)) = ch"
    using m False l
    by (cases ch)
       (auto simp: handleEvent_def findClosestHandler_def invokeClosest_def callHandler_def
             split: option.splits sum.splits)
  with p show ?thesis by simp
qed

section \<open>What registering changes\<close>

lemma validateResolvedHandler_fields:
  "config (validateResolvedHandler st f n) = config st"
  "eventMapping (validateResolvedHandler st f n) = eventMapping st"
  "eventListeners (validateResolvedHandler st f n) = eventListeners st"
  "elementHandlers (validateResolvedHandler st f n) = elementHandlers st"
  "eventHandlerMap (validateResolvedHandler st f n) = eventHandlerMap st"
  "throttleTimers (validateResolvedHandler st f n) = throttleTimers st"
  "debounceTimers (validateResolvedHandler st f n) = debounceTimers st"
  "abortController (validateResolvedHandler st f n) = abortController st"
  "userHasInteracted (validateResolvedHandler st f n) = userHasInteracted st"
  "distanceCache (validateResolvedHandler st f n) = distanceCache st"
  by (simp_all add: validateResolvedHandler_def)

lemma handlerMethodName_config:
  "config st = config st' \<Longrightarrow> handlerMethodName st c t = handlerMethodName st' c t"
  by (cases c) (simp_all add: prefixedName_def split: option.splits)

lemma resolveFrom_config:
  "config st = config st' \<Longrightarrow> resolveFrom st n t order = resolveFrom st' n t order"
  by (induction st n t order rule: resolveFrom.induct) simp_all

lemma resolveHandler_config:
  "config st = config st' \<Longrightarrow> resolveHandler st n t = resolveHandler st' n t"
  using resolveFrom_config [of st st']
  by (simp add: resolveHandler_def resolveMethodName_def)


text \<open>The listener tracked for a registration, and whether the registration warns.\<close>

lemma listenerAdded_fields:
  "config (listenerAdded st el c key sel) = config st"
  "eventMapping (listenerAdded st el c key sel) = eventMapping st"
  "throttleTimers (listenerAdded st el c key sel) = throttleTimers st"
  "debounceTimers (listenerAdded st el c key sel) = debounceTimers st"
  "abortController (listenerAdded st el c key sel) = abortController st"
  "userHasInteracted (listenerAdded st el c key sel) = userHasInteracted st"
  "distanceCache (listenerAdded st el c key sel) = distanceCache st"
  by (simp_all add: listenerAdded_def Let_def validateResolvedHandler_fields)

lemma listenerAdded_handlers:
  "eventHandlerMap (listenerAdded st el c key sel) =
     (eventHandlerMap st)(configType c \<mapsto>
        (case eventHandlerMap st (configType c) of None \<Rightarrow> [] | Some hs \<Rightarrow> hs)
        @ [\<lparr>hi_element = el, hi_handler = handlerMethodName st c (configType c),
             hi_selector = sel, hi_config = c\<rparr>])"
proof -
  let ?st1 = "st\<lparr>hostCalls := hostCalls st @
      [AddEventListener el (configType c) (createWrappedHandler c key (configType c))
         (getEventOptions st c)]\<rparr>"
  have "handlerMethodName ?st1 c (configType c) = handlerMethodName st c (configType c)"
    by (rule handlerMethodName_config) simp
  then show ?thesis
    by (simp add: listenerAdded_def Let_def validateResolvedHandler_fields)
qed

lemma listenerAdded_listeners:
  "eventListeners (listenerAdded st el c key sel) =
     AList.update key
       ((case map_of (eventListeners st) key of
           None \<Rightarrow> \<lparr>le_element = el, le_events = []\<rparr> | Some e \<Rightarrow> e)
        \<lparr>le_events :=
           le_events (case map_of (eventListeners st) key of
                        None \<Rightarrow> \<lparr>le_element = el, le_events = []\<rparr> | Some e \<Rightarrow> e)
           @ [\<lparr>tr_type = configType c, tr_handler = createWrappedHandler c key (configType c),
                tr_options = getEventOptions st c\<rparr>]\<rparr>)
       (eventListeners st)"
  by (simp add: listenerAdded_def Let_def validateResolvedHandler_fields)

lemma listenerAdded_tracking:
  "elementHandlers (listenerAdded st el c key sel) =
     (elementHandlers st)(el \<mapsto>
        (case elementHandlers st el of None \<Rightarrow> [] | Some es \<Rightarrow> es)
        @ [\<lparr>tr_type = configType c, tr_handler = createWrappedHandler c key (configType c),
             tr_options = getEventOptions st c\<rparr>])"
  by (simp add: listenerAdded_def Let_def validateResolvedHandler_fields)

lemma listenerAdded_calls:
  "hostCalls (listenerAdded st el c key sel) =
     hostCalls st
     @ [AddEventListener el (configType c) (createWrappedHandler c key (configType c))
          (getEventOptions st c)]
     @ (if enableHandlerValidation (config st)
           \<and> resolveHandler st (handlerMethodName st c (configType c)) (configType c) = None
        then [ConsoleWarn (resolveMethodName st (handlerMethodName st c (configType c)) (configType c))]
        else [])"
proof -
  let ?st1 = "st\<lparr>hostCalls := hostCalls st @
      [AddEventListener el (configType c) (createWrappedHandler c key (configType c))
         (getEventOptions st c)]\<rparr>"
  have a: "handlerMethodName ?st1 c (configType c) = handlerMethodName st c (configType c)"
    by (rule handlerMethodName_config) simp
  have b: "\<And>n t. resolveHandler ?st1 n t = resolveHandler st n t"
    by (rule resolveHandler_config) simp
  have c: "\<And>n t. resolveMethodName ?st1 n t = resolveMethodName st n t"
    by (simp add: resolveMethodName_def)
  show ?thesis
    by (simp add: listenerAdded_def Let_def validateResolvedHandler_def a b c)
qed


text \<open>Loops that may throw.\<close>

lemma forEach_keeps:
  assumes "\<And>x s. f (after (step x s)) = f s"
  shows "f (after (forEach step xs s)) = f s"
proof (induction xs arbitrary: s)
  case Nil
  show ?case by simp
next
  case (Cons x xs)
  show ?case
  proof (cases "step x s")
    case (Inl thrown)
    then have "after (forEach step (x # xs) s) = after (step x s)" by simp
    then show ?thesis by (simp add: assms)
  next
    case (Inr s')
    then have "f (after (forEach step (x # xs) s)) = f s'" by (simp add: Cons.IH)
    also have "\<dots> = f (after (step x s))" using Inr by simp
    finally show ?thesis by (simp add: assms)
  qed
qed

lemma forEach_returns:
  assumes "\<And>x s. x \<in> set xs \<Longrightarrow> step x s = Inr (g x s)"
  shows "forEach step xs s = Inr (fold g xs s)"
  using assms by (induction xs arbitrary: s) simp_all

lemma forEach_throws:
  assumes "x \<in> set xs" and "\<And>s. \<exists>thrown. step x s = Inl thrown"
  shows "\<exists>thrown. forEach step xs s = Inl thrown"
  using assms(1)
proof (induction xs arbitrary: s)
  case Nil
  then show ?case by simp
next
  case (Cons y ys)
  show ?case
  proof (cases "step y s")
    case (Inl thrown)
    then show ?thesis by simp
  next
    case (Inr s')
    have "x \<noteq> y" using assms(2) [of s] Inr by auto
    with Cons.prems have "x \<in> set ys" by simp
    from Cons.IH [OF this] Inr show ?thesis by simp
  qed
qed

lemma registerEventListener_after:
  "after (registerEventListener d st el c key sel)
     = (if addEventListenerAccepts d (getEventOptions st c) then listenerAdded st el c key sel
        else st)"
  by (simp add: registerEventListener_def)

lemma registerEventListener_fields:
  "config (after (registerEventListener d st el c key sel)) = config st"
  "eventMapping (after (registerEventListener d st el c key sel)) = eventMapping st"
  "throttleTimers (after (registerEventListener d st el c key sel)) = throttleTimers st"
  "debounceTimers (after (registerEventListener d st el c key sel)) = debounceTimers st"
  "abortController (after (registerEventListener d st el c key sel)) = abortController st"
  "userHasInteracted (after (registerEventListener d st el c key sel)) = userHasInteracted st"
  "distanceCache (after (registerEventListener d st el c key sel)) = distanceCache st"
  by (simp_all add: registerEventListener_after listenerAdded_fields)


lemma registerEvents_fields:
  "config (after (registerEvents d st)) = config st"
  "eventMapping (after (registerEvents d st)) = eventMapping st"
  "throttleTimers (after (registerEvents d st)) = throttleTimers st"
  "debounceTimers (after (registerEvents d st)) = debounceTimers st"
  "abortController (after (registerEvents d st)) = abortController st"
  "userHasInteracted (after (registerEvents d st)) = userHasInteracted st"
  "distanceCache (after (registerEvents d st)) = distanceCache st"
  unfolding registerEvents_def
  by (rule forEach_keeps,
      simp add: registerEventListener_fields forEach_keeps split: prod.splits sum.splits)+

lemma cleanupEventTimers_fields:
  "config (cleanupEventTimers st key t) = config st"
  "eventMapping (cleanupEventTimers st key t) = eventMapping st"
  "eventListeners (cleanupEventTimers st key t) = eventListeners st"
  "elementHandlers (cleanupEventTimers st key t) = elementHandlers st"
  "eventHandlerMap (cleanupEventTimers st key t) = eventHandlerMap st"
  "abortController (cleanupEventTimers st key t) = abortController st"
  "userHasInteracted (cleanupEventTimers st key t) = userHasInteracted st"
  "distanceCache (cleanupEventTimers st key t) = distanceCache st"
  by (simp_all add: cleanupEventTimers_def Let_def split: option.splits)

lemma unregisterElement_fields:
  "config (unregisterElement st sel t el i) = config st"
  "eventMapping (unregisterElement st sel t el i) = eventMapping st"
  "eventHandlerMap (unregisterElement st sel t el i) = eventHandlerMap st"
  "abortController (unregisterElement st sel t el i) = abortController st"
  "userHasInteracted (unregisterElement st sel t el i) = userHasInteracted st"
  "distanceCache (unregisterElement st sel t el i) = distanceCache st"
  by (simp_all add: unregisterElement_def Let_def cleanupEventTimers_fields split: option.splits)

lemma cleanHandlers_fields:
  "config (cleanHandlers t el st) = config st"
  "eventMapping (cleanHandlers t el st) = eventMapping st"
  "eventListeners (cleanHandlers t el st) = eventListeners st"
  "elementHandlers (cleanHandlers t el st) = elementHandlers st"
  "throttleTimers (cleanHandlers t el st) = throttleTimers st"
  "debounceTimers (cleanHandlers t el st) = debounceTimers st"
  "abortController (cleanHandlers t el st) = abortController st"
  "userHasInteracted (cleanHandlers t el st) = userHasInteracted st"
  "distanceCache (cleanHandlers t el st) = distanceCache st"
  "hostCalls (cleanHandlers t el st) = hostCalls st"
  by (simp_all add: cleanHandlers_def Let_def split: option.splits)


lemma cleanHandlers_handlers:
  "eventHandlerMap (cleanHandlers t el st) =
     (case eventHandlerMap st t of
        None \<Rightarrow> eventHandlerMap st
      | Some hs \<Rightarrow>
          if filter (\<lambda>h. hi_element h \<noteq> el) hs = [] then (eventHandlerMap st)(t := None)
          else (eventHandlerMap st)(t \<mapsto> filter (\<lambda>h. hi_element h \<noteq> el) hs))"
  by (simp add: cleanHandlers_def Let_def split: option.splits)

lemma cleanupEventTimers_idle:
  "throttleTimers st = [] \<Longrightarrow> debounceTimers st = [] \<Longrightarrow> cleanupEventTimers st key t = st"
  by (simp add: cleanupEventTimers_def)

lemma unregisterElement_calls_idle:
  "throttleTimers st = [] \<Longrightarrow> debounceTimers st = [] \<Longrightarrow>
     hostCalls (unregisterElement st sel t el i) =
       hostCalls st
       @ (case map_of (eventListeners st) (listenerKey sel t i) of
            None \<Rightarrow> []
          | Some listenerConfig \<Rightarrow>
              (case find (\<lambda>e. tr_type e = t) (le_events listenerConfig) of
                 None \<Rightarrow> []
               | Some eventData \<Rightarrow>
                   [RemoveEventListener el t (tr_handler eventData) (tr_options eventData)]))"
  by (simp add: unregisterElement_def Let_def cleanupEventTimers_idle split: option.splits)

section \<open>Listener keys\<close>






section \<open>The instances on the small document\<close>

lemma example_keys:
  "getElementKey exampleDom (Node outerDiv) = ''div[0]''"
  "getElementKey exampleDom (Node innerDiv) = ''div[0]''"
  "getElementKey exampleDom (Node body) = ''body[1]''"
  by (simp_all add: exampleDom_def outerDiv_def innerDiv_def body_def toLowerCase_def
        string_of_nat.simps)

lemma example_distances:
  "calculateDOMDistance innerDiv (Node innerDiv) = enat 0"
  "calculateDOMDistance innerDiv (Node outerDiv) = enat 1"
  "calculateDOMDistance innerDiv (Node body) = enat 2"
  "calculateDOMDistance outerDiv (Node body) = enat 1"
  by (simp_all add: calculateDOMDistance_def outerDiv_def innerDiv_def body_def)

lemma cache_miss:
  "enableDistanceCache (config st) \<Longrightarrow> distanceCache st (cacheKey d target container) = None \<Longrightarrow>
     calculateDistanceWithCache d st target container
       = (calculateDOMDistance target container,
          st\<lparr>distanceCache := (distanceCache st)(cacheKey d target container \<mapsto>
               calculateDOMDistance target container)\<rparr>)"
  by (simp add: calculateDistanceWithCache_def Let_def)

lemma cache_hit:
  "enableDistanceCache (config st) \<Longrightarrow> distanceCache st (cacheKey d target container) = Some v \<Longrightarrow>
     calculateDistanceWithCache d st target container = (v, st)"
  by (simp add: calculateDistanceWithCache_def)

lemma cache_off:
  "\<not> enableDistanceCache (config st) \<Longrightarrow>
     calculateDistanceWithCache d st target container = (calculateDOMDistance target container, st)"
  by (simp add: calculateDistanceWithCache_def)

lemma bodyStart_settings:
  "enableDistanceCache (config bodyStart)"
  "\<not> autoTargetResolution (config bodyStart)"
  "\<not> methodsFirst (config bodyStart)"
  "enableHandlerValidation (config bodyStart)"
  "\<not> passiveSupported (config bodyStart)"
  "fnTables (config bodyStart) = exampleTables"
  "aliases (config bodyStart) = noAliases"
  "handlerPrefix (config bodyStart) = ''handle''"
  "passiveEvents (config bodyStart) = defaultPassiveEvents"
  by (simp_all add: bodyStart_def detectPassiveSupport_def initialInstance_def initialSettings_def)

lemma bodyStart_fields:
  "eventMapping bodyStart = [(''body'', [EvString ''click'']), (''html > body'', [throttledClick])]"
  "eventListeners bodyStart = []"
  "elementHandlers bodyStart = Map.empty"
  "eventHandlerMap bodyStart = Map.empty"
  "throttleTimers bodyStart = []"
  "debounceTimers bodyStart = []"
  "\<not> abortController bodyStart"
  "\<not> userHasInteracted bodyStart"
  "distanceCache bodyStart = Map.empty"
  "hostCalls bodyStart = []"
  by (simp_all add: bodyStart_def detectPassiveSupport_def initialInstance_def decodeMapping_def
        bodyMapping_def throttledClick_def)

lemma body_valid: "validateConfiguration bodyMapping (JObject []) = None"
  by (simp add: validateConfiguration_def validateSelectorConfig_def bodyMapping_def
        validateActionableConfig_def validateStrings_def blank_def indexed_def)

lemma orEmptyObject_undefined: "orEmptyObject JUndefined = JObject []"
  by (simp add: orEmptyObject_def)

lemma bodyMapping_defined: "orEmptyObject bodyMapping = bodyMapping"
  by (simp add: orEmptyObject_def bodyMapping_def)

lemma body_elements:
  "getElements exampleDom ''body'' = Inr [Node body]"
  "getElements exampleDom ''html > body'' = Inr [Node body]"
  by (simp_all add: getElements_def exampleDom_def body_def)

lemma example_accepts: "addEventListenerAccepts exampleDom NoOptions"
  by simp

lemma throttledClick_simps:
  "configType throttledClick = ''click''"
  "createWrappedHandler throttledClick key ''click''
     = Throttled (Finite 100) (key @ ''-click-throttle'')"
  "handlerMethodName st throttledClick t = prefixedName st t"
  by (simp_all add: throttledClick_def)

lemma body_options:
  "config st = config bodyStart \<Longrightarrow> \<not> abortController st \<Longrightarrow>
     getEventOptions st (EvString ''click'') = NoOptions"
  "config st = config bodyStart \<Longrightarrow> \<not> abortController st \<Longrightarrow>
     getEventOptions st throttledClick = NoOptions"
  by (simp_all add: bodyStart_settings throttledClick_def)

lemma bodyInstance_unfold:
  "bodyInstance =
     listenerAdded
       (listenerAdded bodyStart (Node body) (EvString ''click'') ''body_click_0'' ''body'')
       (Node body) throttledClick ''html > body_click_0'' ''html > body''"
proof -
  have r: "registerEvents exampleDom bodyStart = Inr (listenerAdded
       (listenerAdded bodyStart (Node body) (EvString ''click'') ''body_click_0'' ''body'')
       (Node body) throttledClick ''html > body_click_0'' ''html > body'')"
    by (simp add: registerEvents_def bodyStart_fields body_elements indexed_def listenerKey_def
          string_of_nat.simps throttledClick_simps registerEventListener_def body_options
          listenerAdded_fields bodyStart_settings)
  have "bodyInstance = after (liftNative (registerEvents exampleDom bodyStart))"
    by (simp add: bodyInstance_def construct_def bodyMapping_defined orEmptyObject_undefined
          body_valid bodyStart_def Let_def)
  with r show ?thesis by (simp add: liftNative_def)
qed

lemma body_prefixed:
  "config st = config bodyStart \<Longrightarrow> prefixedName st ''click'' = ''handleClick''"
  by (simp add: prefixedName_def bodyStart_settings toUpperCase_def)

lemma body_resolves:
  "config st = config bodyStart \<Longrightarrow>
     resolveHandler st ''handleClick'' ''click'' = Some (InstanceMethod ''handleClick'')"
  by (simp add: resolveHandler_def resolveMethodName_def bodyStart_settings exampleTables_def
        noAliases_def)

lemmas body_simps = bodyInstance_unfold listenerAdded_fields bodyStart_fields
  bodyStart_settings throttledClick_simps body_prefixed body_resolves body_options

lemma bodyInstance_fields:
  "config bodyInstance = config bodyStart"
  "eventMapping bodyInstance
     = [(''body'', [EvString ''click'']), (''html > body'', [throttledClick])]"
  "throttleTimers bodyInstance = []"
  "debounceTimers bodyInstance = []"
  "\<not> abortController bodyInstance"
  "\<not> userHasInteracted bodyInstance"
  "distanceCache bodyInstance = Map.empty"
  by (simp_all add: body_simps)

lemma bodyInstance_handlers:
  "eventHandlerMap bodyInstance
     = [''click'' \<mapsto>
          [\<lparr>hi_element = Node body, hi_handler = ''handleClick'', hi_selector = ''body'',
             hi_config = EvString ''click''\<rparr>,
           \<lparr>hi_element = Node body, hi_handler = ''handleClick'', hi_selector = ''html > body'',
             hi_config = throttledClick\<rparr>]]"
  by (simp add: body_simps listenerAdded_handlers)

lemma bodyInstance_listeners:
  "eventListeners bodyInstance
     = [(''body_click_0'',
         \<lparr>le_element = Node body,
            le_events = [\<lparr>tr_type = ''click'', tr_handler = Self, tr_options = NoOptions\<rparr>]\<rparr>),
        (''html > body_click_0'',
         \<lparr>le_element = Node body,
            le_events = [\<lparr>tr_type = ''click'',
                           tr_handler = Throttled (Finite 100) ''html > body_click_0-click-throttle'',
                           tr_options = NoOptions\<rparr>]\<rparr>)]"
  by (simp add: body_simps listenerAdded_listeners)

lemma bodyInstance_tracking:
  "elementHandlers bodyInstance (Node body)
     = Some [\<lparr>tr_type = ''click'', tr_handler = Self, tr_options = NoOptions\<rparr>,
             \<lparr>tr_type = ''click'',
                tr_handler = Throttled (Finite 100) ''html > body_click_0-click-throttle'',
                tr_options = NoOptions\<rparr>]"
  by (simp add: body_simps listenerAdded_tracking)

lemma bodyInstance_calls:
  "hostCalls bodyInstance
     = [AddEventListener (Node body) ''click'' Self NoOptions,
        AddEventListener (Node body) ''click''
          (Throttled (Finite 100) ''html > body_click_0-click-throttle'') NoOptions]"
  by (simp add: body_simps listenerAdded_calls)

lemma panelStart_settings:
  "enableDistanceCache (config panelStart)"
  "\<not> autoTargetResolution (config panelStart)"
  "\<not> methodsFirst (config panelStart)"
  "enableHandlerValidation (config panelStart)"
  "\<not> passiveSupported (config panelStart)"
  "fnTables (config panelStart) = exampleTables"
  "aliases (config panelStart) = noAliases"
  "handlerPrefix (config panelStart) = ''handle''"
  "passiveEvents (config panelStart) = defaultPassiveEvents"
  by (simp_all add: panelStart_def detectPassiveSupport_def initialInstance_def initialSettings_def)

lemma panelStart_fields:
  "eventMapping panelStart = [(''[data-panel]'', [openPanel]), (''[data-item]'', [selectItem])]"
  "eventListeners panelStart = []"
  "elementHandlers panelStart = Map.empty"
  "eventHandlerMap panelStart = Map.empty"
  "throttleTimers panelStart = []"
  "debounceTimers panelStart = []"
  "\<not> abortController panelStart"
  "\<not> userHasInteracted panelStart"
  "distanceCache panelStart = Map.empty"
  "hostCalls panelStart = []"
  by (simp_all add: panelStart_def detectPassiveSupport_def initialInstance_def decodeMapping_def
        panelMapping_def openPanel_def selectItem_def)

lemma panel_valid: "validateConfiguration panelMapping (JObject []) = None"
  by (simp add: validateConfiguration_def validateSelectorConfig_def panelMapping_def
        validateActionableConfig_def validateStrings_def blank_def indexed_def)

lemma panelMapping_defined: "orEmptyObject panelMapping = panelMapping"
  by (simp add: orEmptyObject_def panelMapping_def)

lemma panel_elements:
  "getElements exampleDom ''[data-panel]'' = Inr [Node outerDiv]"
  "getElements exampleDom ''[data-item]'' = Inr [Node innerDiv]"
  by (simp_all add: getElements_def exampleDom_def outerDiv_def innerDiv_def)

lemma panel_configs:
  "configType openPanel = ''click''"
  "configType selectItem = ''click''"
  "createWrappedHandler openPanel key ''click'' = Self"
  "createWrappedHandler selectItem key ''click'' = Self"
  "handlerMethodName st openPanel t = ''openPanel''"
  "handlerMethodName st selectItem t = ''selectItem''"
  by (simp_all add: openPanel_def selectItem_def)

lemma panel_options:
  "config st = config panelStart \<Longrightarrow> \<not> abortController st \<Longrightarrow>
     getEventOptions st openPanel = NoOptions"
  "config st = config panelStart \<Longrightarrow> \<not> abortController st \<Longrightarrow>
     getEventOptions st selectItem = NoOptions"
  by (simp_all add: panelStart_settings openPanel_def selectItem_def)

lemma panelInstance_unfold:
  "panelInstance =
     listenerAdded
       (listenerAdded panelStart (Node outerDiv) openPanel ''[data-panel]_click_0''
          ''[data-panel]'')
       (Node innerDiv) selectItem ''[data-item]_click_0'' ''[data-item]''"
proof -
  have r: "registerEvents exampleDom panelStart = Inr (listenerAdded
       (listenerAdded panelStart (Node outerDiv) openPanel ''[data-panel]_click_0''
          ''[data-panel]'')
       (Node innerDiv) selectItem ''[data-item]_click_0'' ''[data-item]'')"
    by (simp add: registerEvents_def panelStart_fields panel_elements indexed_def listenerKey_def
          string_of_nat.simps panel_configs registerEventListener_def panel_options
          listenerAdded_fields)
  have "panelInstance = after (liftNative (registerEvents exampleDom panelStart))"
    by (simp add: panelInstance_def construct_def panelMapping_defined orEmptyObject_undefined
          panel_valid panelStart_def Let_def)
  with r show ?thesis by (simp add: liftNative_def)
qed

lemma panel_resolves:
  "config st = config panelStart \<Longrightarrow>
     resolveHandler st ''openPanel'' ''click'' = Some (InstanceMethod ''openPanel'')"
  "config st = config panelStart \<Longrightarrow>
     resolveHandler st ''selectItem'' ''click'' = Some (InstanceMethod ''selectItem'')"
  by (simp_all add: resolveHandler_def resolveMethodName_def panelStart_settings exampleTables_def
        noAliases_def)

lemmas panel_simps = panelInstance_unfold listenerAdded_fields panelStart_fields
  panelStart_settings panel_configs panel_resolves panel_options

lemma panelInstance_fields:
  "config panelInstance = config panelStart"
  "eventMapping panelInstance
     = [(''[data-panel]'', [openPanel]), (''[data-item]'', [selectItem])]"
  "throttleTimers panelInstance = []"
  "debounceTimers panelInstance = []"
  "\<not> abortController panelInstance"
  "\<not> userHasInteracted panelInstance"
  "distanceCache panelInstance = Map.empty"
  by (simp_all add: panel_simps)

lemma panelInstance_listeners:
  "eventListeners panelInstance
     = [(''[data-panel]_click_0'',
         \<lparr>le_element = Node outerDiv,
            le_events = [\<lparr>tr_type = ''click'', tr_handler = Self, tr_options = NoOptions\<rparr>]\<rparr>),
        (''[data-item]_click_0'',
         \<lparr>le_element = Node innerDiv,
            le_events = [\<lparr>tr_type = ''click'', tr_handler = Self, tr_options = NoOptions\<rparr>]\<rparr>)]"
  by (simp add: panel_simps listenerAdded_listeners)

lemma panelInstance_calls:
  "hostCalls panelInstance
     = [AddEventListener (Node outerDiv) ''click'' Self NoOptions,
        AddEventListener (Node innerDiv) ''click'' Self NoOptions]"
  by (simp add: panel_simps listenerAdded_calls)

lemma panelInstance_handlers:
  "eventHandlerMap panelInstance
     = [''click'' \<mapsto>
          [\<lparr>hi_element = Node outerDiv, hi_handler = ''openPanel'',
             hi_selector = ''[data-panel]'', hi_config = openPanel\<rparr>,
           \<lparr>hi_element = Node innerDiv, hi_handler = ''selectItem'',
             hi_selector = ''[data-item]'', hi_config = selectItem\<rparr>]]"
  by (simp add: panel_simps listenerAdded_handlers)

lemma panelInstance_tracking:
  "elementHandlers panelInstance (Node outerDiv)
     = Some [\<lparr>tr_type = ''click'', tr_handler = Self, tr_options = NoOptions\<rparr>]"
  by (simp add: panel_simps listenerAdded_tracking outerDiv_def innerDiv_def)

section \<open>The instance on the document with two tabs\<close>

lemma tabsStart_settings:
  "enableDistanceCache (config tabsStart)"
  "\<not> autoTargetResolution (config tabsStart)"
  "\<not> methodsFirst (config tabsStart)"
  "enableHandlerValidation (config tabsStart)"
  "\<not> passiveSupported (config tabsStart)"
  "fnTables (config tabsStart) = exampleTables"
  "aliases (config tabsStart) = noAliases"
  "handlerPrefix (config tabsStart) = ''handle''"
  "passiveEvents (config tabsStart) = defaultPassiveEvents"
  by (simp_all add: tabsStart_def detectPassiveSupport_def initialInstance_def initialSettings_def)

lemma tabsStart_fields:
  "eventMapping tabsStart
     = [(''#b'', [clickConfig ''first'']), (''div#b'', [clickConfig ''second'']),
        (''body'', [clickConfig ''fallback''])]"
  "eventListeners tabsStart = []"
  "elementHandlers tabsStart = Map.empty"
  "eventHandlerMap tabsStart = Map.empty"
  "\<not> abortController tabsStart"
  "\<not> userHasInteracted tabsStart"
  "distanceCache tabsStart = Map.empty"
  "hostCalls tabsStart = []"
  by (simp_all add: tabsStart_def detectPassiveSupport_def initialInstance_def decodeMapping_def
        tabsMapping_def clickConfig_def)

lemma tabs_valid: "validateConfiguration tabsMapping (JObject []) = None"
  by (simp add: validateConfiguration_def validateSelectorConfig_def tabsMapping_def
        validateActionableConfig_def validateStrings_def blank_def indexed_def)

lemma tabsMapping_defined: "orEmptyObject tabsMapping = tabsMapping"
  by (simp add: orEmptyObject_def tabsMapping_def)

lemma tabs_elements:
  "getElements tabsDom ''#b'' = Inr [Node tabB]"
  "getElements tabsDom ''div#b'' = Inr [Node tabB]"
  "getElements tabsDom ''body'' = Inr [Node body]"
  by (simp_all add: getElements_def tabsDom_def tabB_def body_def)

lemma clickConfig_simps:
  "configType (clickConfig h) = ''click''"
  "createWrappedHandler (clickConfig h) key ''click'' = Self"
  "h \<noteq> [] \<Longrightarrow> handlerMethodName st (clickConfig h) t = h"
  by (simp_all add: clickConfig_def)

lemma tabs_options:
  "config st = config tabsStart \<Longrightarrow> \<not> abortController st \<Longrightarrow>
     getEventOptions st (clickConfig h) = NoOptions"
  by (simp add: tabsStart_settings clickConfig_def)

lemma tabs_resolves:
  "config st = config tabsStart \<Longrightarrow>
     resolveHandler st ''first'' ''click'' = Some (InstanceMethod ''first'')"
  "config st = config tabsStart \<Longrightarrow>
     resolveHandler st ''second'' ''click'' = Some (InstanceMethod ''second'')"
  "config st = config tabsStart \<Longrightarrow>
     resolveHandler st ''fallback'' ''click'' = Some (InstanceMethod ''fallback'')"
  by (simp_all add: resolveHandler_def resolveMethodName_def tabsStart_settings exampleTables_def
        noAliases_def)

lemma tabsInstance_unfold:
  "tabsInstance =
     listenerAdded
       (listenerAdded
          (listenerAdded tabsStart (Node tabB) (clickConfig ''first'') ''#b_click_0'' ''#b'')
          (Node tabB) (clickConfig ''second'') ''div#b_click_0'' ''div#b'')
       (Node body) (clickConfig ''fallback'') ''body_click_0'' ''body''"
proof -
  have r: "registerEvents tabsDom tabsStart = Inr (listenerAdded
       (listenerAdded
          (listenerAdded tabsStart (Node tabB) (clickConfig ''first'') ''#b_click_0'' ''#b'')
          (Node tabB) (clickConfig ''second'') ''div#b_click_0'' ''div#b'')
       (Node body) (clickConfig ''fallback'') ''body_click_0'' ''body'')"
    by (simp add: registerEvents_def tabsStart_fields tabs_elements indexed_def listenerKey_def
          string_of_nat.simps clickConfig_simps registerEventListener_def tabs_options
          listenerAdded_fields tabsStart_settings)
  have "tabsInstance = after (liftNative (registerEvents tabsDom tabsStart))"
    by (simp add: tabsInstance_def construct_def tabsMapping_defined orEmptyObject_undefined
          tabs_valid tabsStart_def Let_def)
  with r show ?thesis by (simp add: liftNative_def)
qed

lemmas tabs_simps = tabsInstance_unfold listenerAdded_fields tabsStart_fields
  tabsStart_settings clickConfig_simps tabs_resolves tabs_options

lemma tabsInstance_fields:
  "config tabsInstance = config tabsStart"
  "\<not> userHasInteracted tabsInstance"
  "distanceCache tabsInstance = Map.empty"
  by (simp_all add: tabs_simps)

lemma tabsInstance_handlers:
  "eventHandlerMap tabsInstance
     = [''click'' \<mapsto>
          [tabRegistration (Node tabB) ''first'' ''#b'',
           tabRegistration (Node tabB) ''second'' ''div#b'',
           tabRegistration (Node body) ''fallback'' ''body'']]"
  by (simp add: tabs_simps listenerAdded_handlers tabRegistration_def)

lemma tabs_keys:
  "getElementKey tabsDom (Node spanA) = ''span[0]''"
  "getElementKey tabsDom (Node spanB) = ''span[0]''"
  "getElementKey tabsDom (Node tabB) = ''div#b[1]''"
  "getElementKey tabsDom (Node body) = ''body[1]''"
  by (simp_all add: tabsDom_def spanA_def spanB_def tabB_def body_def toLowerCase_def
        string_of_nat.simps)

lemma tabs_distances:
  "calculateDOMDistance spanA (Node tabB) = \<infinity>"
  "calculateDOMDistance spanA (Node body) = enat 2"
  "calculateDOMDistance spanB (Node tabB) = enat 1"
  "calculateDOMDistance spanB (Node body) = enat 2"
  by (simp_all add: calculateDOMDistance_def spanA_def spanB_def tabB_def body_def)

lemma tabs_elements_of:
  "hi_element (tabRegistration element handler selector) = element"
  "hi_handler (tabRegistration element handler selector) = handler"
  "hi_selector (tabRegistration element handler selector) = selector"
  by (simp_all add: tabRegistration_def)

lemma tabs_closest:
  "findClosest tabsDom spanB ''#b'' = Inr (Some [1, 1])"
  "findClosest tabsDom spanB ''body'' = Inr (Some [1])"
  by (simp_all add: spanB_def tabsDom_def)
section \<open>Closest match\<close>

text \<open>
  When the cache is off, the loop of \<^verbatim>\<open>handleEvent\<close> sees the distances that
  \<^verbatim>\<open>calculateDOMDistance\<close> gives, and no handler is selected when no container is
  reachable.
\<close>

lemma closest_match_uncached:
  assumes "eventHandlerMap st (ev_type ev) = Some handlers"
    and "\<not> enableDistanceCache (config st)"
  shows "chosen (fst (handleEvent d st ev))
           = fst (pick (zip handlers
                    (map (\<lambda>h. calculateDOMDistance (ev_target ev) (hi_element h)) handlers))
                  None \<infinity>)"
  using assms by (simp add: chosen_handleEvent seenDistances_uncached)

lemma unreachable_uncached:
  assumes "eventHandlerMap st (ev_type ev) = Some handlers"
    and "\<not> enableDistanceCache (config st)"
    and "\<forall>h \<in> set handlers. calculateDOMDistance (ev_target ev) (hi_element h) = \<infinity>"
  shows "chosen (fst (handleEvent d st ev)) = None \<and> invoked (fst (handleEvent d st ev)) = None"
proof -
  let ?ps = "zip handlers (map (\<lambda>h. calculateDOMDistance (ev_target ev) (hi_element h)) handlers)"
  from assms(3) have "\<forall>p \<in> set ?ps. snd p = \<infinity>"
    by (auto simp: set_zip)
  then have "pick ?ps None \<infinity> = (None, \<infinity>)" by (rule pick_unreachable)
  with closest_match_uncached [OF assms(1,2)]
  have c: "chosen (fst (handleEvent d st ev)) = None" by simp
  then have "invoked (fst (handleEvent d st ev)) = None"
    by (cases "fst (handleEvent d st ev)") simp_all
  with c show ?thesis by simp
qed

text \<open>
  \<^bold>\<open>C1\<close>. On the small document, the instance registers \<^verbatim>\<open>openPanel\<close> for clicks on the
  outer \<^verbatim>\<open>div\<close> and \<^verbatim>\<open>selectItem\<close> for clicks on the inner one. With the cache empty, a
  click on the inner \<^verbatim>\<open>div\<close> is dispatched to the registration of the outer \<^verbatim>\<open>div\<close>,
  whose distance from the origin is 1, and \<^verbatim>\<open>openPanel\<close> is invoked, although the inner
  \<^verbatim>\<open>div\<close> is registered too and its distance is 0. Both containers have the element key
  \<^verbatim>\<open>div[0]\<close>, so the lookup for the inner one returns the distance cached for the outer
  one.
\<close>

theorem closest_match_collision:
  "fst (handleEvent exampleDom panelInstance \<lparr>ev_type = ''click'', ev_target = innerDiv\<rparr>)
     = Invoked \<lparr>hi_element = Node outerDiv, hi_handler = ''openPanel'',
                hi_selector = ''[data-panel]'', hi_config = openPanel\<rparr>
         (InstanceMethod ''openPanel'') innerDiv (Some [0, 1])
   \<and> eventHandlerMap panelInstance ''click''
       = Some [\<lparr>hi_element = Node outerDiv, hi_handler = ''openPanel'',
                  hi_selector = ''[data-panel]'', hi_config = openPanel\<rparr>,
               \<lparr>hi_element = Node innerDiv, hi_handler = ''selectItem'',
                  hi_selector = ''[data-item]'', hi_config = selectItem\<rparr>]
   \<and> calculateDOMDistance innerDiv (Node outerDiv) = enat 1
   \<and> calculateDOMDistance innerDiv (Node innerDiv) = enat 0"
proof -
  let ?ev = "\<lparr>ev_type = ''click'', ev_target = innerDiv\<rparr>"
  let ?st = "checkUserInteraction panelInstance ?ev"
  let ?outer = "\<lparr>hi_element = Node outerDiv, hi_handler = ''openPanel'',
                hi_selector = ''[data-panel]'', hi_config = openPanel\<rparr>"
  let ?inner = "\<lparr>hi_element = Node innerDiv, hi_handler = ''selectItem'',
                hi_selector = ''[data-item]'', hi_config = selectItem\<rparr>"
  let ?st' = "?st\<lparr>distanceCache := [''div[0]-div[0]'' \<mapsto> enat 1]\<rparr>"
  have c: "config ?st = config panelStart" and m: "distanceCache ?st = Map.empty"
    by (simp_all add: checkUserInteraction_def panelInstance_fields)
  have l1: "calculateDistanceWithCache exampleDom ?st innerDiv (Node outerDiv) = (enat 1, ?st')"
    using c m by (subst cache_miss) (simp_all add: panelStart_settings cacheKey_def example_keys
        example_distances)
  have l2: "calculateDistanceWithCache exampleDom ?st' innerDiv (Node innerDiv) = (enat 1, ?st')"
    using c by (subst cache_hit [where v = "enat 1"]) (simp_all add: panelStart_settings cacheKey_def
        example_keys)
  have loop: "closestLoop exampleDom innerDiv [?outer, ?inner] None \<infinity> ?st = (Some ?outer, enat 1, ?st')"
    by (simp add: l1 l2 del: One_nat_def)
  have r: "resolveHandler ?st' ''openPanel'' ''click'' = Some (InstanceMethod ''openPanel'')"
    using c by (simp add: panel_resolves)
  have a: "\<not> autoTargetResolution (config ?st')" using c by (simp add: panelStart_settings)
  have f: "findClosest exampleDom innerDiv ''[data-panel]'' = Inr (Some [0, 1])"
    by (simp add: innerDiv_def exampleDom_def)
  have "fst (handleEvent exampleDom panelInstance ?ev) = Invoked ?outer (InstanceMethod ''openPanel'')
          innerDiv (Some [0, 1])"
    using r a
    by (simp add: handleEvent_def panelInstance_handlers findClosestHandler_def loop invokeClosest_def
          callHandler_def f del: closestLoop.simps One_nat_def)
  then show ?thesis by (simp add: example_distances panelInstance_handlers)
qed
section \<open>The cache\<close>

lemma cache_transparent_off:
  "\<not> enableDistanceCache (config st) \<Longrightarrow>
     fst (calculateDistanceWithCache d st target container) = calculateDOMDistance target container"
  by (simp add: cache_off)

lemma cache_transparent_miss:
  "distanceCache st (cacheKey d target container) = None \<Longrightarrow>
     fst (calculateDistanceWithCache d st target container) = calculateDOMDistance target container"
  by (simp add: calculateDistanceWithCache_def Let_def)

text \<open>
  \<^bold>\<open>C2\<close>. On the small document the outer and the inner \<^verbatim>\<open>div\<close> are different nodes with
  the same element key, \<^verbatim>\<open>div[0]\<close>. On the instance \<open>panelInstance\<close>, whose cache is
  on and empty, a lookup of the distance from the outer \<^verbatim>\<open>div\<close> to \<^verbatim>\<open>body\<close> gives
  1 and stores it; the lookup of the distance from the inner \<^verbatim>\<open>div\<close> to \<^verbatim>\<open>body\<close> that
  follows returns the stored 1, where \<^verbatim>\<open>calculateDOMDistance\<close> gives 2.
\<close>

theorem cache_key_collision:
  "outerDiv \<noteq> innerDiv
   \<and> getElementKey exampleDom (Node outerDiv) = getElementKey exampleDom (Node innerDiv)
   \<and> fst (calculateDistanceWithCache exampleDom panelInstance outerDiv (Node body)) = enat 1
   \<and> fst (calculateDistanceWithCache exampleDom
             (snd (calculateDistanceWithCache exampleDom panelInstance outerDiv (Node body)))
             innerDiv (Node body)) = enat 1
   \<and> calculateDOMDistance innerDiv (Node body) = enat 2"
proof -
  let ?st' = "panelInstance\<lparr>distanceCache := [''div[0]-body[1]'' \<mapsto> enat 1]\<rparr>"
  have l1: "calculateDistanceWithCache exampleDom panelInstance outerDiv (Node body) = (enat 1, ?st')"
    by (subst cache_miss)
       (simp_all add: panelInstance_fields panelStart_settings cacheKey_def example_keys
          example_distances)
  have l2: "calculateDistanceWithCache exampleDom ?st' innerDiv (Node body) = (enat 1, ?st')"
    by (subst cache_hit [where v = "enat 1"])
       (simp_all add: panelInstance_fields panelStart_settings cacheKey_def example_keys)
  have "outerDiv \<noteq> innerDiv" by (simp add: outerDiv_def innerDiv_def)
  then show ?thesis by (simp add: l1 l2 example_keys example_distances del: One_nat_def)
qed

section \<open>Ties\<close>

text \<open>
  The loop of \<^verbatim>\<open>handleEvent\<close> replaces its candidate only for a strictly smaller
  distance. Let \<open>ds\<close> be the distances it gets from \<^verbatim>\<open>calculateDistanceWithCache\<close> for
  the candidates of the event type, in registration order. If candidate \<open>i\<close> has a finite
  distance that no candidate undercuts, and no candidate before it has the same
  distance, then the dispatch selects candidate \<open>i\<close>. With the cache off, \<open>ds\<close> are the
  distances that \<^verbatim>\<open>calculateDOMDistance\<close> gives.
\<close>

lemma first_minimum_chosen:
  assumes "eventHandlerMap st (ev_type ev) = Some handlers"
    and "ds = seenDistances d (ev_target ev) handlers st"
    and "i < length handlers"
    and "ds ! i \<noteq> \<infinity>"
    and "\<forall>j<length handlers. ds ! i \<le> ds ! j"
    and "\<forall>j<i. ds ! j \<noteq> ds ! i"
  shows "chosen (fst (handleEvent d st ev)) = Some (handlers ! i)
         \<and> (\<not> enableDistanceCache (config st) \<longrightarrow>
              ds = map (\<lambda>h. calculateDOMDistance (ev_target ev) (hi_element h)) handlers)"
proof
  let ?ps = "zip handlers ds"
  have len: "length ds = length handlers" using assms(2) by (simp add: length_seenDistances)
  have nth: "\<And>j. j < length handlers \<Longrightarrow> ?ps ! j = (handlers ! j, ds ! j)"
    using len by simp
  have "pick ?ps None \<infinity> = (Some (fst (?ps ! i)), snd (?ps ! i))"
  proof (rule pick_first_minimum)
    show "i < length ?ps" using assms(3) len by simp
    show "snd (?ps ! i) \<noteq> \<infinity>" using assms(3,4) nth by simp
    then show "snd (?ps ! i) < \<infinity>" by simp
    show "\<forall>j<length ?ps. snd (?ps ! i) \<le> snd (?ps ! j)" using assms(3,5) nth len by simp
    show "\<forall>j<i. snd (?ps ! j) \<noteq> snd (?ps ! i)" using assms(3,6) nth by simp
  qed
  then have "fst (pick ?ps None \<infinity>) = Some (handlers ! i)" using assms(3) nth by simp
  then show "chosen (fst (handleEvent d st ev)) = Some (handlers ! i)"
    using chosen_handleEvent [OF assms(1)] assms(2) by simp
next
  show "\<not> enableDistanceCache (config st) \<longrightarrow>
          ds = map (\<lambda>h. calculateDOMDistance (ev_target ev) (hi_element h)) handlers"
    using assms(2) by (simp add: seenDistances_uncached)
qed

text \<open>
  \<^bold>\<open>C5\<close>. On the document with two tabs, the instance has three registrations for
  \<^verbatim>\<open>click\<close>: \<^verbatim>\<open>first\<close> and \<^verbatim>\<open>second\<close> on the tab \<^verbatim>\<open>div#b\<close> (through the selectors \<^verbatim>\<open>#b\<close>
  and \<^verbatim>\<open>div#b\<close>) and \<^verbatim>\<open>fallback\<close> on \<^verbatim>\<open>body\<close>. For a click on the \<^verbatim>\<open>span\<close> in tab b their
  distances to the origin are 1, 1 and 2: the first two tie at the minimum. With the
  cache empty the dispatch selects the first registration and calls \<^verbatim>\<open>first\<close>. After a
  click on the \<^verbatim>\<open>span\<close> in tab a, the same click on the \<^verbatim>\<open>span\<close> in tab b selects the
  third registration and calls \<^verbatim>\<open>fallback\<close>: both spans have the element key
  \<^verbatim>\<open>span[0]\<close>, and the lookups for the tab return the \<open>Infinity\<close> cached for the other
  span. The selection depends on the clicks that came before, not only on the
  registrations and the tree.
\<close>

theorem tie_break_cache_history:
  "eventHandlerMap tabsInstance ''click''
     = Some [tabRegistration (Node tabB) ''first'' ''#b'',
             tabRegistration (Node tabB) ''second'' ''div#b'',
             tabRegistration (Node body) ''fallback'' ''body'']
   \<and> map (\<lambda>h. calculateDOMDistance spanB (hi_element h))
         [tabRegistration (Node tabB) ''first'' ''#b'',
          tabRegistration (Node tabB) ''second'' ''div#b'',
          tabRegistration (Node body) ''fallback'' ''body'']
       = [enat 1, enat 1, enat 2]
   \<and> fst (handleEvent tabsDom tabsInstance \<lparr>ev_type = ''click'', ev_target = spanB\<rparr>)
       = Invoked (tabRegistration (Node tabB) ''first'' ''#b'') (InstanceMethod ''first'')
           spanB (Some [1, 1])
   \<and> fst (handleEvent tabsDom
             (snd (handleEvent tabsDom tabsInstance \<lparr>ev_type = ''click'', ev_target = spanA\<rparr>))
             \<lparr>ev_type = ''click'', ev_target = spanB\<rparr>)
       = Invoked (tabRegistration (Node body) ''fallback'' ''body'') (InstanceMethod ''fallback'')
           spanB (Some [1])"
proof -
  let ?h1 = "tabRegistration (Node tabB) ''first'' ''#b''"
  let ?h2 = "tabRegistration (Node tabB) ''second'' ''div#b''"
  let ?h3 = "tabRegistration (Node body) ''fallback'' ''body''"
  let ?a = "\<lparr>ev_type = ''click'', ev_target = spanA\<rparr>"
  let ?b = "\<lparr>ev_type = ''click'', ev_target = spanB\<rparr>"
  have m: "eventHandlerMap tabsInstance ''click'' = Some [?h1, ?h2, ?h3]"
    by (simp add: tabsInstance_handlers)
  have ds: "map (\<lambda>h. calculateDOMDistance spanB (hi_element h)) [?h1, ?h2, ?h3]
              = [enat 1, enat 1, enat 2]"
    by (simp add: tabs_elements_of tabs_distances)
  txt \<open>The click on the span in tab b, with the cache empty.\<close>
  let ?s0 = "checkUserInteraction tabsInstance ?b"
  let ?s1 = "?s0\<lparr>distanceCache := [''span[0]-div#b[1]'' \<mapsto> enat 1]\<rparr>"
  let ?s2 = "?s0\<lparr>distanceCache :=
      [''span[0]-div#b[1]'' \<mapsto> enat 1, ''span[0]-body[1]'' \<mapsto> enat 2]\<rparr>"
  have c0: "config ?s0 = config tabsStart" and e0: "distanceCache ?s0 = Map.empty"
    by (simp_all add: checkUserInteraction_def tabsInstance_fields)
  have f1: "calculateDistanceWithCache tabsDom ?s0 spanB (Node tabB) = (enat 1, ?s1)"
    using c0 e0 by (subst cache_miss)
      (simp_all add: tabsStart_settings cacheKey_def tabs_keys tabs_distances)
  have f2: "calculateDistanceWithCache tabsDom ?s1 spanB (Node tabB) = (enat 1, ?s1)"
    using c0 by (subst cache_hit [where v = "enat 1"])
      (simp_all add: tabsStart_settings cacheKey_def tabs_keys)
  have f3: "calculateDistanceWithCache tabsDom ?s1 spanB (Node body) = (enat 2, ?s2)"
    using c0 by (subst cache_miss)
      (simp_all add: tabsStart_settings cacheKey_def tabs_keys tabs_distances)
  have fresh: "closestLoop tabsDom spanB [?h1, ?h2, ?h3] None \<infinity> ?s0 = (Some ?h1, enat 1, ?s2)"
    by (simp add: tabs_elements_of f1 f2 f3 del: One_nat_def)
  have r1: "resolveHandler ?s2 ''first'' ''click'' = Some (InstanceMethod ''first'')"
    using c0 by (simp add: tabs_resolves)
  have a1: "\<not> autoTargetResolution (config ?s2)" using c0 by (simp add: tabsStart_settings)
  have first: "fst (handleEvent tabsDom tabsInstance ?b)
                 = Invoked ?h1 (InstanceMethod ''first'') spanB (Some [1, 1])"
    using r1 a1
    by (simp add: handleEvent_def m findClosestHandler_def fresh invokeClosest_def callHandler_def
          tabs_elements_of tabs_closest del: closestLoop.simps One_nat_def)
  txt \<open>The click on the span in tab a, and then the click on the span in tab b.\<close>
  let ?t0 = "checkUserInteraction tabsInstance ?a"
  let ?t1 = "?t0\<lparr>distanceCache := [''span[0]-div#b[1]'' \<mapsto> \<infinity>]\<rparr>"
  let ?t2 = "?t0\<lparr>distanceCache :=
      [''span[0]-div#b[1]'' \<mapsto> \<infinity>, ''span[0]-body[1]'' \<mapsto> enat 2]\<rparr>"
  have ct: "config ?t0 = config tabsStart" and et: "distanceCache ?t0 = Map.empty"
    by (simp_all add: checkUserInteraction_def tabsInstance_fields)
  have g1: "calculateDistanceWithCache tabsDom ?t0 spanA (Node tabB) = (\<infinity>, ?t1)"
    using ct et by (subst cache_miss)
      (simp_all add: tabsStart_settings cacheKey_def tabs_keys tabs_distances)
  have g2: "calculateDistanceWithCache tabsDom ?t1 spanA (Node tabB) = (\<infinity>, ?t1)"
    using ct by (subst cache_hit [where v = "\<infinity>"])
      (simp_all add: tabsStart_settings cacheKey_def tabs_keys)
  have g3: "calculateDistanceWithCache tabsDom ?t1 spanA (Node body) = (enat 2, ?t2)"
    using ct by (subst cache_miss)
      (simp_all add: tabsStart_settings cacheKey_def tabs_keys tabs_distances)
  have loopA: "closestLoop tabsDom spanA [?h1, ?h2, ?h3] None \<infinity> ?t0 = (Some ?h3, enat 2, ?t2)"
    by (simp add: tabs_elements_of g1 g2 g3 del: One_nat_def)
  have after_a: "snd (handleEvent tabsDom tabsInstance ?a) = ?t2"
    by (simp add: handleEvent_def m findClosestHandler_def loopA del: closestLoop.simps)
  let ?u0 = "checkUserInteraction ?t2 ?b"
  have cu: "config ?u0 = config tabsStart"
    and eu: "distanceCache ?u0
               = [''span[0]-div#b[1]'' \<mapsto> \<infinity>, ''span[0]-body[1]'' \<mapsto> enat 2]"
    using ct by (simp_all add: checkUserInteraction_def)
  have k1: "calculateDistanceWithCache tabsDom ?u0 spanB (Node tabB) = (\<infinity>, ?u0)"
    using cu eu by (subst cache_hit [where v = "\<infinity>"])
      (simp_all add: tabsStart_settings cacheKey_def tabs_keys)
  have k3: "calculateDistanceWithCache tabsDom ?u0 spanB (Node body) = (enat 2, ?u0)"
    using cu eu by (subst cache_hit [where v = "enat 2"])
      (simp_all add: tabsStart_settings cacheKey_def tabs_keys)
  have loopB: "closestLoop tabsDom spanB [?h1, ?h2, ?h3] None \<infinity> ?u0 = (Some ?h3, enat 2, ?u0)"
    by (simp add: tabs_elements_of k1 k3 del: One_nat_def)
  have m2: "eventHandlerMap ?t0 ''click'' = Some [?h1, ?h2, ?h3]"
    using m by (simp add: checkUserInteraction_def)
  have r3: "resolveHandler ?u0 ''fallback'' ''click'' = Some (InstanceMethod ''fallback'')"
    using cu by (simp add: tabs_resolves)
  have a3: "\<not> autoTargetResolution (config ?u0)" using cu by (simp add: tabsStart_settings)
  have "fst (handleEvent tabsDom ?t2 ?b)
          = Invoked ?h3 (InstanceMethod ''fallback'') spanB (Some [1])"
    using r3 a3
    by (simp add: handleEvent_def m2 findClosestHandler_def loopB invokeClosest_def callHandler_def
          tabs_elements_of tabs_closest del: closestLoop.simps One_nat_def)
  then have second: "fst (handleEvent tabsDom (snd (handleEvent tabsDom tabsInstance ?a)) ?b)
          = Invoked ?h3 (InstanceMethod ''fallback'') spanB (Some [1])"
    by (simp only: after_a)
  from m ds first second show ?thesis by simp
qed
section \<open>The interaction flag\<close>

lemma handleEvent_flag:
  assumes "eventHandlerMap st (ev_type ev) = Some handlers" and "handlers \<noteq> []"
  shows "userHasInteracted (snd (handleEvent d st ev))
           = (userHasInteracted st \<or> ev_type ev \<notin> set (passiveEvents (config st)))"
proof -
  let ?st = "checkUserInteraction st ev"
  obtain ch cd st' where l: "closestLoop d (ev_target ev) handlers None \<infinity> ?st = (ch, cd, st')"
    by (cases "closestLoop d (ev_target ev) handlers None \<infinity> ?st")
  from closestLoop_frame [OF l] have "st' = ?st\<lparr>distanceCache := distanceCache st'\<rparr>" .
  then have "userHasInteracted st' = userHasInteracted ?st"
    by (metis yeh.select_convs(9) yeh.surjective yeh.update_convs(10))
  moreover have "snd (handleEvent d st ev) = st'"
    using assms l by (cases ch) (simp_all add: handleEvent_def findClosestHandler_def)
  ultimately show ?thesis by (auto simp: checkUserInteraction_def)
qed

text \<open>
  \<^bold>\<open>C10\<close>, as the code has it. The flag is false in the instance the constructor sets up
  and in the instance it returns. \<^verbatim>\<open>handleEvent\<close> returns before it looks at the flag
  when the handler map has no registration for the type of the event, and leaves the
  instance as it was. When the map has one, the flag afterwards is true exactly when it
  was true before or the type is not in \<^verbatim>\<open>passiveEvents\<close>; this is what
  \<^verbatim>\<open>checkUserInteraction\<close> does. \<^verbatim>\<open>hasUserInteracted\<close> returns the flag and leaves
  the instance as it was; \<^verbatim>\<open>resetUserInteracted\<close> sets the flag to false and nothing
  else.
\<close>

theorem interaction_flag:
  "\<not> userHasInteracted (initialInstance fns als mapping cfg)
   \<and> (construct d psv fns mappingArg als cfgArg = Inr st0 \<longrightarrow> \<not> userHasInteracted st0)
   \<and> (eventHandlerMap st (ev_type ev) = Some handlers \<and> handlers \<noteq> [] \<longrightarrow>
        userHasInteracted (snd (handleEvent d st ev))
          = (userHasInteracted st \<or> ev_type ev \<notin> set (passiveEvents (config st))))
   \<and> (eventHandlerMap st (ev_type ev) = None \<or> eventHandlerMap st (ev_type ev) = Some [] \<longrightarrow>
        handleEvent d st ev = (NoHandlers, st))
   \<and> userHasInteracted (checkUserInteraction st ev)
        = (userHasInteracted st \<or> ev_type ev \<notin> set (passiveEvents (config st)))
   \<and> hasUserInteracted st = (userHasInteracted st, st)
   \<and> resetUserInteracted st = st\<lparr>userHasInteracted := False\<rparr>"
proof (intro conjI impI)
  show "\<not> userHasInteracted (initialInstance fns als mapping cfg)"
    by (simp add: initialInstance_def)
next
  assume c: "construct d psv fns mappingArg als cfgArg = Inr st0"
  let ?st = "detectPassiveSupport psv
      (initialInstance fns als (orEmptyObject mappingArg) (orEmptyObject cfgArg))"
  from c have "registerEvents d ?st = Inr st0"
    by (auto simp: construct_def Let_def liftNative_def split: if_splits option.splits sum.splits)
  then have "st0 = after (registerEvents d ?st)" by simp
  then have "userHasInteracted st0 = userHasInteracted ?st"
    by (simp only: registerEvents_fields)
  then show "\<not> userHasInteracted st0"
    by (simp add: initialInstance_def detectPassiveSupport_def)
next
  assume "eventHandlerMap st (ev_type ev) = Some handlers \<and> handlers \<noteq> []"
  then show "userHasInteracted (snd (handleEvent d st ev))
          = (userHasInteracted st \<or> ev_type ev \<notin> set (passiveEvents (config st)))"
    using handleEvent_flag by blast
next
  assume "eventHandlerMap st (ev_type ev) = None \<or> eventHandlerMap st (ev_type ev) = Some []"
  then show "handleEvent d st ev = (NoHandlers, st)"
    by (auto simp: handleEvent_def)
next
  show "userHasInteracted (checkUserInteraction st ev)
        = (userHasInteracted st \<or> ev_type ev \<notin> set (passiveEvents (config st)))"
    by (auto simp: checkUserInteraction_def)
next
  show "hasUserInteracted st = (userHasInteracted st, st)"
    by (simp add: hasUserInteracted_def)
next
  show "resetUserInteracted st = st\<lparr>userHasInteracted := False\<rparr>"
    by (simp add: resetUserInteracted_def)
qed

text \<open>
  The theorem at the instance with two registrations on \<^verbatim>\<open>body\<close>: a click sets the flag, a
  scroll event (for which nothing is registered) changes nothing.
\<close>

theorem interaction_flag_witness:
  "construct exampleDom False exampleTables bodyMapping noAliases JUndefined = Inr bodyInstance
   \<and> \<not> userHasInteracted bodyInstance
   \<and> eventHandlerMap bodyInstance ''click'' \<noteq> None
   \<and> eventHandlerMap bodyInstance ''click'' \<noteq> Some []
   \<and> userHasInteracted (snd (handleEvent exampleDom bodyInstance
         \<lparr>ev_type = ''click'', ev_target = body\<rparr>))
   \<and> eventHandlerMap bodyInstance ''scroll'' = None
   \<and> handleEvent exampleDom bodyInstance \<lparr>ev_type = ''scroll'', ev_target = body\<rparr>
        = (NoHandlers, bodyInstance)"
proof -
  let ?click = "\<lparr>ev_type = ''click'', ev_target = body\<rparr>"
  let ?scroll = "\<lparr>ev_type = ''scroll'', ev_target = body\<rparr>"
  have "registerEvents exampleDom bodyStart = Inr bodyInstance"
    by (simp add: registerEvents_def bodyStart_fields body_elements indexed_def listenerKey_def
          string_of_nat.simps throttledClick_simps registerEventListener_def body_options
          listenerAdded_fields bodyStart_settings bodyInstance_unfold)
  then have c: "construct exampleDom False exampleTables bodyMapping noAliases JUndefined
             = Inr bodyInstance"
    by (simp add: construct_def bodyMapping_defined orEmptyObject_undefined
          body_valid Let_def liftNative_def bodyStart_def)
  obtain handlers where h: "eventHandlerMap bodyInstance (ev_type ?click) = Some handlers"
    and ne: "handlers \<noteq> []"
    by (simp add: bodyInstance_handlers)
  have s: "eventHandlerMap bodyInstance (ev_type ?scroll) = None"
    by (simp add: bodyInstance_handlers)
  have p: "ev_type ?click \<notin> set (passiveEvents (config bodyInstance))"
    by (simp add: bodyInstance_fields bodyStart_settings defaultPassiveEvents_def)
  note th = interaction_flag [where d = exampleDom and psv = False and fns = exampleTables
      and mappingArg = bodyMapping and als = noAliases and cfgArg = JUndefined
      and ?st0.0 = bodyInstance and mapping = bodyMapping and cfg = "JObject []"]
  from th [where st = bodyInstance and ev = ?click and handlers = handlers] c h ne p
  have a: "\<not> userHasInteracted bodyInstance
           \<and> userHasInteracted (snd (handleEvent exampleDom bodyInstance ?click))"
    by blast
  from th [where st = bodyInstance and ev = ?scroll and handlers = handlers] s
  have b: "handleEvent exampleDom bodyInstance ?scroll = (NoHandlers, bodyInstance)"
    by blast
  from a b c h ne s show ?thesis by auto
qed

text \<open>
  The claim as stated fails where no handler is registered for the type of the event.
  On the instance with two registrations on \<^verbatim>\<open>body\<close>, \<^verbatim>\<open>removeEvent('body', 'click')\<close>
  removes the listener of the first registration and, from the handler map, every
  registration of the \<^verbatim>\<open>body\<close> element; the throttled listener of the second
  registration stays on the element. A click that it passes on to \<^verbatim>\<open>handleEvent\<close>
  finds no handlers: the flag stays false, although \<^verbatim>\<open>click\<close> is not a passive event.
\<close>

theorem interaction_flag_counterexample:
  "(case removeEvent exampleDom bodyInstance ''body'' ''click'' of
      Inl thrown \<Rightarrow> False
    | Inr (removed, st) \<Rightarrow>
        removed
        \<and> hostCalls st =
            [AddEventListener (Node body) ''click'' Self NoOptions,
             AddEventListener (Node body) ''click''
               (Throttled (Finite 100) ''html > body_click_0-click-throttle'') NoOptions,
             RemoveEventListener (Node body) ''click'' Self NoOptions]
        \<and> ''click'' \<notin> set (passiveEvents (config st))
        \<and> \<not> userHasInteracted st
        \<and> \<not> userHasInteracted
              (snd (handleEvent exampleDom st \<lparr>ev_type = ''click'', ev_target = body\<rparr>)))"
proof -
  let ?st2 = "bodyInstance\<lparr>eventMapping := [(''html > body'', [throttledClick])]\<rparr>"
  let ?st3 = "unregisterElement ?st2 ''body'' ''click'' (Node body) 0"
  let ?st = "cleanHandlers ''click'' (Node body) ?st3"
  have r: "removeEvent exampleDom bodyInstance ''body'' ''click'' = Inr (True, ?st)"
    by (simp add: removeEvent_def bodyInstance_fields Let_def unregisterSingleEvent_def
          body_elements indexed_def)
  have calls: "hostCalls ?st =
            [AddEventListener (Node body) ''click'' Self NoOptions,
             AddEventListener (Node body) ''click''
               (Throttled (Finite 100) ''html > body_click_0-click-throttle'') NoOptions,
             RemoveEventListener (Node body) ''click'' Self NoOptions]"
    by (simp add: cleanHandlers_fields unregisterElement_calls_idle bodyInstance_fields
          bodyInstance_listeners bodyInstance_calls listenerKey_def string_of_nat.simps)
  have handlers: "eventHandlerMap ?st ''click'' = None"
    by (simp add: cleanHandlers_handlers unregisterElement_fields bodyInstance_handlers)
  have notpassive: "''click'' \<notin> set (passiveEvents (config ?st))"
    by (simp add: cleanHandlers_fields unregisterElement_fields bodyInstance_fields
          bodyStart_settings defaultPassiveEvents_def)
  have flag: "\<not> userHasInteracted ?st"
    by (simp add: cleanHandlers_fields unregisterElement_fields bodyInstance_fields)
  have "handleEvent exampleDom ?st \<lparr>ev_type = ''click'', ev_target = body\<rparr> = (NoHandlers, ?st)"
    using handlers by (simp add: handleEvent_def)
  with r calls notpassive flag show ?thesis by simp
qed

section \<open>Validation\<close>

lemma firstError_iff:
  "(\<And>x. x \<in> set xs \<Longrightarrow> check x \<noteq> None \<longleftrightarrow> P x) \<Longrightarrow>
     firstError check xs \<noteq> None \<longleftrightarrow> (\<exists>x \<in> set xs. P x)"
proof (induction xs)
  case Nil
  show ?case by simp
next
  case (Cons a xs)
  have a: "check a \<noteq> None \<longleftrightarrow> P a" using Cons.prems by simp
  have "firstError check xs \<noteq> None \<longleftrightarrow> (\<exists>x \<in> set xs. P x)" using Cons by simp
  with a show ?case by (cases "check a") auto
qed

lemma set_indexed: "fst ` set (indexed xs) = set xs"
proof -
  have "map fst (indexed xs) = xs" by (simp add: indexed_def)
  then have "set (map fst (indexed xs)) = set xs" by simp
  then show ?thesis by simp
qed

lemma notPositive_iff:
  "v \<noteq> JNumber NaN \<Longrightarrow> notPositiveNumber v \<longleftrightarrow> \<not> positiveNumber v"
  by (cases v rule: notPositiveNumber.cases) auto

lemma validType_iff:
  "validType v \<longleftrightarrow> truthy v \<and> typeof v = ''string''"
  by (cases v) auto

lemma positive_truthy: "positiveNumber v \<Longrightarrow> truthy v"
  by (cases v rule: positiveNumber.cases) auto

lemma validateEventConfig_iff:
  assumes "nanFreeEntry v"
  shows "validateEventConfig selector v index \<noteq> None \<longleftrightarrow> claimedBadEntry v \<or> handlerNotString v"
proof (cases v)
  case (JString s)
  then show ?thesis by simp
next
  case JUndefined
  then show ?thesis by simp
next
  case JNull
  then show ?thesis by simp
next
  case (JBool b)
  then show ?thesis by simp
next
  case (JNumber n)
  then show ?thesis by simp
next
  case JFunction
  then show ?thesis by simp
next
  case (JArray xs)
  then show ?thesis by simp
next
  case (JHostObject name)
  then show ?thesis by simp
next
  case (JObject kvs)
  let ?th = "property v ''throttle''" and ?db = "property v ''debounce''"
  from assms have nn: "?th \<noteq> JNumber NaN" "?db \<noteq> JNumber NaN" by (simp_all add: nanFreeEntry_def)
  have t: "property v ''throttle'' \<noteq> JUndefined \<and> notPositiveNumber ?th
             \<longleftrightarrow> ?th \<noteq> JUndefined \<and> \<not> positiveNumber ?th"
    using nn by (simp add: notPositive_iff)
  have b: "?db \<noteq> JUndefined \<and> notPositiveNumber ?db \<longleftrightarrow> ?db \<noteq> JUndefined \<and> \<not> positiveNumber ?db"
    using nn by (simp add: notPositive_iff)
  have pt: "positiveNumber ?th \<Longrightarrow> truthy ?th" and pb: "positiveNumber ?db \<Longrightarrow> truthy ?db"
    by (rule positive_truthy, assumption)+
  have ut: "truthy ?th \<Longrightarrow> ?th \<noteq> JUndefined" and ub: "truthy ?db \<Longrightarrow> ?db \<noteq> JUndefined"
    by auto
  show ?thesis
    using t b pt pb ut ub JObject
    by (simp add: validType_iff del: property.simps notPositiveNumber.simps)
qed

lemma validateSelectorConfig_iff:
  assumes "nanFreeConfig c"
  shows "validateSelectorConfig selector c \<noteq> None
           \<longleftrightarrow> claimedBadConfig c \<or> selector = [] \<or> handlersNotStrings c"
proof (cases "\<exists>entries. c = JArray entries")
  case False
  then show ?thesis by (cases c) (simp_all add: validateSelectorConfig_def)
next
  case True
  then obtain entries where c: "c = JArray entries" by blast
  with assms have nf: "list_all nanFreeEntry entries" by simp
  let ?check = "\<lambda>(eventConfig, index). validateEventConfig selector eventConfig index"
  have "firstError ?check (indexed entries) \<noteq> None
          \<longleftrightarrow> (\<exists>p \<in> set (indexed entries). claimedBadEntry (fst p) \<or> handlerNotString (fst p))"
  proof (rule firstError_iff)
    fix p assume p: "p \<in> set (indexed entries)"
    then have "fst p \<in> fst ` set (indexed entries)" by (rule imageI)
    then have "fst p \<in> set entries" by (simp add: set_indexed)
    with nf have "nanFreeEntry (fst p)" by (simp add: list_all_iff)
    from validateEventConfig_iff [OF this, of selector "snd p"]
    show "?check p \<noteq> None \<longleftrightarrow> claimedBadEntry (fst p) \<or> handlerNotString (fst p)"
      by (simp add: case_prod_unfold)
  qed
  also have "\<dots> \<longleftrightarrow> (\<exists>v \<in> fst ` set (indexed entries). claimedBadEntry v \<or> handlerNotString v)"
    by blast
  also have "\<dots> \<longleftrightarrow> (\<exists>v \<in> set entries. claimedBadEntry v \<or> handlerNotString v)"
    by (simp only: set_indexed)
  finally have "firstError ?check (indexed entries) \<noteq> None
          \<longleftrightarrow> list_ex claimedBadEntry entries \<or> list_ex handlerNotString entries"
    by (auto simp: list_ex_iff)
  with c show ?thesis by (auto simp: validateSelectorConfig_def)
qed

lemma validateStrings_iff: "validateStrings v notArray notStr \<noteq> None \<longleftrightarrow> notStrings v"
proof (cases v)
  case (JArray xs)
  let ?check = "\<lambda>x. case x of JString s \<Rightarrow> if blank s then Some notStr else None
                            | _ \<Rightarrow> Some notStr"
  have "firstError ?check xs \<noteq> None
          \<longleftrightarrow> (\<exists>x \<in> set xs. case x of JString s \<Rightarrow> blank s | _ \<Rightarrow> True)"
    by (rule firstError_iff) (simp split: jsval.splits)
  with JArray show ?thesis by (simp add: validateStrings_def list_ex_iff)
qed (simp_all add: validateStrings_def)

lemma validateActionableConfig_iff: "validateActionableConfig cfg \<noteq> None \<longleftrightarrow> invalidOptions cfg"
  using validateStrings_iff [of "property cfg ''actionableAttributes''"
          ActionableAttributesNotArray ActionableAttributesNotStrings]
        validateStrings_iff [of "property cfg ''actionableClasses''"
          ActionableClassesNotArray ActionableClassesNotStrings]
        validateStrings_iff [of "property cfg ''actionableTags''"
          ActionableTagsNotArray ActionableTagsNotStrings]
  by (auto simp: validateActionableConfig_def invalidOptions_def split: option.splits)

lemma validateConfiguration_iff:
  assumes "nanFree mapping"
  shows "validateConfiguration mapping cfg \<noteq> None \<longleftrightarrow> invalidConfiguration mapping cfg"
proof -
  let ?check = "\<lambda>(selector, c). validateSelectorConfig selector c"
  have e: "firstError ?check (objectEntries mapping) \<noteq> None
          \<longleftrightarrow> (\<exists>p \<in> set (objectEntries mapping).
                 claimedBadConfig (snd p) \<or> fst p = [] \<or> handlersNotStrings (snd p))"
  proof (rule firstError_iff)
    fix p assume "p \<in> set (objectEntries mapping)"
    with assms have "nanFreeConfig (snd p)"
      by (auto simp: nanFree_def list_all_iff)
    from validateSelectorConfig_iff [OF this, of "fst p"]
    show "?check p \<noteq> None \<longleftrightarrow> claimedBadConfig (snd p) \<or> fst p = [] \<or> handlersNotStrings (snd p)"
      by (simp add: case_prod_unfold)
  qed
  have "validateConfiguration mapping cfg \<noteq> None
          \<longleftrightarrow> \<not> (truthy mapping \<and> typeof mapping = ''object'')
              \<or> firstError ?check (objectEntries mapping) \<noteq> None
              \<or> validateActionableConfig cfg \<noteq> None"
    by (auto simp: validateConfiguration_def split: option.splits)
  with e have "validateConfiguration mapping cfg \<noteq> None
          \<longleftrightarrow> \<not> (truthy mapping \<and> typeof mapping = ''object'')
              \<or> (\<exists>p \<in> set (objectEntries mapping).
                    claimedBadConfig (snd p) \<or> fst p = [] \<or> handlersNotStrings (snd p))
              \<or> invalidOptions cfg"
    by (simp only: validateActionableConfig_iff)
  then show ?thesis
    unfolding invalidConfiguration_def claimedInvalid_def list_ex_iff case_prod_unfold
    by blast
qed

lemma construct_throws:
  "truthy (merged (orEmptyObject cfgArg) ''enableConfigValidation'' (JBool True)) \<Longrightarrow>
     construct d psv fns mappingArg als cfgArg = Inl (Invalid e, st)
       \<longleftrightarrow> validateConfiguration (orEmptyObject mappingArg) (orEmptyObject cfgArg) = Some e
           \<and> st = initialInstance fns als (orEmptyObject mappingArg) (orEmptyObject cfgArg)"
  by (auto simp: construct_def Let_def liftNative_def split: option.splits sum.splits)

lemma registerEvents_rejected:
  assumes "(selector, events) \<in> set (eventMapping st)"
    and "getElements d selector = Inl e"
  shows "\<exists>thrown. registerEvents d st = Inl thrown"
  unfolding registerEvents_def
  by (rule forEach_throws [OF assms(1)]) (simp add: assms(2))

lemma construct_rejected:
  assumes "truthy (merged (orEmptyObject cfgArg) ''enableConfigValidation'' (JBool True))"
    and "validateConfiguration (orEmptyObject mappingArg) (orEmptyObject cfgArg) = None"
    and "(selector, c) \<in> set (objectEntries (orEmptyObject mappingArg))"
    and "getElements d selector = Inl e"
  shows "\<exists>e' st. construct d psv fns mappingArg als cfgArg = Inl (Native e', st)"
proof -
  let ?st = "detectPassiveSupport psv
      (initialInstance fns als (orEmptyObject mappingArg) (orEmptyObject cfgArg))"
  from assms(3) have "(selector, decodeConfigs c) \<in> set (eventMapping ?st)"
    by (force simp: detectPassiveSupport_def initialInstance_def decodeMapping_def)
  from registerEvents_rejected [OF this assms(4)]
  obtain e' st where "registerEvents d ?st = Inl (e', st)" by auto
  then have "construct d psv fns mappingArg als cfgArg = Inl (Native e', st)"
    using assms(1,2) by (simp add: construct_def Let_def liftNative_def)
  then show ?thesis by blast
qed

text \<open>
  \<^bold>\<open>C7\<close>, as the code has it. With the validation on (the default) and no \<open>NaN\<close> among the
  \<^verbatim>\<open>throttle\<close> and \<^verbatim>\<open>debounce\<close> values, the constructor throws an error of the validation
  exactly when the configuration is invalid in the sense of \<open>invalidConfiguration\<close>: the
  conditions of the claim (\<open>claimedInvalid\<close>), or an empty selector, or a \<^verbatim>\<open>handler\<close> that
  is present and not a string, or an invalid actionable option or \<^verbatim>\<open>handlerPrefix\<close> in the
  \<^verbatim>\<open>config\<close> argument. When it throws that error, the instance has no listener: nothing
  was asked of the host, and the tracking maps and the handler map are empty. A
  configuration that passes the validation and has a selector that
  \<^verbatim>\<open>document.querySelectorAll\<close> rejects makes the constructor throw while it registers:
  the error is not one of the validation.
\<close>

theorem constructor_validation:
  assumes "truthy (merged (orEmptyObject cfgArg) ''enableConfigValidation'' (JBool True))"
    and "nanFree (orEmptyObject mappingArg)"
  shows "((\<exists>e st. construct d psv fns mappingArg als cfgArg = Inl (Invalid e, st))
            \<longleftrightarrow> invalidConfiguration (orEmptyObject mappingArg) (orEmptyObject cfgArg))
         \<and> (\<forall>e st. construct d psv fns mappingArg als cfgArg = Inl (Invalid e, st) \<longrightarrow>
               hostCalls st = [] \<and> eventListeners st = [] \<and> eventHandlerMap st = Map.empty
               \<and> elementHandlers st = Map.empty)
         \<and> (claimedInvalid (orEmptyObject mappingArg) \<longrightarrow>
               (\<exists>e st. construct d psv fns mappingArg als cfgArg = Inl (Invalid e, st)))
         \<and> (\<not> invalidConfiguration (orEmptyObject mappingArg) (orEmptyObject cfgArg)
              \<and> (\<exists>(selector, c) \<in> set (objectEntries (orEmptyObject mappingArg)).
                     getElements d selector = Inl SyntaxError) \<longrightarrow>
               (\<exists>e st. construct d psv fns mappingArg als cfgArg = Inl (Native e, st)))"
proof -
  let ?m = "orEmptyObject mappingArg" and ?c = "orEmptyObject cfgArg"
  have v: "validateConfiguration ?m ?c \<noteq> None \<longleftrightarrow> invalidConfiguration ?m ?c"
    by (rule validateConfiguration_iff [OF assms(2)])
  have "(\<exists>e st. construct d psv fns mappingArg als cfgArg = Inl (Invalid e, st))
          \<longleftrightarrow> validateConfiguration ?m ?c \<noteq> None"
    by (auto simp: construct_throws [OF assms(1)])
  with v have a: "(\<exists>e st. construct d psv fns mappingArg als cfgArg = Inl (Invalid e, st))
          \<longleftrightarrow> invalidConfiguration ?m ?c"
    by simp
  have b: "\<forall>e st. construct d psv fns mappingArg als cfgArg = Inl (Invalid e, st) \<longrightarrow>
               hostCalls st = [] \<and> eventListeners st = [] \<and> eventHandlerMap st = Map.empty
               \<and> elementHandlers st = Map.empty"
    by (auto simp: construct_throws [OF assms(1)] initialInstance_def)
  have c: "claimedInvalid ?m \<longrightarrow> invalidConfiguration ?m ?c"
    by (simp add: invalidConfiguration_def)
  have r: "\<not> invalidConfiguration ?m ?c
              \<and> (\<exists>(selector, c) \<in> set (objectEntries ?m). getElements d selector = Inl SyntaxError)
           \<longrightarrow> (\<exists>e st. construct d psv fns mappingArg als cfgArg = Inl (Native e, st))"
  proof
    assume h: "\<not> invalidConfiguration ?m ?c
              \<and> (\<exists>(selector, c) \<in> set (objectEntries ?m). getElements d selector = Inl SyntaxError)"
    with v have n: "validateConfiguration ?m ?c = None" by simp
    from h obtain selector c where "(selector, c) \<in> set (objectEntries ?m)"
      and "getElements d selector = Inl SyntaxError"
      by auto
    from construct_rejected [OF assms(1) n this]
    show "\<exists>e st. construct d psv fns mappingArg als cfgArg = Inl (Native e, st)" .
  qed
  from a b c r show ?thesis by blast
qed

text \<open>
  The theorem at \<^verbatim>\<open>new YEH({ '#app': [{ type: 'click', handler: 42 }] })\<close>, where the
  validation throws, and at \<^verbatim>\<open>new YEH({ 'body': ['click'], '[': ['click'] })\<close>, where the
  validation passes and the host rejects the second selector; both with the default
  \<^verbatim>\<open>config\<close>.
\<close>

lemma numericHandler_throws:
  "construct exampleDom False exampleTables numericHandlerMapping noAliases JUndefined
     = Inl (Invalid (HandlerNotString ''#app'' 0),
            initialInstance exampleTables noAliases numericHandlerMapping (JObject []))"
  by (simp add: construct_def orEmptyObject_def numericHandlerMapping_def Let_def
        validateConfiguration_def validateSelectorConfig_def indexed_def)

lemma broken_valid: "validateConfiguration brokenMapping (JObject []) = None"
  by (simp add: validateConfiguration_def validateSelectorConfig_def brokenMapping_def
        validateActionableConfig_def validateStrings_def blank_def indexed_def)

lemma broken_rejected: "getElements exampleDom ''['' = Inl SyntaxError"
  by (simp add: getElements_def exampleDom_def)

lemma broken_throws:
  "construct exampleDom False exampleTables brokenMapping noAliases JUndefined
     = Inl (Native SyntaxError,
            listenerAdded
              (detectPassiveSupport False
                 (initialInstance exampleTables noAliases brokenMapping (JObject [])))
              (Node body) (EvString ''click'') ''body_click_0'' ''body'')"
proof -
  let ?st = "detectPassiveSupport False
      (initialInstance exampleTables noAliases brokenMapping (JObject []))"
  have m: "eventMapping ?st = [(''body'', [EvString ''click'']), (''['', [EvString ''click''])]"
    by (simp add: detectPassiveSupport_def initialInstance_def decodeMapping_def brokenMapping_def)
  have o: "\<not> abortController ?st" "\<not> passiveSupported (config ?st)"
    by (simp_all add: detectPassiveSupport_def initialInstance_def initialSettings_def)
  have "registerEvents exampleDom ?st
          = Inl (SyntaxError, listenerAdded ?st (Node body) (EvString ''click'') ''body_click_0''
                   ''body'')"
    by (simp add: registerEvents_def m body_elements broken_rejected indexed_def listenerKey_def
          string_of_nat.simps registerEventListener_def o del: getEventOptions.simps)
       (simp add: o)
  moreover have "orEmptyObject brokenMapping = brokenMapping"
    by (simp add: orEmptyObject_def brokenMapping_def)
  ultimately show ?thesis
    by (simp add: construct_def orEmptyObject_undefined Let_def broken_valid liftNative_def)
qed

theorem constructor_validation_witness:
  "truthy (merged (orEmptyObject JUndefined) ''enableConfigValidation'' (JBool True))
   \<and> nanFree (orEmptyObject numericHandlerMapping)
   \<and> invalidConfiguration (orEmptyObject numericHandlerMapping) (orEmptyObject JUndefined)
   \<and> hostCalls (initialInstance exampleTables noAliases numericHandlerMapping (JObject [])) = []
   \<and> nanFree (orEmptyObject brokenMapping)
   \<and> \<not> invalidConfiguration (orEmptyObject brokenMapping) (orEmptyObject JUndefined)
   \<and> (\<exists>e st. construct exampleDom False exampleTables brokenMapping noAliases JUndefined
                 = Inl (Native e, st))"
proof -
  have a: "truthy (merged (orEmptyObject JUndefined) ''enableConfigValidation'' (JBool True))"
    by (simp add: orEmptyObject_def)
  have b: "nanFree (orEmptyObject numericHandlerMapping)"
    by (simp add: orEmptyObject_def numericHandlerMapping_def nanFree_def nanFreeEntry_def)
  have b': "nanFree (orEmptyObject brokenMapping)"
    by (simp add: orEmptyObject_def brokenMapping_def nanFree_def nanFreeEntry_def)
  from constructor_validation [OF a b, of exampleDom False exampleTables noAliases]
    numericHandler_throws
  have 1: "invalidConfiguration (orEmptyObject numericHandlerMapping) (orEmptyObject JUndefined)
        \<and> hostCalls (initialInstance exampleTables noAliases numericHandlerMapping (JObject [])) = []"
    by blast
  note th = constructor_validation [OF a b', of exampleDom False exampleTables noAliases]
  from th broken_throws
  have 2: "\<not> invalidConfiguration (orEmptyObject brokenMapping) (orEmptyObject JUndefined)"
    by auto
  have "(''['', JArray [JString ''click'']) \<in> set (objectEntries (orEmptyObject brokenMapping))"
    by (simp add: orEmptyObject_def brokenMapping_def)
  with broken_rejected
  have "\<exists>(selector, c) \<in> set (objectEntries (orEmptyObject brokenMapping)).
          getElements exampleDom selector = Inl SyntaxError"
    by blast
  with th 2
  have 3: "\<exists>e st. construct exampleDom False exampleTables brokenMapping noAliases JUndefined
                 = Inl (Native e, st)"
    by blast
  from a b b' 1 2 3 show ?thesis by blast
qed

text \<open>
  The claim as stated fails at both: at the first the constructor throws and none of the
  conditions the claim lists holds; at the second it throws, none of the conditions
  holds, and the listener of the first selector has been added to \<^verbatim>\<open>body\<close> before the
  throw.
\<close>

theorem constructor_validation_counterexample:
  "\<not> claimedInvalid numericHandlerMapping
   \<and> construct exampleDom False exampleTables numericHandlerMapping noAliases JUndefined
       = Inl (Invalid (HandlerNotString ''#app'' 0),
              initialInstance exampleTables noAliases numericHandlerMapping (JObject []))
   \<and> \<not> claimedInvalid brokenMapping
   \<and> (case construct exampleDom False exampleTables brokenMapping noAliases JUndefined of
         Inl (e, st) \<Rightarrow>
           e = Native SyntaxError
           \<and> hostCalls st = [AddEventListener (Node body) ''click'' Self NoOptions]
       | Inr st \<Rightarrow> False)"
proof -
  have 1: "\<not> claimedInvalid numericHandlerMapping"
    by (simp add: claimedInvalid_def numericHandlerMapping_def)
  have 2: "\<not> claimedInvalid brokenMapping"
    by (simp add: claimedInvalid_def brokenMapping_def blank_def)
  let ?st = "detectPassiveSupport False
      (initialInstance exampleTables noAliases brokenMapping (JObject []))"
  have "hostCalls (listenerAdded ?st (Node body) (EvString ''click'') ''body_click_0'' ''body'')
          = [AddEventListener (Node body) ''click'' Self NoOptions]"
    by (simp add: listenerAdded_calls)
       (simp add: detectPassiveSupport_def initialInstance_def initialSettings_def
          resolveHandler_def resolveMethodName_def noAliases_def exampleTables_def
          prefixedName_def toUpperCase_def)
  with 1 2 numericHandler_throws broken_throws show ?thesis by simp
qed
section \<open>Adding and removing registrations\<close>
































section \<open>Teardown\<close>

lemma destroy_fields:
  "eventListeners (destroy st) = []"
  "eventHandlerMap (destroy st) = Map.empty"
  "distanceCache (destroy st) = Map.empty"
  "throttleTimers (destroy st) = []"
  "debounceTimers (destroy st) = []"
  "\<not> abortController (destroy st)"
  "eventMapping (destroy st) = eventMapping st"
  "elementHandlers (destroy st) = elementHandlers st"
  "config (destroy st) = config st"
  "userHasInteracted (destroy st) = userHasInteracted st"
  by (simp_all add: destroy_def abort_def Let_def)

lemma destroy_calls:
  "hostCalls (destroy st) =
     hostCalls st
     @ (if abortController st then [AbortSignal] else removeAll (eventListeners st))
     @ concat (map (\<lambda>(key, timerData). clearThrottleEntry timerData) (throttleTimers st))
     @ map (\<lambda>(key, timerId). ClearTimeout timerId) (debounceTimers st)"
  by (simp add: destroy_def abort_def Let_def)

lemma destroy_twice: "destroy (destroy st) = destroy st"
proof -
  have c: "hostCalls (destroy (destroy st)) = hostCalls (destroy st)"
    by (subst destroy_calls) (simp add: destroy_fields removeAll_def)
  show ?thesis
    by (rule yeh.equality) (simp_all add: destroy_fields c)
qed

text \<open>
  What \<^verbatim>\<open>destroy\<close> does to the listeners, the maps and the timers: it aborts the
  controller when there is one, and otherwise removes every tracked listener from its
  element; it clears the timers held in the throttle and debounce maps; afterwards the
  listener tracking map, the handler map, the distance cache and the two timer maps are
  empty and the controller is gone. A second call changes nothing.
\<close>

lemma destroy_clears:
  "eventListeners (destroy st) = []
   \<and> eventHandlerMap (destroy st) = Map.empty
   \<and> distanceCache (destroy st) = Map.empty
   \<and> throttleTimers (destroy st) = []
   \<and> debounceTimers (destroy st) = []
   \<and> \<not> abortController (destroy st)
   \<and> hostCalls (destroy st) =
       hostCalls st
       @ (if abortController st then [AbortSignal] else removeAll (eventListeners st))
       @ concat (map (\<lambda>(key, timerData). clearThrottleEntry timerData) (throttleTimers st))
       @ map (\<lambda>(key, timerId). ClearTimeout timerId) (debounceTimers st)
   \<and> destroy (destroy st) = destroy st"
  by (simp add: destroy_fields destroy_calls destroy_twice)

text \<open>
  \<^bold>\<open>C9\<close>. On the instance with the registrations of \<^verbatim>\<open>openPanel\<close> and \<^verbatim>\<open>selectItem\<close>,
  \<^verbatim>\<open>destroy()\<close> removes both listeners from their elements and leaves the listener
  tracking map and the handler map empty. It does not clear \<^verbatim>\<open>eventMapping\<close>: afterwards
  \<^verbatim>\<open>hasEvent('[data-panel]', 'click')\<close> is still true, and
  \<^verbatim>\<open>addEvent('[data-panel]', 'click')\<close> returns false, as for a registration that
  exists, and attaches no listener. The registration is not removed for \<^verbatim>\<open>hasEvent\<close> and
  \<^verbatim>\<open>addEvent\<close>, and cannot be made again.
\<close>

theorem destroy_stale_mapping:
  "hostCalls (destroy panelInstance)
     = [AddEventListener (Node outerDiv) ''click'' Self NoOptions,
        AddEventListener (Node innerDiv) ''click'' Self NoOptions,
        RemoveEventListener (Node outerDiv) ''click'' Self NoOptions,
        RemoveEventListener (Node innerDiv) ''click'' Self NoOptions]
   \<and> eventListeners (destroy panelInstance) = []
   \<and> eventHandlerMap (destroy panelInstance) ''click'' = None
   \<and> hasEvent (destroy panelInstance) ''[data-panel]'' ''click'' = Inr True
   \<and> addEvent exampleDom (destroy panelInstance) ''[data-panel]'' (EvString ''click'')
       = Inr (False, destroy panelInstance)"
proof -
  have c: "hostCalls (destroy panelInstance)
     = [AddEventListener (Node outerDiv) ''click'' Self NoOptions,
        AddEventListener (Node innerDiv) ''click'' Self NoOptions,
        RemoveEventListener (Node outerDiv) ''click'' Self NoOptions,
        RemoveEventListener (Node innerDiv) ''click'' Self NoOptions]"
    by (simp add: destroy_calls panelInstance_fields panelInstance_listeners panelInstance_calls
          removeAll_def)
  have h: "hasEvent (destroy panelInstance) ''[data-panel]'' ''click'' = Inr True"
    by (simp add: hasEvent_def destroy_fields panelInstance_fields panel_configs)
  then have "addEvent exampleDom (destroy panelInstance) ''[data-panel]'' (EvString ''click'')
       = Inr (False, destroy panelInstance)"
    by (simp add: addEvent_def)
  with c h show ?thesis by (simp add: destroy_fields)
qed
section \<open>Properties of debounce\<close>

lemma earliest_mem: "earliest es = Some e \<Longrightarrow> e \<in> set es"
  by (induction es arbitrary: e) (auto split: option.splits if_splits)

lemma pending_fire: "pending (fire cb s) = pending s"
  by (cases cb) (auto split: option.splits)

lemma filter_handle_shorter:
  "(h, due, cb) \<in> set es \<Longrightarrow> length (filter (\<lambda>(h', due', cb'). h' \<noteq> h) es) < length es"
  by (induction es) (auto simp: less_Suc_eq_le)

lemma advance_no_timer: "pending s = [] \<Longrightarrow> advance t s = s\<lparr>clock := max (clock s) t\<rparr>"
  by (subst advance.simps) simp

lemma advance_one_due:
  "pending s = [(h, due, cb)] \<Longrightarrow> due \<le> t \<Longrightarrow>
     advance t s = (fire cb (s\<lparr>clock := max (clock s) due, pending := []\<rparr>))\<lparr>clock :=
       max (max (clock s) due) t\<rparr>"
  by (subst advance.simps) (simp add: advance_no_timer pending_fire, cases cb, auto split: option.splits)

lemma advance_one_later:
  "pending s = [(h, due, cb)] \<Longrightarrow> t < due \<Longrightarrow> advance t s = s\<lparr>clock := max (clock s) t\<rparr>"
  by (subst advance.simps) simp

lemma debounced_armed:
  fixes s :: "'a scheduler"
  assumes "pending s = [(h, t0 + delay, DebouncedCall key a0)]"
    and "debounceMap s key = Some h"
    and "clock s = t0"
    and "sorted (t0 # map fst cs)"
    and "fst (last ((t0, a0) # cs)) + delay \<le> T"
  shows "executions (advance T (debouncedCalls delay key cs s))
           = executions s @ elapsed delay ((t0, a0) # cs)"
  using assms
proof (induction cs arbitrary: s h t0 a0)
  case Nil
  then show ?case by (simp add: advance_one_due)
next
  case (Cons c cs)
  obtain t a where c: "c = (t, a)" by (cases c)
  from Cons.prems(4) c have le: "t0 \<le> t" and srt: "sorted (t # map fst cs)" by auto
  from Cons.prems(5) c have T: "fst (last ((t, a) # cs)) + delay \<le> T" by simp
  let ?s' = "callAt t (debounced delay key a) s"
  show ?case
  proof (cases "t0 + delay \<le> t")
    case True
    have p: "pending ?s' = [(nextHandle s, t + delay, DebouncedCall key a)]"
      and m: "debounceMap ?s' key = Some (nextHandle s)"
      and k: "clock ?s' = t"
      and e: "executions ?s' = executions s @ [(t0 + delay, a0)]"
      using Cons.prems(1,2,3) True le
      by (simp_all add: callAt_def advance_one_due debounced_def setTimeout_def clearTimeout_def)
    from Cons.IH [OF p m k srt T] e True c show ?thesis by simp
  next
    case False
    then have lt: "t < t0 + delay" by simp
    have p: "pending ?s' = [(nextHandle s, t + delay, DebouncedCall key a)]"
      and m: "debounceMap ?s' key = Some (nextHandle s)"
      and k: "clock ?s' = t"
      and e: "executions ?s' = executions s"
      using Cons.prems(1,2,3) lt le
      by (simp_all add: callAt_def advance_one_later debounced_def setTimeout_def clearTimeout_def)
    from Cons.IH [OF p m k srt T] e False c show ?thesis by simp
  qed
qed

lemma debounced_idle:
  assumes "sorted (map fst cs)" and "cs \<noteq> [] \<longrightarrow> fst (last cs) + delay \<le> T"
  shows "executions (advance T (debouncedCalls delay key cs idle)) = elapsed delay cs"
proof (cases cs)
  case Nil
  then show ?thesis by (simp add: idle_def advance_no_timer)
next
  case (Cons c cs')
  obtain t a where c: "c = (t, a)" by (cases c)
  let ?s = "callAt t (debounced delay key a) (idle :: 'a scheduler)"
  have p: "pending ?s = [(1, t + delay, DebouncedCall key a)]"
    and m: "debounceMap ?s key = Some 1"
    and k: "clock ?s = t"
    and e: "executions ?s = []"
    by (simp_all add: callAt_def idle_def advance_no_timer debounced_def setTimeout_def)
  from assms Cons c have srt: "sorted (t # map fst cs')"
    and T: "fst (last ((t, a) # cs')) + delay \<le> T" by auto
  from debounced_armed [OF p m k srt T] e Cons c show ?thesis by simp
qed

lemmas limiter_defs = callAt_def throttled_def debounced_def leadingEdge_def trailingEdge_def
  setTimeout_def clearTimeout_def idle_def advance.simps

text \<open>
  \<^bold>\<open>C6\<close>. A function debounced with delay 200 and called at the times 0, 50 and 100 with
  one key executes exactly once, at time 300, with the arguments of the call at time 100:
  at any time before 300 nothing has executed, and from 300 on the log holds that one
  execution. In general, for calls with one key at times that do not decrease, each call
  clears the timer of the call before it, and the executions are those of the calls
  whose timer elapsed before the next call came (\<open>elapsed\<close>), each \<open>delay\<close> after its call
  and with its own arguments.
\<close>

theorem debounce_property:
  "(T < 300 \<longrightarrow>
      executions (advance T (debouncedCalls 200 key [(0, a0), (50, a1), (100, a2)] idle)) = [])
   \<and> (300 \<le> T \<longrightarrow>
      executions (advance T (debouncedCalls 200 key [(0, a0), (50, a1), (100, a2)] idle))
        = [(300, a2)])
   \<and> (sorted (map fst cs) \<and> (cs \<noteq> [] \<longrightarrow> fst (last cs) + delay \<le> T') \<longrightarrow>
      executions (advance T' (debouncedCalls delay key cs idle)) = elapsed delay cs)"
proof (intro conjI impI)
  assume "T < 300"
  then show "executions (advance T (debouncedCalls 200 key [(0, a0), (50, a1), (100, a2)] idle)) = []"
    by (simp add: limiter_defs)
next
  assume "300 \<le> T"
  then show "executions (advance T (debouncedCalls 200 key [(0, a0), (50, a1), (100, a2)] idle))
        = [(300, a2)]"
    by (simp add: limiter_defs)
next
  assume "sorted (map fst cs) \<and> (cs \<noteq> [] \<longrightarrow> fst (last cs) + delay \<le> T')"
  then show "executions (advance T' (debouncedCalls delay key cs idle)) = elapsed delay cs"
    using debounced_idle by blast
qed

text \<open>
  The theorem at the scenario of the claim, observed at the times 299 and 300, and at a
  series of four calls with delay 10 of which the second and the fourth elapse.
\<close>

theorem debounce_property_witness:
  "executions (advance 299 (debouncedCalls 200 ''search'' [(0, ''a''), (50, ''ab''), (100, ''abc'')] idle)) = []
   \<and> executions (advance 300 (debouncedCalls 200 ''search'' [(0, ''a''), (50, ''ab''), (100, ''abc'')] idle))
       = [(300, ''abc'')]
   \<and> sorted (map fst [(0 :: nat, ''a''), (5, ''b''), (20, ''c''), (25, ''d'')])
   \<and> executions (advance 35 (debouncedCalls 10 ''search'' [(0, ''a''), (5, ''b''), (20, ''c''), (25, ''d'')] idle))
       = [(15, ''b''), (35, ''d'')]"
proof -
  let ?cs = "[(0 :: nat, ''a''), (5, ''b''), (20, ''c''), (25, ''d'')]"
  have a: "sorted (map fst ?cs)" by simp
  have b: "?cs \<noteq> [] \<longrightarrow> fst (last ?cs) + 10 \<le> 35" by simp
  have c: "(299 :: nat) < 300" by simp
  have d: "(300 :: nat) \<le> 300" by simp
  note early = debounce_property [where T = 299 and key = "''search''" and ?a0.0 = "''a''"
        and ?a1.0 = "''ab''" and ?a2.0 = "''abc''" and cs = ?cs and T' = 35 and delay = 10]
  note late = debounce_property [where T = 300 and key = "''search''" and ?a0.0 = "''a''"
        and ?a1.0 = "''ab''" and ?a2.0 = "''abc''" and cs = ?cs and T' = 35 and delay = 10]
  from c early
  have e: "executions (advance 299 (debouncedCalls 200 ''search''
             [(0, ''a''), (50, ''ab''), (100, ''abc'')] idle)) = []"
    by blast
  from d late
  have f: "executions (advance 300 (debouncedCalls 200 ''search''
             [(0, ''a''), (50, ''ab''), (100, ''abc'')] idle)) = [(300, ''abc'')]"
    by blast
  from a b late
  have "executions (advance 35 (debouncedCalls 10 ''search'' ?cs idle)) = elapsed 10 ?cs"
    by blast
  then have g: "executions (advance 35 (debouncedCalls 10 ''search'' ?cs idle))
                  = [(15, ''b''), (35, ''d'')]"
    by simp
  from a e f g show ?thesis by blast
qed

section \<open>Properties of throttle\<close>

text \<open>
  \<^bold>\<open>C3\<close>. A function throttled with a delay \<open>d\<close> above 10 and called at the times 0, 10
  and \<open>10 + d - 1\<close> with one key executes three times: at time 0 with the arguments of the
  first call, at time \<open>d + 9\<close> with the arguments of the third call, and at time \<open>d + 10\<close>
  with the arguments of the second call. The cooldown timer deletes the key at time \<open>d\<close>
  while the trailing timer set at time 10 is still pending, so the third call finds no
  entry and takes the leading edge; the trailing timer fires one millisecond later.
\<close>

theorem throttle_scenario:
  "10 < d \<Longrightarrow> d + 10 \<le> T \<Longrightarrow>
     executions (advance T (throttledCalls d key [(0, a0), (10, a1), (10 + d - 1, a2)] idle))
       = [(0, a0), (d + 9, a2), (d + 10, a1)]"
  by (simp add: limiter_defs)

theorem throttle_scenario_witness:
  "(10 :: nat) < 100 \<and> (100 :: nat) + 10 \<le> 110
   \<and> executions (advance 110 (throttledCalls 100 ''scroll''
         [(0, ''first''), (10, ''second''), (109, ''third'')] idle))
       = [(0, ''first''), (109, ''third''), (110, ''second'')]"
proof -
  have a: "(10 :: nat) < 100" by simp
  have b: "(100 :: nat) + 10 \<le> 110" by simp
  from throttle_scenario [OF a b, where key = "''scroll''" and ?a0.0 = "''first''"
      and ?a1.0 = "''second''" and ?a2.0 = "''third''"]
  show ?thesis by simp
qed

end
